theory Spec2Isabelle
  imports Main "HOL-Library.Word" "HOL-Library.Sublist"
begin

section \<open>Convergence engine of the vSphere VM provider (session_vm_update.go)\<close>

text \<open>
  A shallow embedding of \<^verbatim>\<open>pkg/vmprovider/providers/vsphere/session_vm_update.go\<close>.
  Go structs are records, Go interfaces over a closed set of implementations are
  datatypes, nullable pointers are \<open>option\<close>s, slices are lists and \<open>int32\<close>/\<open>int64\<close>
  are machine words. A function that can return an error or panic returns a sum whose
  \<open>Inl\<close> side is the failure; a function that calls the hypervisor or another collaborator
  also returns the list of calls it made, in order.
\<close>

subsection \<open>Integers, errors and panics\<close>

type_synonym int32 = "32 word"
type_synonym int64 = "64 word"
type_synonym uint64 = "64 word"

text \<open>Go's \<open>resource.Quantity\<close> is read only through \<open>IsZero\<close> and the two conversion
  helpers; it is modelled by its numeric value.\<close>

type_synonym Quantity = int

definition IsZero :: "Quantity \<Rightarrow> bool" where
  "IsZero q = (q = 0)"

text \<open>The faults a \<open>task.Error\<close> can carry: the one the customization gate looks for,
  and any other, named by its type.\<close>

datatype fault = CustomizationPending | OtherFault string

text \<open>Error values: a \<open>task.Error\<close> wrapping a fault, an error made by \<open>fmt.Errorf\<close>
  or returned by a collaborator (its message), and the aggregate of
  \<open>k8serrors.NewAggregate\<close>.\<close>

datatype go_error =
    TaskError fault
  | ErrorString string
  | AggregateError "go_error list"

text \<open>A function fails either by returning an error value or by a runtime panic
  (nil dereference, index out of range, failed type assertion), which unwinds through
  every caller in this file.\<close>

datatype failure = Error go_error | Panic string

text \<open>\<open>k8serrors.NewAggregate\<close>: \<open>nil\<close> for an empty list, the aggregate otherwise.\<close>

definition NewAggregate :: "go_error list \<Rightarrow> go_error option" where
  "NewAggregate errs = (if errs = [] then None else Some (AggregateError errs))"

subsection \<open>Devices and their backings\<close>

text \<open>
  The \<open>Backing\<close> field of a device is an interface value. The constructors are the
  backing types the matchers inspect; \<open>OtherBacking\<close> is any other backing type, named
  by its Go type. An allowed device of a dynamic passthrough backing is its
  (VendorId, DeviceId) pair.
\<close>

datatype backing =
    VirtualEthernetCardNetworkBackingInfo string
  | VirtualEthernetCardDistributedVirtualPortBackingInfo string string
  | VirtualEthernetCardOpaqueNetworkBackingInfo string
  | VirtualPCIPassthroughVmiopBackingInfo string
  | VirtualPCIPassthroughDynamicBackingInfo "(int32 \<times> int32) list" string
  | OtherBacking string

text \<open>\<open>reflect.TypeOf\<close> of a backing: the name of its dynamic type.\<close>

fun TypeOf :: "backing \<Rightarrow> string" where
  "TypeOf (VirtualEthernetCardNetworkBackingInfo _) = ''VirtualEthernetCardNetworkBackingInfo''"
| "TypeOf (VirtualEthernetCardDistributedVirtualPortBackingInfo _ _) =
     ''VirtualEthernetCardDistributedVirtualPortBackingInfo''"
| "TypeOf (VirtualEthernetCardOpaqueNetworkBackingInfo _) =
     ''VirtualEthernetCardOpaqueNetworkBackingInfo''"
| "TypeOf (VirtualPCIPassthroughVmiopBackingInfo _) = ''VirtualPCIPassthroughVmiopBackingInfo''"
| "TypeOf (VirtualPCIPassthroughDynamicBackingInfo _ _) =
     ''VirtualPCIPassthroughDynamicBackingInfo''"
| "TypeOf (OtherBacking n) = ''Other.'' @ n"

record VirtualDevice =
  Key :: int32
  Backing :: "backing option"

record VirtualEthernetCard = VirtualDevice +
  AddressType :: string
  MacAddress :: string
  ExternalId :: string

text \<open>The devices of \<open>config.Hardware.Device\<close>, by the class \<open>SelectByType\<close> sorts them
  into.\<close>

datatype device =
    Disk VirtualDevice
  | EthernetCard VirtualEthernetCard
  | PCIPassthrough VirtualDevice
  | OtherDevice VirtualDevice

datatype operation = OperationAdd | OperationRemove | OperationEdit

record VirtualDeviceConfigSpec =
  Device :: device
  Operation :: operation

definition VirtualEthernetCardMacTypeManual :: string where
  "VirtualEthernetCardMacTypeManual = ''manual''"

subsection \<open>Network-adapter matching\<close>

definition ethCardMatch :: "VirtualEthernetCard \<Rightarrow> VirtualEthernetCard \<Rightarrow> bool" where
  "ethCardMatch newEthCard curEthCard =
     (if AddressType newEthCard = VirtualEthernetCardMacTypeManual
         \<and> MacAddress newEthCard \<noteq> MacAddress curEthCard then False
      else if ExternalId newEthCard \<noteq> ''''
         \<and> ExternalId newEthCard \<noteq> ExternalId curEthCard then False
      else True)"

text \<open>The type switch on the current backing \<open>db\<close>. It is reached only when \<open>db\<close> and the
  expected backing have the same dynamic type; a backing type that is none of the three
  cases leaves \<open>backingMatch\<close> false.\<close>

fun ethBackingMatch :: "backing \<Rightarrow> backing \<Rightarrow> bool" where
  "ethBackingMatch (VirtualEthernetCardNetworkBackingInfo a)
                   (VirtualEthernetCardNetworkBackingInfo b) = (a = b)"
| "ethBackingMatch (VirtualEthernetCardDistributedVirtualPortBackingInfo aSwitch aPortgroup)
                   (VirtualEthernetCardDistributedVirtualPortBackingInfo bSwitch bPortgroup) =
     (aSwitch = bSwitch \<and> aPortgroup = bPortgroup)"
| "ethBackingMatch (VirtualEthernetCardOpaqueNetworkBackingInfo a)
                   (VirtualEthernetCardOpaqueNetworkBackingInfo b) = (a = b)"
| "ethBackingMatch _ _ = False"

text \<open>One iteration of the inner loop of \<open>updateEthCardDeviceChanges\<close>: whether the
  current card \<open>nic\<close> is taken as the match of the expected card.\<close>

definition ethCandidateMatches :: "VirtualEthernetCard \<Rightarrow> VirtualEthernetCard \<Rightarrow> bool" where
  "ethCandidateMatches expectedNic nic =
     (if \<not> ethCardMatch expectedNic nic then False
      else case Backing nic of
        None \<Rightarrow> False
      | Some db \<Rightarrow>
          (if map_option TypeOf (Backing expectedNic) \<noteq> Some (TypeOf db) then False
           else case Backing expectedNic of
             None \<Rightarrow> False
           | Some expectedBacking \<Rightarrow> ethBackingMatch db expectedBacking))"

text \<open>The inner loop: the index of the first current card that matches, counted from
  \<open>idx\<close>; \<open>None\<close> is the \<open>matchingIdx = -1\<close> of the source.\<close>

fun ethMatchingIdx :: "VirtualEthernetCard \<Rightarrow> VirtualEthernetCard list \<Rightarrow> nat \<Rightarrow> nat option" where
  "ethMatchingIdx expectedNic [] idx = None"
| "ethMatchingIdx expectedNic (curDev # rest) idx =
     (if ethCandidateMatches expectedNic curDev then Some idx
      else ethMatchingIdx expectedNic rest (Suc idx))"

text \<open>\<open>append(xs[:i], xs[i+1:]...)\<close>.\<close>

definition removeAt :: "nat \<Rightarrow> 'a list \<Rightarrow> 'a list" where
  "removeAt i xs = take i xs @ drop (Suc i) xs"

definition addChange :: "device \<Rightarrow> VirtualDeviceConfigSpec" where
  "addChange d = \<lparr>Device = d, Operation = OperationAdd\<rparr>"

definition removeChange :: "device \<Rightarrow> VirtualDeviceConfigSpec" where
  "removeChange d = \<lparr>Device = d, Operation = OperationRemove\<rparr>"

text \<open>The outer loop over the expected cards, with the two variables it updates: the
  shrinking \<open>currentEthCards\<close> and the growing \<open>deviceChanges\<close>.\<close>

fun ethCardLoop ::
  "VirtualEthernetCard list \<Rightarrow> VirtualEthernetCard list \<Rightarrow> VirtualDeviceConfigSpec list
   \<Rightarrow> VirtualEthernetCard list \<times> VirtualDeviceConfigSpec list" where
  "ethCardLoop [] currentEthCards deviceChanges = (currentEthCards, deviceChanges)"
| "ethCardLoop (expectedDev # rest) currentEthCards deviceChanges =
     (case ethMatchingIdx expectedDev currentEthCards 0 of
        None \<Rightarrow>
          ethCardLoop rest currentEthCards (deviceChanges @ [addChange (EthernetCard expectedDev)])
      | Some matchingIdx \<Rightarrow>
          ethCardLoop rest (removeAt matchingIdx currentEthCards) deviceChanges)"

text \<open>The error result of the source is always \<open>nil\<close>, so the model returns the list.\<close>

definition updateEthCardDeviceChanges ::
  "VirtualEthernetCard list \<Rightarrow> VirtualEthernetCard list \<Rightarrow> VirtualDeviceConfigSpec list" where
  "updateEthCardDeviceChanges expectedEthCards currentEthCards =
     (case ethCardLoop expectedEthCards currentEthCards [] of
        (remaining, deviceChanges) \<Rightarrow>
          map (\<lambda>dev. removeChange (EthernetCard dev)) remaining @ deviceChanges)"

subsection \<open>Passthrough-device matching\<close>

text \<open>The loop over the allowed devices of the current backing:
  \<^verbatim>\<open>for i := 0; i < len(currAllowedDevs) && !backingMatch; i++\<close>. An allowed device is
  its (VendorId, DeviceId) pair.\<close>

fun allowedDevLoop :: "int32 \<times> int32 \<Rightarrow> (int32 \<times> int32) list \<Rightarrow> bool \<Rightarrow> bool" where
  "allowedDevLoop expectedAllowedDev [] backingMatch = backingMatch"
| "allowedDevLoop expectedAllowedDev (cur # rest) backingMatch =
     (if backingMatch then backingMatch
      else allowedDevLoop expectedAllowedDev rest
             (snd expectedAllowedDev = snd cur \<and> fst expectedAllowedDev = fst cur))"

text \<open>The type switch on the current backing \<open>a\<close>, against the expected backing \<open>b\<close> of
  the same dynamic type. \<open>b.AllowedDevice[0]\<close> panics on an empty list.\<close>

fun pciBackingMatch :: "backing \<Rightarrow> backing \<Rightarrow> failure + bool" where
  "pciBackingMatch (VirtualPCIPassthroughVmiopBackingInfo aVgpu)
                   (VirtualPCIPassthroughVmiopBackingInfo bVgpu) = Inr (aVgpu = bVgpu)"
| "pciBackingMatch (VirtualPCIPassthroughDynamicBackingInfo currAllowedDevs aCustomLabel)
                   (VirtualPCIPassthroughDynamicBackingInfo bAllowedDevice bCustomLabel) =
     (if aCustomLabel = bCustomLabel then
        (case bAllowedDevice of
           [] \<Rightarrow> Inl (Panic ''index out of range [0] with length 0'')
         | expectedAllowedDev # _ \<Rightarrow> Inr (allowedDevLoop expectedAllowedDev currAllowedDevs False))
      else Inr False)"
| "pciBackingMatch _ _ = Inr False"

definition pciCandidateMatches :: "VirtualDevice \<Rightarrow> VirtualDevice \<Rightarrow> failure + bool" where
  "pciCandidateMatches expectedPci curDev =
     (case Backing curDev of
        None \<Rightarrow> Inr False
      | Some curBacking \<Rightarrow>
          (if map_option TypeOf (Backing expectedPci) \<noteq> Some (TypeOf curBacking) then Inr False
           else case Backing expectedPci of
             None \<Rightarrow> Inr False
           | Some expectedBacking \<Rightarrow> pciBackingMatch curBacking expectedBacking))"

fun pciMatchingIdx :: "VirtualDevice \<Rightarrow> VirtualDevice list \<Rightarrow> nat \<Rightarrow> failure + nat option" where
  "pciMatchingIdx expectedPci [] idx = Inr None"
| "pciMatchingIdx expectedPci (curDev # rest) idx =
     (case pciCandidateMatches expectedPci curDev of
        Inl p \<Rightarrow> Inl p
      | Inr backingMatch \<Rightarrow>
          (if backingMatch then Inr (Some idx) else pciMatchingIdx expectedPci rest (Suc idx)))"

fun pciDeviceLoop ::
  "VirtualDevice list \<Rightarrow> VirtualDevice list \<Rightarrow> VirtualDeviceConfigSpec list
   \<Rightarrow> failure + VirtualDevice list \<times> VirtualDeviceConfigSpec list" where
  "pciDeviceLoop [] currentPciDevices deviceChanges = Inr (currentPciDevices, deviceChanges)"
| "pciDeviceLoop (expectedDev # rest) currentPciDevices deviceChanges =
     (case pciMatchingIdx expectedDev currentPciDevices 0 of
        Inl p \<Rightarrow> Inl p
      | Inr None \<Rightarrow>
          pciDeviceLoop rest currentPciDevices
            (deviceChanges @ [addChange (PCIPassthrough expectedDev)])
      | Inr (Some matchingIdx) \<Rightarrow>
          pciDeviceLoop rest (removeAt matchingIdx currentPciDevices) deviceChanges)"

definition updatePCIDeviceChanges ::
  "VirtualDevice list \<Rightarrow> VirtualDevice list \<Rightarrow> failure + VirtualDeviceConfigSpec list" where
  "updatePCIDeviceChanges expectedPciDevices currentPciDevices =
     (case pciDeviceLoop expectedPciDevices currentPciDevices [] of
        Inl p \<Rightarrow> Inl p
      | Inr (remaining, deviceChanges) \<Rightarrow>
          Inr (map (\<lambda>dev. removeChange (PCIPassthrough dev)) remaining @ deviceChanges))"

record VGPUDevice =
  ProfileName :: string

record DynamicDirectPathIODevice =
  VendorID :: int64
  DeviceID :: int64
  CustomLabel :: string

record VirtualDevices =
  VGPUDevices :: "VGPUDevice list"
  DynamicDirectPathIODevices :: "DynamicDirectPathIODevice list"

definition createPCIPassThroughDevice :: "int32 \<Rightarrow> backing \<Rightarrow> VirtualDevice" where
  "createPCIPassThroughDevice deviceKey backingInfo =
     \<lparr>Key = deviceKey, Backing = Some backingInfo\<rparr>"

text \<open>The two loops of \<open>createPCIDevices\<close>; each returns the devices it appended and the
  next \<open>deviceKey\<close>. \<open>int32(x)\<close> of a Go \<open>int\<close> keeps the low 32 bits.\<close>

fun vGPULoop :: "VGPUDevice list \<Rightarrow> int32 \<Rightarrow> VirtualDevice list \<times> int32" where
  "vGPULoop [] deviceKey = ([], deviceKey)"
| "vGPULoop (vGPU # rest) deviceKey =
     (case vGPULoop rest (deviceKey - 1) of
        (devs, k) \<Rightarrow>
          (createPCIPassThroughDevice deviceKey
             (VirtualPCIPassthroughVmiopBackingInfo (ProfileName vGPU)) # devs, k))"

fun dynamicDirectPathLoop ::
  "DynamicDirectPathIODevice list \<Rightarrow> int32 \<Rightarrow> VirtualDevice list \<times> int32" where
  "dynamicDirectPathLoop [] deviceKey = ([], deviceKey)"
| "dynamicDirectPathLoop (dynamicDirectPath # rest) deviceKey =
     (case dynamicDirectPathLoop rest (deviceKey - 1) of
        (devs, k) \<Rightarrow>
          (createPCIPassThroughDevice deviceKey
             (VirtualPCIPassthroughDynamicBackingInfo
                [(ucast (VendorID dynamicDirectPath), ucast (DeviceID dynamicDirectPath))]
                (CustomLabel dynamicDirectPath)) # devs, k))"

definition createPCIDevices :: "VirtualDevices \<Rightarrow> VirtualDevice list" where
  "createPCIDevices pciDevices =
     (case vGPULoop (VGPUDevices pciDevices) (- 200) of
        (vgpus, deviceKey) \<Rightarrow>
          vgpus @ fst (dynamicDirectPathLoop (DynamicDirectPathIODevices pciDevices) deviceKey))"

subsection \<open>Current configuration, desired state and the config spec\<close>

record ResourceAllocationInfo =
  Reservation :: "int64 option"
  Limit :: "int64 option"

record ManagedByInfo =
  ExtensionKey :: string
  ManagedBy_Type :: string

text \<open>The \<open>Value\<close> of an option value is an \<open>interface{}\<close>: a string, or a value of
  another dynamic type (named), on which \<open>.(string)\<close> panics.\<close>

datatype any = AnyString string | AnyOther string

record OptionValue =
  OptionValue_Key :: string
  OptionValue_Value :: any

text \<open>A vApp property is kept as its (id, value) pair; the property lists are passed
  to \<open>GetMergedvAppConfigSpec\<close> and never inspected here.\<close>

type_synonym VAppPropertyInfo = "string \<times> string"

record VmConfigInfo =
  Property :: "VAppPropertyInfo list"

record VmConfigSpec =
  PropertySpec :: "VAppPropertyInfo list"

text \<open>\<open>vimTypes.VirtualMachineConfigInfo\<close>, the fields this file reads. A field
  \<open>config.X.Y\<close> of the source is \<open>Config_X_Y\<close>. An entry of \<open>Config_ExtraConfig\<close> is
  \<open>None\<close> when its \<open>GetOptionValue()\<close> is nil; \<open>Config_VAppConfig\<close> is \<open>None\<close> for a nil
  interface and \<open>Some None\<close> when \<open>GetVmConfigInfo()\<close> is nil.\<close>

record VirtualMachineConfigInfo =
  Config_Uuid :: string
  Config_Annotation :: string
  Config_Hardware_NumCPU :: int32
  Config_Hardware_MemoryMB :: int32
  Config_Hardware_Device :: "device list"
  Config_ManagedBy :: "ManagedByInfo option"
  Config_CpuAllocation :: "ResourceAllocationInfo option"
  Config_MemoryAllocation :: "ResourceAllocationInfo option"
  Config_ExtraConfig :: "OptionValue option list"
  Config_VAppConfig :: "VmConfigInfo option option"
  Config_ChangeTrackingEnabled :: "bool option"

text \<open>\<open>vimTypes.VirtualMachineConfigSpec\<close>, the fields this file writes.\<close>

record VirtualMachineConfigSpec =
  Annotation :: string
  NumCPUs :: int32
  MemoryMB :: int64
  ManagedBy :: "ManagedByInfo option"
  CpuAllocation :: "ResourceAllocationInfo option"
  MemoryAllocation :: "ResourceAllocationInfo option"
  ExtraConfig :: "OptionValue list"
  VAppConfig :: "VmConfigSpec option"
  ChangeTrackingEnabled :: "bool option"
  DeviceChange :: "VirtualDeviceConfigSpec list"

text \<open>\<open>&vimTypes.VirtualMachineConfigSpec{}\<close>: every field at its zero value.
  \<open>apiEquality.Semantic.DeepEqual\<close> against it compares the pointed-to values and takes
  a nil and an empty slice for equal, which is equality of these records.\<close>

definition defaultConfigSpec :: VirtualMachineConfigSpec where
  "defaultConfigSpec =
     \<lparr>Annotation = '''', NumCPUs = 0, MemoryMB = 0, ManagedBy = None, CpuAllocation = None,
      MemoryAllocation = None, ExtraConfig = [], VAppConfig = None,
      ChangeTrackingEnabled = None, DeviceChange = []\<rparr>"

record VirtualMachineClassSpec =
  Hardware_Cpus :: int64
  Hardware_Memory :: Quantity
  Hardware_Devices :: VirtualDevices
  Requests_Cpu :: Quantity
  Requests_Memory :: Quantity
  Limits_Cpu :: Quantity
  Limits_Memory :: Quantity

record VirtualMachineAdvancedOptions =
  ChangeBlockTracking :: "bool option"

record VirtualMachineVolume =
  Volume_Name :: string
  PersistentVolumeClaim :: "string option"

record VirtualMachineVolumeStatus =
  VolumeStatus_Name :: string
  Attached :: bool

record NetworkInterfaceStatus =
  Connected :: bool
  Status_MacAddress :: string
  IpAddresses :: "string list"

text \<open>A network interface of the VM spec is opaque here: it is only handed to the
  network provider.\<close>

type_synonym VirtualMachineNetworkInterface = string

record VirtualMachineSpec =
  Spec_PowerState :: string
  Spec_NetworkInterfaces :: "VirtualMachineNetworkInterface list"
  Spec_Volumes :: "VirtualMachineVolume list"
  AdvancedOptions :: "VirtualMachineAdvancedOptions option"

record VirtualMachineStatus =
  Phase :: string
  Status_PowerState :: string
  UniqueID :: string
  BiosUUID :: string
  InstanceUUID :: string
  Host :: string
  VmIp :: string
  Status_NetworkInterfaces :: "NetworkInterfaceStatus list"
  Status_ChangeBlockTracking :: "bool option"
  Status_Volumes :: "VirtualMachineVolumeStatus list"

record VirtualMachine =
  Name :: string
  Annotations :: "string \<rightharpoonup> string"
  Spec :: VirtualMachineSpec
  Status :: VirtualMachineStatus

record VmMetadata =
  Transport :: string
  Data :: "string \<rightharpoonup> string"

text \<open>The image is read only through
  \<open>conditions.IsTrue(vmImage, VirtualMachineImageV1Alpha1CompatibleCondition)\<close>.\<close>

record VirtualMachineImage =
  V1Alpha1CompatibleCondition_IsTrue :: bool

record ClusterModuleStatus =
  GroupName :: string
  ModuleUuid :: string

record VirtualMachineSetResourcePolicy =
  Status_ClusterModules :: "ClusterModuleStatus list"

record VmConfigArgs =
  VmClass_Spec :: VirtualMachineClassSpec
  VmImage :: VirtualMachineImage
  VmMetadata :: "VmMetadata option"
  ResourcePolicy :: "VirtualMachineSetResourcePolicy option"

datatype ip_generator = CustomizationDhcpIpGenerator | OtherIpGenerator string

record CustomizationAdapterMapping =
  Mapping_MacAddress :: string
  Adapter_Ip :: ip_generator

record NetworkInterfaceInfo =
  NetIf_Device :: VirtualEthernetCard
  Customization :: "CustomizationAdapterMapping option"

record vmUpdateArgs =
  VmConfigArgs :: VmConfigArgs
  NetIfList :: "NetworkInterfaceInfo list"
  DNSServers :: "string list"

definition VirtualMachinePoweredOff :: string where
  "VirtualMachinePoweredOff = ''poweredOff''"

definition VirtualMachinePoweredOn :: string where
  "VirtualMachinePoweredOn = ''poweredOn''"

definition VirtualMachinePowerStatePoweredOff :: string where
  "VirtualMachinePowerStatePoweredOff = ''poweredOff''"

definition VirtualMachineMetadataExtraConfigTransport :: string where
  "VirtualMachineMetadataExtraConfigTransport = ''ExtraConfig''"

definition VirtualMachineMetadataOvfEnvTransport :: string where
  "VirtualMachineMetadataOvfEnvTransport = ''OvfEnv''"

definition Created :: string where
  "Created = ''Created''"

subsection \<open>What this file takes from the rest of the package\<close>

text \<open>
  The constants, feature switches and helpers that \<^verbatim>\<open>session_vm_update.go\<close> uses and
  other files of the package declare, and the fields of the session. They are
  parameters of the model: every theorem holds for all of them.
  \<open>rangeOrder\<close> is the order in which the Go runtime visits the keys of the
  \<open>extraConfig\<close> map in \<open>updateConfigSpecExtraConfig\<close> (unspecified by the language); a
  key that is not in the map is skipped.
\<close>

record env =
  GOSCPendingExtraConfigKey :: string
  VSphereCustomizationBypassKey :: string
  VSphereCustomizationBypassDisable :: string
  ExtraConfigGuestInfoPrefix :: string
  ExtraConfigTrue :: string
  MMPowerOffVMExtraConfigKey :: string
  PCIPassthruMMIOOverrideAnnotation :: string
  PCIPassthruMMIOSizeDefault :: string
  PCIPassthruMMIOExtraConfigKey :: string
  PCIPassthruMMIOSizeExtraConfigKey :: string
  VMOperatorV1Alpha1ExtraConfigKey :: string
  VMOperatorV1Alpha1ConfigReady :: string
  VMOperatorV1Alpha1ConfigEnabled :: string
  VCVMAnnotation :: string
  ClusterModuleNameKey :: string
  ProviderTagsAnnotationKey :: string
  ProviderTagCategoryNameKey :: string
  IsThunderPciDevicesFSSEnabled :: bool
  IsVMServiceV1Alpha2FSSEnabled :: bool
  CpuQuantityToMhz :: "Quantity \<Rightarrow> uint64 \<Rightarrow> int64"
  memoryQuantityToMb :: "Quantity \<Rightarrow> int64"
  GetMergedvAppConfigSpec :: "(string \<rightharpoonup> string) \<Rightarrow> VAppPropertyInfo list \<Rightarrow> VmConfigSpec option"
  updateVirtualDiskDeviceChanges ::
    "VirtualMachine \<Rightarrow> VirtualDevice list \<Rightarrow> go_error + VirtualDeviceConfigSpec list"
  GetInterfaceCustomizations :: "NetworkInterfaceInfo list \<Rightarrow> CustomizationAdapterMapping list"
  renderSpecTemplate :: "VirtualMachineSpec \<Rightarrow> string \<Rightarrow> string \<Rightarrow> string"
  renderDataTemplate :: "NetworkInterfaceInfo list \<Rightarrow> string list \<Rightarrow> string \<Rightarrow> string \<Rightarrow> string"
  Session_extraConfig :: "string \<rightharpoonup> string"
  Session_tagInfo :: "string \<rightharpoonup> string"
  GetCpuMinMHzInCluster :: uint64
  rangeOrder :: "string list"

text \<open>Indexing a Go map of strings: the empty string for a missing key.\<close>

definition mapIndex :: "(string \<rightharpoonup> string) \<Rightarrow> string \<Rightarrow> string" where
  "mapIndex m k = (case m k of None \<Rightarrow> '''' | Some v \<Rightarrow> v)"

subsection \<open>The config spec builder\<close>

text \<open>\<open>alloc == nil || alloc.Reservation == nil || *alloc.Reservation != rsv\<close>, and the
  same for the limit.\<close>

definition reservationDiffers :: "ResourceAllocationInfo option \<Rightarrow> int64 \<Rightarrow> bool" where
  "reservationDiffers alloc rsv =
     (case alloc of
        None \<Rightarrow> True
      | Some a \<Rightarrow> (case Reservation a of None \<Rightarrow> True | Some r \<Rightarrow> r \<noteq> rsv))"

definition limitDiffers :: "ResourceAllocationInfo option \<Rightarrow> int64 \<Rightarrow> bool" where
  "limitDiffers alloc lim =
     (case alloc of
        None \<Rightarrow> True
      | Some a \<Rightarrow> (case Limit a of None \<Rightarrow> True | Some l \<Rightarrow> l \<noteq> lim))"

definition updateConfigSpecCPUAllocation ::
  "env \<Rightarrow> VirtualMachineConfigInfo \<Rightarrow> VirtualMachineConfigSpec \<Rightarrow> VirtualMachineClassSpec
   \<Rightarrow> uint64 \<Rightarrow> VirtualMachineConfigSpec" where
  "updateConfigSpecCPUAllocation E config configSpec vmClassSpec minCPUFeq =
     (let cpuAllocation = Config_CpuAllocation config;
          cpuReservation =
            (if \<not> IsZero (Requests_Cpu vmClassSpec) then
               (let rsv = CpuQuantityToMhz E (Requests_Cpu vmClassSpec) minCPUFeq in
                if reservationDiffers cpuAllocation rsv then Some rsv else None)
             else None);
          cpuLimit =
            (if \<not> IsZero (Limits_Cpu vmClassSpec) then
               (let lim = CpuQuantityToMhz E (Limits_Cpu vmClassSpec) minCPUFeq in
                if limitDiffers cpuAllocation lim then Some lim else None)
             else None)
      in if cpuReservation \<noteq> None \<or> cpuLimit \<noteq> None
         then configSpec\<lparr>CpuAllocation := Some \<lparr>Reservation = cpuReservation, Limit = cpuLimit\<rparr>\<rparr>
         else configSpec)"

definition updateConfigSpecMemoryAllocation ::
  "env \<Rightarrow> VirtualMachineConfigInfo \<Rightarrow> VirtualMachineConfigSpec \<Rightarrow> VirtualMachineClassSpec
   \<Rightarrow> VirtualMachineConfigSpec" where
  "updateConfigSpecMemoryAllocation E config configSpec vmClassSpec =
     (let memAllocation = Config_MemoryAllocation config;
          memoryReservation =
            (if \<not> IsZero (Requests_Memory vmClassSpec) then
               (let rsv = memoryQuantityToMb E (Requests_Memory vmClassSpec) in
                if reservationDiffers memAllocation rsv then Some rsv else None)
             else None);
          memoryLimit =
            (if \<not> IsZero (Limits_Memory vmClassSpec) then
               (let lim = memoryQuantityToMb E (Limits_Memory vmClassSpec) in
                if limitDiffers memAllocation lim then Some lim else None)
             else None)
      in if memoryReservation \<noteq> None \<or> memoryLimit \<noteq> None
         then configSpec\<lparr>MemoryAllocation :=
                Some \<lparr>Reservation = memoryReservation, Limit = memoryLimit\<rparr>\<rparr>
         else configSpec)"

definition setMMIOExtraConfig ::
  "env \<Rightarrow> VirtualMachine \<Rightarrow> (string \<rightharpoonup> string) \<Rightarrow> (string \<rightharpoonup> string)" where
  "setMMIOExtraConfig E vm extraConfig =
     (let mmioSize0 = mapIndex (Annotations vm) (PCIPassthruMMIOOverrideAnnotation E);
          mmioSize = (if mmioSize0 = '''' then PCIPassthruMMIOSizeDefault E else mmioSize0)
      in if mmioSize \<noteq> ''0''
         then (extraConfig(PCIPassthruMMIOExtraConfigKey E \<mapsto> ExtraConfigTrue E))
                (PCIPassthruMMIOSizeExtraConfigKey E \<mapsto> mmioSize)
         else extraConfig)"

text \<open>The desired extra-config table of \<open>updateConfigSpecExtraConfig\<close>: the global
  table with its values rendered, then the guest-info entries of the metadata, then the
  passthrough keys. The first two loops write each key of the map they range over once,
  so their result does not depend on the order of the iteration.\<close>

definition desiredExtraConfig ::
  "env \<Rightarrow> VirtualMachineClassSpec \<Rightarrow> VirtualMachine \<Rightarrow> VmMetadata option
   \<Rightarrow> (string \<rightharpoonup> string) \<Rightarrow> (string \<rightharpoonup> string)" where
  "desiredExtraConfig E vmClassSpec vm vmMetadata globalExtraConfig =
     (let extraConfig0 =
            (\<lambda>k. case globalExtraConfig k of
                   None \<Rightarrow> None
                 | Some v \<Rightarrow> Some (renderSpecTemplate E (Spec vm) k v));
          extraConfig1 =
            (case vmMetadata of
               None \<Rightarrow> extraConfig0
             | Some md \<Rightarrow>
                 if Transport md = VirtualMachineMetadataExtraConfigTransport
                 then (\<lambda>k. if prefix (ExtraConfigGuestInfoPrefix E) k
                            then (case Data md k of None \<Rightarrow> extraConfig0 k | Some v \<Rightarrow> Some v)
                            else extraConfig0 k)
                 else extraConfig0)
      in if IsThunderPciDevicesFSSEnabled E then
           (let virtualDevices = Hardware_Devices vmClassSpec;
                extraConfig2 =
                  (if length (DynamicDirectPathIODevices virtualDevices) > 0
                   then extraConfig1(MMPowerOffVMExtraConfigKey E \<mapsto> ExtraConfigTrue E)
                   else extraConfig1)
            in if length (VGPUDevices virtualDevices) > 0
                  \<or> length (DynamicDirectPathIODevices virtualDevices) > 0
               then setMMIOExtraConfig E vm extraConfig2
               else extraConfig2)
         else extraConfig1)"

text \<open>The loop that reads the current extra-config into a map; a later entry of a key
  overwrites an earlier one, and a value that is not a string panics.\<close>

fun currentExtraConfigLoop ::
  "OptionValue option list \<Rightarrow> (string \<rightharpoonup> string) \<Rightarrow> failure + (string \<rightharpoonup> string)" where
  "currentExtraConfigLoop [] currentExtraConfig = Inr currentExtraConfig"
| "currentExtraConfigLoop (opt # rest) currentExtraConfig =
     (case opt of
        None \<Rightarrow> currentExtraConfigLoop rest currentExtraConfig
      | Some optValue \<Rightarrow>
          (case OptionValue_Value optValue of
             AnyString s \<Rightarrow>
               currentExtraConfigLoop rest (currentExtraConfig(OptionValue_Key optValue \<mapsto> s))
           | AnyOther t \<Rightarrow>
               Inl (Panic (''interface conversion: interface {} is '' @ t @ '', not string''))))"

text \<open>The loop over the desired table, in the order \<open>ks\<close> of the iteration: a key is
  appended only when the current extra-config has no entry for it.\<close>

fun extraConfigLoop ::
  "string list \<Rightarrow> (string \<rightharpoonup> string) \<Rightarrow> (string \<rightharpoonup> string) \<Rightarrow> OptionValue list
   \<Rightarrow> OptionValue list" where
  "extraConfigLoop [] extraConfig currentExtraConfig acc = acc"
| "extraConfigLoop (k # ks) extraConfig currentExtraConfig acc =
     (case extraConfig k of
        None \<Rightarrow> extraConfigLoop ks extraConfig currentExtraConfig acc
      | Some v \<Rightarrow>
          (if currentExtraConfig k = None
           then extraConfigLoop ks extraConfig currentExtraConfig
                  (acc @ [\<lparr>OptionValue_Key = k, OptionValue_Value = AnyString v\<rparr>])
           else extraConfigLoop ks extraConfig currentExtraConfig acc))"

definition updateConfigSpecExtraConfig ::
  "env \<Rightarrow> VirtualMachineConfigInfo \<Rightarrow> VirtualMachineConfigSpec \<Rightarrow> VirtualMachineImage
   \<Rightarrow> VirtualMachineClassSpec \<Rightarrow> VirtualMachine \<Rightarrow> VmMetadata option
   \<Rightarrow> (string \<rightharpoonup> string) \<Rightarrow> failure + VirtualMachineConfigSpec" where
  "updateConfigSpecExtraConfig E config configSpec vmImage vmClassSpec vm vmMetadata
     globalExtraConfig =
     (let extraConfig = desiredExtraConfig E vmClassSpec vm vmMetadata globalExtraConfig
      in case currentExtraConfigLoop (Config_ExtraConfig config) Map.empty of
           Inl p \<Rightarrow> Inl p
         | Inr currentExtraConfig \<Rightarrow>
             (let appended =
                    extraConfigLoop (rangeOrder E) extraConfig currentExtraConfig
                      (ExtraConfig configSpec)
              in if V1Alpha1CompatibleCondition_IsTrue vmImage
                    \<and> mapIndex currentExtraConfig (VMOperatorV1Alpha1ExtraConfigKey E)
                        = VMOperatorV1Alpha1ConfigReady E
                 then Inr (configSpec\<lparr>ExtraConfig := appended @
                        [\<lparr>OptionValue_Key = VMOperatorV1Alpha1ExtraConfigKey E,
                          OptionValue_Value = AnyString (VMOperatorV1Alpha1ConfigEnabled E)\<rparr>]\<rparr>)
                 else Inr (configSpec\<lparr>ExtraConfig := appended\<rparr>)))"

definition updateConfigSpecVAppConfig ::
  "env \<Rightarrow> VirtualMachineConfigInfo \<Rightarrow> VirtualMachineConfigSpec \<Rightarrow> VmMetadata option
   \<Rightarrow> VirtualMachineConfigSpec" where
  "updateConfigSpecVAppConfig E config configSpec vmMetadata =
     (case Config_VAppConfig config of
        None \<Rightarrow> configSpec
      | Some vAppConfig \<Rightarrow>
          (case vmMetadata of
             None \<Rightarrow> configSpec
           | Some md \<Rightarrow>
               if Transport md \<noteq> VirtualMachineMetadataOvfEnvTransport then configSpec
               else (case vAppConfig of
                       None \<Rightarrow> configSpec
                     | Some vAppConfigInfo \<Rightarrow>
                         (case GetMergedvAppConfigSpec E (Data md) (Property vAppConfigInfo) of
                            None \<Rightarrow> configSpec
                          | Some vmConfigSpec \<Rightarrow>
                              configSpec\<lparr>VAppConfig := Some vmConfigSpec\<rparr>))))"

definition updateConfigSpecChangeBlockTracking ::
  "VirtualMachineConfigInfo \<Rightarrow> VirtualMachineConfigSpec \<Rightarrow> VirtualMachineSpec
   \<Rightarrow> VirtualMachineConfigSpec" where
  "updateConfigSpecChangeBlockTracking config configSpec vmSpec =
     (case AdvancedOptions vmSpec of
        None \<Rightarrow> configSpec
      | Some advancedOptions \<Rightarrow>
          (case ChangeBlockTracking advancedOptions of
             None \<Rightarrow> configSpec
           | Some cbt \<Rightarrow>
               if Config_ChangeTrackingEnabled config \<noteq> Some cbt
               then configSpec\<lparr>ChangeTrackingEnabled := Some cbt\<rparr>
               else configSpec))"

text \<open>\<open>int32(x)\<close> of an \<open>int64\<close> keeps the low 32 bits; \<open>int64(x)\<close> of an \<open>int32\<close>
  extends the sign.\<close>

definition updateHardwareConfigSpec ::
  "env \<Rightarrow> VirtualMachineConfigInfo \<Rightarrow> VirtualMachineConfigSpec \<Rightarrow> VirtualMachineClassSpec
   \<Rightarrow> VirtualMachineConfigSpec" where
  "updateHardwareConfigSpec E config configSpec vmClassSpec =
     (let configSpec1 =
            (if Config_Annotation config \<noteq> VCVMAnnotation E
             then configSpec\<lparr>Annotation := VCVMAnnotation E\<rparr> else configSpec);
          nCPUs = (ucast (Hardware_Cpus vmClassSpec) :: int32);
          configSpec2 =
            (if Config_Hardware_NumCPU config \<noteq> nCPUs
             then configSpec1\<lparr>NumCPUs := nCPUs\<rparr> else configSpec1);
          memMB = memoryQuantityToMb E (Hardware_Memory vmClassSpec);
          configSpec3 =
            (if (scast (Config_Hardware_MemoryMB config) :: int64) \<noteq> memMB
             then configSpec2\<lparr>MemoryMB := memMB\<rparr> else configSpec2)
      in if Config_ManagedBy config = None
         then configSpec3\<lparr>ManagedBy :=
                Some \<lparr>ExtensionKey = ''com.vmware.vcenter.wcp'',
                      ManagedBy_Type = ''VirtualMachine''\<rparr>\<rparr>
         else configSpec3)"

definition updateConfigSpec ::
  "env \<Rightarrow> VirtualMachine \<Rightarrow> VirtualMachineConfigInfo \<Rightarrow> VirtualMachineImage
   \<Rightarrow> VirtualMachineClassSpec \<Rightarrow> VmMetadata option \<Rightarrow> (string \<rightharpoonup> string) \<Rightarrow> uint64
   \<Rightarrow> failure + VirtualMachineConfigSpec" where
  "updateConfigSpec E vm config vmImage vmClassSpec vmMetadata globalExtraConfig minCPUFreq =
     (let configSpec = defaultConfigSpec;
          configSpec1 = updateHardwareConfigSpec E config configSpec vmClassSpec;
          configSpec2 = updateConfigSpecCPUAllocation E config configSpec1 vmClassSpec minCPUFreq;
          configSpec3 = updateConfigSpecMemoryAllocation E config configSpec2 vmClassSpec
      in case updateConfigSpecExtraConfig E config configSpec3 vmImage vmClassSpec vm
                vmMetadata globalExtraConfig of
           Inl p \<Rightarrow> Inl p
         | Inr configSpec4 \<Rightarrow>
             (let configSpec5 = updateConfigSpecVAppConfig E config configSpec4 vmMetadata
              in Inr (updateConfigSpecChangeBlockTracking config configSpec5 (Spec vm))))"

text \<open>\<open>VirtualDeviceList.SelectByType\<close> for the three device classes the file asks
  for: the devices of that type, or of a type that embeds it, in their order.\<close>

fun SelectByType_VirtualDisk :: "device list \<Rightarrow> VirtualDevice list" where
  "SelectByType_VirtualDisk [] = []"
| "SelectByType_VirtualDisk (Disk d # rest) = d # SelectByType_VirtualDisk rest"
| "SelectByType_VirtualDisk (_ # rest) = SelectByType_VirtualDisk rest"

fun SelectByType_VirtualEthernetCard :: "device list \<Rightarrow> VirtualEthernetCard list" where
  "SelectByType_VirtualEthernetCard [] = []"
| "SelectByType_VirtualEthernetCard (EthernetCard c # rest) =
     c # SelectByType_VirtualEthernetCard rest"
| "SelectByType_VirtualEthernetCard (_ # rest) = SelectByType_VirtualEthernetCard rest"

fun SelectByType_VirtualPCIPassthrough :: "device list \<Rightarrow> VirtualDevice list" where
  "SelectByType_VirtualPCIPassthrough [] = []"
| "SelectByType_VirtualPCIPassthrough (PCIPassthrough d # rest) =
     d # SelectByType_VirtualPCIPassthrough rest"
| "SelectByType_VirtualPCIPassthrough (_ # rest) = SelectByType_VirtualPCIPassthrough rest"

text \<open>Modelled from the spec: \<open>NetworkInterfaceInfoList.GetVirtualDeviceList\<close> is declared
  in another file of the package; by the data model of the specification each interface
  info carries its allocated device, and the list of those devices is the expected
  adapter list.\<close>

definition GetVirtualDeviceList :: "NetworkInterfaceInfo list \<Rightarrow> VirtualEthernetCard list" where
  "GetVirtualDeviceList netIfList = map NetIf_Device netIfList"

definition prePowerOnVMConfigSpec ::
  "env \<Rightarrow> VirtualMachine \<Rightarrow> VirtualMachineConfigInfo \<Rightarrow> vmUpdateArgs
   \<Rightarrow> failure + VirtualMachineConfigSpec" where
  "prePowerOnVMConfigSpec E vm config updateArgs =
     (case updateConfigSpec E vm config (VmImage (VmConfigArgs updateArgs))
             (VmClass_Spec (VmConfigArgs updateArgs)) (VmMetadata (VmConfigArgs updateArgs))
             (Session_extraConfig E) (GetCpuMinMHzInCluster E) of
        Inl p \<Rightarrow> Inl p
      | Inr configSpec \<Rightarrow>
          (let virtualDevices = Config_Hardware_Device config;
               currentDisks = SelectByType_VirtualDisk virtualDevices;
               currentEthCards = SelectByType_VirtualEthernetCard virtualDevices
           in case updateVirtualDiskDeviceChanges E vm currentDisks of
                Inl err \<Rightarrow> Inl (Error err)
              | Inr diskDeviceChanges \<Rightarrow>
                  (let configSpec1 =
                         configSpec\<lparr>DeviceChange := DeviceChange configSpec @ diskDeviceChanges\<rparr>;
                       expectedEthCards = GetVirtualDeviceList (NetIfList updateArgs);
                       ethCardDeviceChanges =
                         updateEthCardDeviceChanges expectedEthCards currentEthCards;
                       configSpec2 =
                         configSpec1\<lparr>DeviceChange :=
                           DeviceChange configSpec1 @ ethCardDeviceChanges\<rparr>
                   in if IsThunderPciDevicesFSSEnabled E then
                        (let currentPciDevices = SelectByType_VirtualPCIPassthrough virtualDevices;
                             expectedPciDevices =
                               createPCIDevices
                                 (Hardware_Devices (VmClass_Spec (VmConfigArgs updateArgs)))
                         in case updatePCIDeviceChanges expectedPciDevices currentPciDevices of
                              Inl p \<Rightarrow> Inl p
                            | Inr pciDeviceChanges \<Rightarrow>
                                Inr (configSpec2\<lparr>DeviceChange :=
                                       DeviceChange configSpec2 @ pciDeviceChanges\<rparr>))
                      else Inr configSpec2)))"

subsection \<open>The hypervisor and the other collaborators\<close>

text \<open>What \<open>GetProperties\<close> returns (\<open>mo.VirtualMachine\<close>), the fields this file reads.
  \<open>Nic_IpConfig\<close> is the \<open>IpConfig\<close> pointer of a guest NIC: \<open>None\<close> when nil, else its
  \<open>IpAddress\<close> list of (address, prefix length) pairs.\<close>

record GuestNicInfo =
  Nic_Connected :: bool
  Nic_MacAddress :: string
  Nic_IpConfig :: "(string \<times> int32) list option"

record GuestInfo =
  Guest_IpAddress :: string
  Net :: "GuestNicInfo list"

record mo_VirtualMachine =
  Config :: "VirtualMachineConfigInfo option"
  Runtime_PowerState :: string
  Runtime_ConnectionState :: string
  Guest :: "GuestInfo option"
  Summary_Runtime_PowerState :: string
  Summary_Runtime_Host :: "string option"
  Summary_Config_Uuid :: string
  Summary_Config_InstanceUuid :: string

record CustomizationSpec =
  Identity_HostName :: string
  Identity_HwClockUTC :: bool
  GlobalIPSettings_DnsServerList :: "string list"
  NicSettingMap :: "CustomizationAdapterMapping list"

text \<open>
  The answers of the collaborators during one pass: the hypervisor session
  (\<open>GetVirtualMachine\<close>, \<open>GetProperties\<close> for the two property sets the file asks for,
  \<open>SetPowerState\<close>, \<open>Reconfigure\<close>, \<open>Customize\<close>, the checkpoint save/restore
  \<open>invokeFsrVirtualMachine\<close>, \<open>ObjectName\<close> of a host, \<open>MoRef\<close>), the network provider,
  the DNS config map and the cluster-module and tag service. An answer is \<open>None\<close> or
  \<open>Inr\<close> for a nil error. Every theorem holds for all answers.
\<close>

record world =
  GetVirtualMachine :: "go_error option"
  MoRef_Value :: string
  GetProperties_config_runtime :: "go_error + mo_VirtualMachine"
  GetProperties_status :: "go_error + mo_VirtualMachine"
  SetPowerState :: "string \<Rightarrow> go_error option"
  Reconfigure :: "VirtualMachineConfigSpec \<Rightarrow> go_error option"
  Customize :: "CustomizationSpec \<Rightarrow> go_error option"
  invokeFsrVirtualMachine :: "go_error option"
  ObjectName :: "string \<Rightarrow> go_error + string"
  EnsureNetworkInterface :: "VirtualMachineNetworkInterface \<Rightarrow> go_error + NetworkInterfaceInfo"
  GetNameserversFromConfigMap :: "string list \<times> go_error option"
  IsVmMemberOfClusterModule :: "string \<Rightarrow> go_error + bool"
  AddVmToClusterModule :: "string \<Rightarrow> go_error option"
  AttachTagToVm :: "string \<Rightarrow> string \<Rightarrow> go_error option"

text \<open>The calls a function made, in order, with their arguments.\<close>

datatype call =
    Call_GetVirtualMachine
  | Call_GetProperties "string list"
  | Call_SetPowerState string
  | Call_Reconfigure VirtualMachineConfigSpec
  | Call_Customize CustomizationSpec
  | Call_invokeFsrVirtualMachine
  | Call_ObjectName string
  | Call_EnsureNetworkInterface VirtualMachineNetworkInterface
  | Call_GetNameserversFromConfigMap
  | Call_IsVmMemberOfClusterModule string
  | Call_AddVmToClusterModule string
  | Call_AttachTagToVm string string

text \<open>The calls that change the VM on the hypervisor.\<close>

fun isHypervisorWrite :: "call \<Rightarrow> bool" where
  "isHypervisorWrite (Call_SetPowerState _) = True"
| "isHypervisorWrite (Call_Reconfigure _) = True"
| "isHypervisorWrite (Call_Customize _) = True"
| "isHypervisorWrite Call_invokeFsrVirtualMachine = True"
| "isHypervisorWrite _ = False"

subsection \<open>The customization gate\<close>

fun isCustomizationPendingExtraConfig :: "env \<Rightarrow> OptionValue option list \<Rightarrow> failure + bool" where
  "isCustomizationPendingExtraConfig E [] = Inr False"
| "isCustomizationPendingExtraConfig E (opt # rest) =
     (case opt of
        None \<Rightarrow> isCustomizationPendingExtraConfig E rest
      | Some optValue \<Rightarrow>
          (if OptionValue_Key optValue = GOSCPendingExtraConfigKey E then
             (case OptionValue_Value optValue of
                AnyString s \<Rightarrow> Inr (s \<noteq> '''')
              | AnyOther t \<Rightarrow>
                  Inl (Panic (''interface conversion: interface {} is '' @ t @ '', not string'')))
           else isCustomizationPendingExtraConfig E rest))"

fun isCustomizationPendingError :: "go_error \<Rightarrow> bool" where
  "isCustomizationPendingError (TaskError CustomizationPending) = True"
| "isCustomizationPendingError _ = False"

definition customizeVM ::
  "env \<Rightarrow> world \<Rightarrow> VirtualMachine \<Rightarrow> VirtualMachineConfigInfo \<Rightarrow> vmUpdateArgs
   \<Rightarrow> call list \<times> failure option" where
  "customizeVM E W vm config updateArgs =
     (if mapIndex (Annotations vm) (VSphereCustomizationBypassKey E)
           = VSphereCustomizationBypassDisable E
      then ([], None)
      else case isCustomizationPendingExtraConfig E (Config_ExtraConfig config) of
        Inl p \<Rightarrow> ([], Some p)
      | Inr True \<Rightarrow> ([], None)
      | Inr False \<Rightarrow>
          (let customizationSpec =
                 \<lparr>Identity_HostName = Name vm, Identity_HwClockUTC = True,
                  GlobalIPSettings_DnsServerList = DNSServers updateArgs,
                  NicSettingMap = GetInterfaceCustomizations E (NetIfList updateArgs)\<rparr>
           in case Customize W customizationSpec of
                None \<Rightarrow> ([Call_Customize customizationSpec], None)
              | Some err \<Rightarrow>
                  if \<not> isCustomizationPendingError err
                  then ([Call_Customize customizationSpec], Some (Error err))
                  else ([Call_Customize customizationSpec], None)))"

subsection \<open>The two reconfigure paths\<close>

definition prePowerOnVMReconfigure ::
  "env \<Rightarrow> world \<Rightarrow> VirtualMachine \<Rightarrow> VirtualMachineConfigInfo \<Rightarrow> vmUpdateArgs
   \<Rightarrow> call list \<times> failure option" where
  "prePowerOnVMReconfigure E W vm config updateArgs =
     (case prePowerOnVMConfigSpec E vm config updateArgs of
        Inl err \<Rightarrow> ([], Some err)
      | Inr configSpec \<Rightarrow>
          if configSpec \<noteq> defaultConfigSpec then
            (case Reconfigure W configSpec of
               Some err \<Rightarrow> ([Call_Reconfigure configSpec], Some (Error err))
             | None \<Rightarrow> ([Call_Reconfigure configSpec], None))
          else ([], None))"

definition poweredOnVMReconfigure ::
  "env \<Rightarrow> world \<Rightarrow> VirtualMachine \<Rightarrow> VirtualMachineConfigInfo \<Rightarrow> call list \<times> failure option" where
  "poweredOnVMReconfigure E W vm config =
     (let configSpec = updateConfigSpecChangeBlockTracking config defaultConfigSpec (Spec vm)
      in if configSpec \<noteq> defaultConfigSpec then
           (case Reconfigure W configSpec of
              Some err \<Rightarrow> ([Call_Reconfigure configSpec], Some (Error err))
            | None \<Rightarrow>
                if ChangeTrackingEnabled configSpec \<noteq> None then
                  (case invokeFsrVirtualMachine W of
                     Some err \<Rightarrow>
                       ([Call_Reconfigure configSpec, Call_invokeFsrVirtualMachine],
                        Some (Error err))
                   | None \<Rightarrow>
                       ([Call_Reconfigure configSpec, Call_invokeFsrVirtualMachine], None))
                else ([Call_Reconfigure configSpec], None))
         else ([], None))"

subsection \<open>Preparing the power-on\<close>

text \<open>The loop of \<open>ensureNetworkInterfaces\<close> from the device key \<open>deviceKey\<close> on; it
  stops at the first error of the network provider.\<close>

fun ensureNetworkInterfacesLoop ::
  "world \<Rightarrow> VirtualMachineNetworkInterface list \<Rightarrow> int32
   \<Rightarrow> call list \<times> (go_error + NetworkInterfaceInfo list)" where
  "ensureNetworkInterfacesLoop W [] deviceKey = ([], Inr [])"
| "ensureNetworkInterfacesLoop W (vif # rest) deviceKey =
     (case EnsureNetworkInterface W vif of
        Inl err \<Rightarrow> ([Call_EnsureNetworkInterface vif], Inl err)
      | Inr info \<Rightarrow>
          (case ensureNetworkInterfacesLoop W rest (deviceKey - 1) of
             (calls, Inl err) \<Rightarrow> (Call_EnsureNetworkInterface vif # calls, Inl err)
           | (calls, Inr infos) \<Rightarrow>
               (Call_EnsureNetworkInterface vif # calls,
                Inr (info\<lparr>NetIf_Device := (NetIf_Device info)\<lparr>Key := deviceKey\<rparr>\<rparr> # infos))))"

definition ensureNetworkInterfaces ::
  "world \<Rightarrow> VirtualMachine \<Rightarrow> call list \<times> (go_error + NetworkInterfaceInfo list)" where
  "ensureNetworkInterfaces W vm =
     ensureNetworkInterfacesLoop W (Spec_NetworkInterfaces (Spec vm)) (- 100)"

definition fakeUpClonedNetIfList :: "VirtualMachineConfigInfo \<Rightarrow> NetworkInterfaceInfo list" where
  "fakeUpClonedNetIfList config =
     map (\<lambda>dev. \<lparr>NetIf_Device = dev,
                  Customization = Some \<lparr>Mapping_MacAddress = MacAddress dev,
                                         Adapter_Ip = CustomizationDhcpIpGenerator\<rparr>\<rparr>)
         (SelectByType_VirtualEthernetCard (Config_Hardware_Device config))"

text \<open>The metadata map is shared with the caller and rewritten in place; each of its
  keys is visited once, so the result does not depend on the order of the iteration.\<close>

definition updateVmConfigArgsTemplates :: "env \<Rightarrow> vmUpdateArgs \<Rightarrow> vmUpdateArgs" where
  "updateVmConfigArgsTemplates E updateArgs =
     (case VmMetadata (VmConfigArgs updateArgs) of
        None \<Rightarrow> updateArgs
      | Some md \<Rightarrow>
          updateArgs\<lparr>VmConfigArgs := (VmConfigArgs updateArgs)\<lparr>VmMetadata :=
            Some (md\<lparr>Data := (\<lambda>key. case Data md key of
                                    None \<Rightarrow> None
                                  | Some val \<Rightarrow>
                                      Some (renderDataTemplate E (NetIfList updateArgs)
                                              (DNSServers updateArgs) key val))\<rparr>)\<rparr>\<rparr>)"

text \<open>The inner loop of \<open>ensureCNSVolumes\<close> for one claimed volume: the first status
  entry of that name decides.\<close>

fun volumeStatusLoop :: "string \<Rightarrow> VirtualMachineVolumeStatus list \<Rightarrow> go_error option" where
  "volumeStatusLoop name [] =
     Some (ErrorString (''Status update pending for persistent volume: '' @ name @ '' on VM''))"
| "volumeStatusLoop name (volumeStatus # rest) =
     (if VolumeStatus_Name volumeStatus = name then
        (if \<not> Attached volumeStatus
         then Some (ErrorString (''Persistent volume: '' @ name @ '' not attached to VM''))
         else None)
      else volumeStatusLoop name rest)"

fun ensureCNSVolumesLoop ::
  "VirtualMachineVolume list \<Rightarrow> VirtualMachineVolumeStatus list \<Rightarrow> go_error option" where
  "ensureCNSVolumesLoop [] statuses = None"
| "ensureCNSVolumesLoop (volume # rest) statuses =
     (if PersistentVolumeClaim volume = None then ensureCNSVolumesLoop rest statuses
      else case volumeStatusLoop (Volume_Name volume) statuses of
             Some err \<Rightarrow> Some err
           | None \<Rightarrow> ensureCNSVolumesLoop rest statuses)"

definition ensureCNSVolumes :: "VirtualMachine \<Rightarrow> go_error option" where
  "ensureCNSVolumes vm = ensureCNSVolumesLoop (Spec_Volumes (Spec vm)) (Status_Volumes (Status vm))"

definition prepareVMForPowerOn ::
  "env \<Rightarrow> world \<Rightarrow> VirtualMachine \<Rightarrow> VirtualMachineConfigInfo \<Rightarrow> VmConfigArgs
   \<Rightarrow> call list \<times> failure option" where
  "prepareVMForPowerOn E W vm config vmConfigArgs =
     (case ensureNetworkInterfaces W vm of
        (calls1, Inl err) \<Rightarrow> (calls1, Some (Error err))
      | (calls1, Inr netIfList0) \<Rightarrow>
          (let netIfList =
                 (if length netIfList0 = 0 then fakeUpClonedNetIfList config else netIfList0);
               dnsServers = fst (GetNameserversFromConfigMap W);
               calls2 = calls1 @ [Call_GetNameserversFromConfigMap];
               updateArgs0 =
                 \<lparr>VmConfigArgs = vmConfigArgs, NetIfList = netIfList, DNSServers = dnsServers\<rparr>;
               updateArgs =
                 (if IsVMServiceV1Alpha2FSSEnabled E
                  then updateVmConfigArgsTemplates E updateArgs0 else updateArgs0)
           in case prePowerOnVMReconfigure E W vm config updateArgs of
                (calls3, Some err) \<Rightarrow> (calls2 @ calls3, Some err)
              | (calls3, None) \<Rightarrow>
                  (case customizeVM E W vm config updateArgs of
                     (calls4, Some err) \<Rightarrow> (calls2 @ calls3 @ calls4, Some err)
                   | (calls4, None) \<Rightarrow>
                       (case ensureCNSVolumes vm of
                          Some err \<Rightarrow> (calls2 @ calls3 @ calls4, Some (Error err))
                        | None \<Rightarrow> (calls2 @ calls3 @ calls4, None)))))"

subsection \<open>Tags and cluster modules\<close>

text \<open>The loop that looks the module UUID up: the first cluster module of that group
  name, the empty string when there is none.\<close>

fun moduleUuidLoop :: "string \<Rightarrow> ClusterModuleStatus list \<Rightarrow> string" where
  "moduleUuidLoop clusterModuleName [] = ''''"
| "moduleUuidLoop clusterModuleName (clusterModule # rest) =
     (if GroupName clusterModule = clusterModuleName then ModuleUuid clusterModule
      else moduleUuidLoop clusterModuleName rest)"

definition attachTagsAndModules ::
  "env \<Rightarrow> world \<Rightarrow> VirtualMachine \<Rightarrow> VirtualMachineSetResourcePolicy option
   \<Rightarrow> call list \<times> failure option" where
  "attachTagsAndModules E W vm resourcePolicy =
     (let clusterModuleName = mapIndex (Annotations vm) (ClusterModuleNameKey E);
          providerTagsName = mapIndex (Annotations vm) (ProviderTagsAnnotationKey E)
      in if clusterModuleName = '''' \<or> providerTagsName = '''' then ([], None)
         else case resourcePolicy of
           None \<Rightarrow> ([], Some (Panic ''invalid memory address or nil pointer dereference''))
         | Some policy \<Rightarrow>
             (let moduleUuid = moduleUuidLoop clusterModuleName (Status_ClusterModules policy)
              in if moduleUuid = '''' then
                   ([], Some (Error (ErrorString
                      (''ClusterModule '' @ clusterModuleName @ '' to not found''))))
                 else case IsVmMemberOfClusterModule W moduleUuid of
                   Inl err \<Rightarrow> ([Call_IsVmMemberOfClusterModule moduleUuid], Some (Error err))
                 | Inr isMember \<Rightarrow>
                     (let calls1 = [Call_IsVmMemberOfClusterModule moduleUuid];
                          added =
                            (if \<not> isMember
                             then (calls1 @ [Call_AddVmToClusterModule moduleUuid],
                                   AddVmToClusterModule W moduleUuid)
                             else (calls1, None))
                      in case added of
                           (calls2, Some err) \<Rightarrow> (calls2, Some (Error err))
                         | (calls2, None) \<Rightarrow>
                             (let tagName = mapIndex (Session_tagInfo E) providerTagsName;
                                  tagCategoryName =
                                    mapIndex (Session_tagInfo E) (ProviderTagCategoryNameKey E);
                                  calls3 = calls2 @ [Call_AttachTagToVm tagName tagCategoryName]
                              in case AttachTagToVm W tagName tagCategoryName of
                                   Some err \<Rightarrow> (calls3, Some (Error err))
                                 | None \<Rightarrow> (calls3, None)))))"

subsection \<open>Status projection\<close>

text \<open>\<open>strconv.Itoa\<close>: the decimal digits of an integer, with a minus sign when it is
  negative.\<close>

function natDigits :: "nat \<Rightarrow> string" where
  "natDigits n =
     (if n < 10 then [char_of (48 + n)]
      else natDigits (n div 10) @ [char_of (48 + n mod 10)])"
  by pat_completeness auto
termination
  by (relation "measure id") auto

definition Itoa :: "int \<Rightarrow> string" where
  "Itoa i = (if i < 0 then CHR ''-'' # natDigits (nat (- i)) else natDigits (nat i))"

definition ipCIDRNotation :: "string \<Rightarrow> int32 \<Rightarrow> string" where
  "ipCIDRNotation ipAddress prefixLength = ipAddress @ ''/'' @ Itoa (sint prefixLength)"

text \<open>\<open>nicInfo.IpConfig.IpAddress\<close> dereferences the \<open>IpConfig\<close> pointer, which is nil
  for a NIC without IP configuration.\<close>

definition nicInfoToNetworkIfStatus :: "GuestNicInfo \<Rightarrow> failure + NetworkInterfaceStatus" where
  "nicInfoToNetworkIfStatus nicInfo =
     (case Nic_IpConfig nicInfo of
        None \<Rightarrow> Inl (Panic ''invalid memory address or nil pointer dereference'')
      | Some ipAddresses \<Rightarrow>
          Inr \<lparr>Connected = Nic_Connected nicInfo,
               Status_MacAddress = Nic_MacAddress nicInfo,
               IpAddresses = map (\<lambda>(ipAddress, prefixLength).
                                    ipCIDRNotation ipAddress prefixLength) ipAddresses\<rparr>)"

fun networkIfStatusLoop :: "GuestNicInfo list \<Rightarrow> failure + NetworkInterfaceStatus list" where
  "networkIfStatusLoop [] = Inr []"
| "networkIfStatusLoop (nicInfo # rest) =
     (case nicInfoToNetworkIfStatus nicInfo of
        Inl p \<Rightarrow> Inl p
      | Inr st \<Rightarrow>
          (case networkIfStatusLoop rest of
             Inl p \<Rightarrow> Inl p
           | Inr sts \<Rightarrow> Inr (st # sts)))"

text \<open>The three steps of \<open>updateVMStatus\<close> after the fixed fields: the host name (with
  the errors collected so far), the guest data, and the change-tracking flag.\<close>

definition updateVMStatus_host ::
  "world \<Rightarrow> mo_VirtualMachine \<Rightarrow> VirtualMachineStatus
   \<Rightarrow> VirtualMachineStatus \<times> call list \<times> go_error list" where
  "updateVMStatus_host W moVM status =
     (case Summary_Runtime_Host moVM of
        Some host \<Rightarrow>
          (case ObjectName W host of
             Inl err \<Rightarrow> (status, [Call_ObjectName host], [err])
           | Inr hostName \<Rightarrow> (status\<lparr>Host := hostName\<rparr>, [Call_ObjectName host], []))
      | None \<Rightarrow> (status\<lparr>Host := ''''\<rparr>, [], []))"

definition updateVMStatus_guest ::
  "mo_VirtualMachine \<Rightarrow> VirtualMachineStatus \<Rightarrow> VirtualMachineStatus \<times> failure option" where
  "updateVMStatus_guest moVM status =
     (case Guest moVM of
        Some guest \<Rightarrow>
          (let status1 = status\<lparr>VmIp := Guest_IpAddress guest\<rparr>
           in case networkIfStatusLoop (Net guest) of
                Inl p \<Rightarrow> (status1, Some p)
              | Inr networkIfStatuses \<Rightarrow>
                  (status1\<lparr>Status_NetworkInterfaces := networkIfStatuses\<rparr>, None))
      | None \<Rightarrow> (status\<lparr>VmIp := '''', Status_NetworkInterfaces := []\<rparr>, None))"

definition updateVMStatus_config ::
  "mo_VirtualMachine \<Rightarrow> VirtualMachineStatus \<Rightarrow> VirtualMachineStatus" where
  "updateVMStatus_config moVM status =
     (case Config moVM of
        Some config \<Rightarrow> status\<lparr>Status_ChangeBlockTracking := Config_ChangeTrackingEnabled config\<rparr>
      | None \<Rightarrow> status\<lparr>Status_ChangeBlockTracking := None\<rparr>)"

text \<open>The VM object is mutated in place: the function returns it as it is left, also
  when it fails.\<close>

definition updateVMStatus ::
  "world \<Rightarrow> VirtualMachine \<Rightarrow> VirtualMachine \<times> call list \<times> failure option" where
  "updateVMStatus W vm =
     (let calls0 = [Call_GetProperties [''config.changeTrackingEnabled'', ''guest'', ''summary'']]
      in case GetProperties_status W of
           Inl err \<Rightarrow> (vm, calls0, Some (Error err))
         | Inr moVM \<Rightarrow>
             (let status1 = (Status vm)
                    \<lparr>Phase := Created,
                     Status_PowerState := Summary_Runtime_PowerState moVM,
                     UniqueID := MoRef_Value W,
                     BiosUUID := Summary_Config_Uuid moVM,
                     InstanceUUID := Summary_Config_InstanceUuid moVM\<rparr>
              in case updateVMStatus_host W moVM status1 of
                   (status2, calls1, errs) \<Rightarrow>
                     (case updateVMStatus_guest moVM status2 of
                        (status3, Some p) \<Rightarrow> (vm\<lparr>Status := status3\<rparr>, calls0 @ calls1, Some p)
                      | (status3, None) \<Rightarrow>
                          (vm\<lparr>Status := updateVMStatus_config moVM status3\<rparr>, calls0 @ calls1,
                           map_option Error (NewAggregate errs)))))"

subsection \<open>The convergence pass\<close>

text \<open>The \<open>switch\<close> on the desired power state in \<open>UpdateVirtualMachine\<close>; a desired
  power state that is neither of the two cases does nothing.\<close>

definition UpdateVirtualMachine_switch ::
  "env \<Rightarrow> world \<Rightarrow> VirtualMachine \<Rightarrow> mo_VirtualMachine \<Rightarrow> bool \<Rightarrow> VmConfigArgs
   \<Rightarrow> call list \<times> failure option" where
  "UpdateVirtualMachine_switch E W vm moVM isOff vmConfigArgs =
     (if Spec_PowerState (Spec vm) = VirtualMachinePoweredOff then
        (if \<not> isOff then
           (case SetPowerState W VirtualMachinePoweredOff of
              Some err \<Rightarrow> ([Call_SetPowerState VirtualMachinePoweredOff], Some (Error err))
            | None \<Rightarrow> ([Call_SetPowerState VirtualMachinePoweredOff], None))
         else ([], None))
      else if Spec_PowerState (Spec vm) = VirtualMachinePoweredOn then
        (case Config moVM of
           None \<Rightarrow>
             ([], Some (Error (ErrorString
                (''VM config is not available, connectionState=''
                   @ Runtime_ConnectionState moVM))))
         | Some config \<Rightarrow>
             if isOff then
               (case prepareVMForPowerOn E W vm config vmConfigArgs of
                  (calls1, Some err) \<Rightarrow> (calls1, Some err)
                | (calls1, None) \<Rightarrow>
                    (case SetPowerState W VirtualMachinePoweredOn of
                       Some err \<Rightarrow>
                         (calls1 @ [Call_SetPowerState VirtualMachinePoweredOn], Some (Error err))
                     | None \<Rightarrow> (calls1 @ [Call_SetPowerState VirtualMachinePoweredOn], None)))
             else poweredOnVMReconfigure E W vm config)
      else ([], None))"

text \<open>The statement \<open>vmCtx.VM.Status.BiosUUID = moVM.Config.Uuid\<close>, which dereferences
  \<open>moVM.Config\<close>.\<close>

definition UpdateVirtualMachine_biosUUID ::
  "VirtualMachine \<Rightarrow> mo_VirtualMachine \<Rightarrow> failure + VirtualMachine" where
  "UpdateVirtualMachine_biosUUID vm moVM =
     (case Config moVM of
        None \<Rightarrow> Inl (Panic ''invalid memory address or nil pointer dereference'')
      | Some config \<Rightarrow> Inr (vm\<lparr>Status := (Status vm)\<lparr>BiosUUID := Config_Uuid config\<rparr>\<rparr>))"

definition UpdateVirtualMachine ::
  "env \<Rightarrow> world \<Rightarrow> VirtualMachine \<Rightarrow> VmConfigArgs
   \<Rightarrow> VirtualMachine \<times> call list \<times> failure option" where
  "UpdateVirtualMachine E W vm vmConfigArgs =
     (case GetVirtualMachine W of
        Some err \<Rightarrow> (vm, [Call_GetVirtualMachine], Some (Error err))
      | None \<Rightarrow>
          (let calls0 = [Call_GetVirtualMachine, Call_GetProperties [''config'', ''runtime'']]
           in case GetProperties_config_runtime W of
                Inl err \<Rightarrow> (vm, calls0, Some (Error err))
              | Inr moVM \<Rightarrow>
                  (let isOff = (Runtime_PowerState moVM = VirtualMachinePowerStatePoweredOff)
                   in case UpdateVirtualMachine_biosUUID vm moVM of
                        Inl p \<Rightarrow> (vm, calls0, Some p)
                      | Inr vm1 \<Rightarrow>
                          (case UpdateVirtualMachine_switch E W vm1 moVM isOff vmConfigArgs of
                             (calls1, Some err) \<Rightarrow> (vm1, calls0 @ calls1, Some err)
                           | (calls1, None) \<Rightarrow>
                               (case updateVMStatus W vm1 of
                                  (vm2, calls2, Some err) \<Rightarrow>
                                    (vm2, calls0 @ calls1 @ calls2, Some err)
                                | (vm2, calls2, None) \<Rightarrow>
                                    (case attachTagsAndModules E W vm2
                                            (ResourcePolicy vmConfigArgs) of
                                       (calls3, r) \<Rightarrow>
                                         (vm2, calls0 @ calls1 @ calls2 @ calls3, r)))))))"

subsection \<open>The vocabulary of the specification\<close>

text \<open>
  Section 4.1 of the specification words the device matcher over the devices themselves:
  for each expected device, take the first current device of the pool it matches and
  remove it from the pool; an expected device without a match is unmatched, and so is
  every current device left in the pool at the end. \<open>specMatch same expected current\<close>
  is the pair of the unmatched expected and the unmatched current devices; the source
  works with indices into the pool instead.
\<close>

fun specMatch :: "('e \<Rightarrow> 'c \<Rightarrow> bool) \<Rightarrow> 'e list \<Rightarrow> 'c list \<Rightarrow> 'e list \<times> 'c list" where
  "specMatch same [] current = ([], current)"
| "specMatch same (e # expected) current =
     (case find (same e) current of
        None \<Rightarrow> (case specMatch same expected current of (ue, uc) \<Rightarrow> (e # ue, uc))
      | Some c \<Rightarrow> specMatch same expected (remove1 c current))"

definition unmatchedExpected :: "('e \<Rightarrow> 'c \<Rightarrow> bool) \<Rightarrow> 'e list \<Rightarrow> 'c list \<Rightarrow> 'e list" where
  "unmatchedExpected same expected current = fst (specMatch same expected current)"

definition unmatchedCurrent :: "('e \<Rightarrow> 'c \<Rightarrow> bool) \<Rightarrow> 'e list \<Rightarrow> 'c list \<Rightarrow> 'c list" where
  "unmatchedCurrent same expected current = snd (specMatch same expected current)"

text \<open>Two passthrough devices match when the candidate test of the source says so.\<close>

definition pciSame :: "VirtualDevice \<Rightarrow> VirtualDevice \<Rightarrow> bool" where
  "pciSame expectedPci curDev = (pciCandidateMatches expectedPci curDev = Inr True)"

text \<open>The backings each matcher has a case for.\<close>

fun ethBackingCompared :: "backing option \<Rightarrow> bool" where
  "ethBackingCompared (Some (VirtualEthernetCardNetworkBackingInfo _)) = True"
| "ethBackingCompared (Some (VirtualEthernetCardDistributedVirtualPortBackingInfo _ _)) = True"
| "ethBackingCompared (Some (VirtualEthernetCardOpaqueNetworkBackingInfo _)) = True"
| "ethBackingCompared _ = False"

fun pciBackingCompared :: "backing option \<Rightarrow> bool" where
  "pciBackingCompared (Some (VirtualPCIPassthroughVmiopBackingInfo _)) = True"
| "pciBackingCompared (Some (VirtualPCIPassthroughDynamicBackingInfo _ _)) = True"
| "pciBackingCompared _ = False"

text \<open>The devices a change list adds, and the devices it removes.\<close>

definition addedDevices :: "VirtualDeviceConfigSpec list \<Rightarrow> device list" where
  "addedDevices changes = map Device (filter (\<lambda>ch. Operation ch = OperationAdd) changes)"

definition removedDevices :: "VirtualDeviceConfigSpec list \<Rightarrow> device list" where
  "removedDevices changes = map Device (filter (\<lambda>ch. Operation ch = OperationRemove) changes)"

text \<open>All Remove entries precede all Add entries: no Remove stands after an Add.\<close>

fun removesBeforeAdds :: "VirtualDeviceConfigSpec list \<Rightarrow> bool" where
  "removesBeforeAdds [] = True"
| "removesBeforeAdds (ch # rest) =
     (if Operation ch = OperationAdd
      then list_all (\<lambda>later. Operation later \<noteq> OperationRemove) rest
      else removesBeforeAdds rest)"

text \<open>The current extra-config read as a key/value list, without the entries whose
  option value is nil; \<open>map_of\<close> of it is the value of a key (of its first entry).\<close>

fun extraConfigEntries :: "OptionValue option list \<Rightarrow> (string \<times> any) list" where
  "extraConfigEntries [] = []"
| "extraConfigEntries (None # rest) = extraConfigEntries rest"
| "extraConfigEntries (Some optValue # rest) =
     (OptionValue_Key optValue, OptionValue_Value optValue) # extraConfigEntries rest"

text \<open>The value of a key in the current extra-config, a later entry overwriting an earlier
  one: the value of the last entry for the key.\<close>

definition currentExtraConfigValue :: "VirtualMachineConfigInfo \<Rightarrow> string \<Rightarrow> any option" where
  "currentExtraConfigValue config k =
     map_of (rev (extraConfigEntries (Config_ExtraConfig config))) k"

text \<open>The new entries of a config spec's extra-config for a key.\<close>

definition extraConfigFor :: "string \<Rightarrow> VirtualMachineConfigSpec \<Rightarrow> OptionValue list" where
  "extraConfigFor k configSpec = filter (\<lambda>ov. OptionValue_Key ov = k) (ExtraConfig configSpec)"

text \<open>Every NIC of the guest data, when there is guest data, has an IP configuration.\<close>

definition guestNicsHaveIpConfig :: "mo_VirtualMachine \<Rightarrow> bool" where
  "guestNicsHaveIpConfig moVM =
     (case Guest moVM of
        None \<Rightarrow> True
      | Some guest \<Rightarrow> list_all (\<lambda>nicInfo. Nic_IpConfig nicInfo \<noteq> None) (Net guest))"

text \<open>The desired change-block-tracking flag is unset, or it is the current one.\<close>

definition changeTrackingSettled :: "VirtualMachineSpec \<Rightarrow> VirtualMachineConfigInfo \<Rightarrow> bool" where
  "changeTrackingSettled vmSpec config =
     (case AdvancedOptions vmSpec of
        None \<Rightarrow> True
      | Some advancedOptions \<Rightarrow>
          (case ChangeBlockTracking advancedOptions of
             None \<Rightarrow> True
           | Some cbt \<Rightarrow> Config_ChangeTrackingEnabled config = Some cbt))"

subsection \<open>Concrete inputs\<close>

text \<open>A concrete environment, hypervisor and VM, on which the theorems below are
  instantiated. In it quantities are already in MHz and MB, templates have no markup,
  there are no disk changes and no vApp properties to merge, and every call but the
  one to the network provider succeeds. The values of the constants stand for the ones
  the package declares.\<close>

definition exampleEnv :: env where
  "exampleEnv =
     \<lparr>GOSCPendingExtraConfigKey = ''tools.deployPkg.fileName'',
      VSphereCustomizationBypassKey = ''vmoperator.vmware.com/vsphere-customization'',
      VSphereCustomizationBypassDisable = ''disable'',
      ExtraConfigGuestInfoPrefix = ''guestinfo.'',
      ExtraConfigTrue = ''TRUE'',
      MMPowerOffVMExtraConfigKey = ''maintenance.vm.evacuation.poweroff'',
      PCIPassthruMMIOOverrideAnnotation = ''vmoperator.vmware.com/pci-passthru-64bit-mmio-size'',
      PCIPassthruMMIOSizeDefault = ''512'',
      PCIPassthruMMIOExtraConfigKey = ''pciPassthru.use64bitMMIO'',
      PCIPassthruMMIOSizeExtraConfigKey = ''pciPassthru.64bitMMIOSizeGB'',
      VMOperatorV1Alpha1ExtraConfigKey = ''guestinfo.vmservice.defer-cloud-init'',
      VMOperatorV1Alpha1ConfigReady = ''ready'',
      VMOperatorV1Alpha1ConfigEnabled = ''enabled'',
      VCVMAnnotation = ''Virtual Machine managed by the vSphere Virtual Machine service'',
      ClusterModuleNameKey = ''vsphere-cluster-module-group'',
      ProviderTagsAnnotationKey = ''vsphere-tag'',
      ProviderTagCategoryNameKey = ''ProviderTagCategoryName'',
      IsThunderPciDevicesFSSEnabled = True,
      IsVMServiceV1Alpha2FSSEnabled = False,
      CpuQuantityToMhz = (\<lambda>q minFreq. word_of_int q),
      memoryQuantityToMb = (\<lambda>q. word_of_int q),
      GetMergedvAppConfigSpec = (\<lambda>data props. None),
      updateVirtualDiskDeviceChanges = (\<lambda>vm disks. Inr []),
      GetInterfaceCustomizations = (\<lambda>netIfList. List.map_filter Customization netIfList),
      renderSpecTemplate = (\<lambda>vmSpec name text. text),
      renderDataTemplate = (\<lambda>netIfList dnsServers name text. text),
      Session_extraConfig = Map.empty,
      Session_tagInfo = [''WorkerVmVmAATag'' \<mapsto> ''worker-tag'',
                         ''ProviderTagCategoryName'' \<mapsto> ''anti-affinity''],
      GetCpuMinMHzInCluster = 2000,
      rangeOrder = []\<rparr>"

definition exampleStatus :: VirtualMachineStatus where
  "exampleStatus =
     \<lparr>Phase = '''', Status_PowerState = '''', UniqueID = '''', BiosUUID = '''', InstanceUUID = '''',
      Host = ''host-old'', VmIp = '''', Status_NetworkInterfaces = [],
      Status_ChangeBlockTracking = None, Status_Volumes = []\<rparr>"

definition exampleVM :: VirtualMachine where
  "exampleVM =
     \<lparr>Name = ''vm-1'', Annotations = Map.empty,
      Spec = \<lparr>Spec_PowerState = ''poweredOn'', Spec_NetworkInterfaces = [],
              Spec_Volumes = [], AdvancedOptions = None\<rparr>,
      Status = exampleStatus\<rparr>"

definition exampleClassSpec :: VirtualMachineClassSpec where
  "exampleClassSpec =
     \<lparr>Hardware_Cpus = 2, Hardware_Memory = 2048,
      Hardware_Devices = \<lparr>VGPUDevices = [], DynamicDirectPathIODevices = []\<rparr>,
      Requests_Cpu = 0, Requests_Memory = 0, Limits_Cpu = 0, Limits_Memory = 0\<rparr>"

definition exampleArgs :: VmConfigArgs where
  "exampleArgs =
     \<lparr>VmClass_Spec = exampleClassSpec,
      VmImage = \<lparr>V1Alpha1CompatibleCondition_IsTrue = False\<rparr>,
      VmMetadata = None,
      ResourcePolicy = Some \<lparr>Status_ClusterModules =
        [\<lparr>GroupName = ''workers'', ModuleUuid = ''module-1''\<rparr>]\<rparr>\<rparr>"

text \<open>A current configuration whose hardware fields are those of the class, with no
  devices.\<close>

definition exampleConfig :: VirtualMachineConfigInfo where
  "exampleConfig =
     \<lparr>Config_Uuid = ''bios-1'',
      Config_Annotation = ''Virtual Machine managed by the vSphere Virtual Machine service'',
      Config_Hardware_NumCPU = 2, Config_Hardware_MemoryMB = 2048,
      Config_Hardware_Device = [],
      Config_ManagedBy = Some \<lparr>ExtensionKey = ''com.vmware.vcenter.wcp'',
                                ManagedBy_Type = ''VirtualMachine''\<rparr>,
      Config_CpuAllocation = None, Config_MemoryAllocation = None,
      Config_ExtraConfig = [], Config_VAppConfig = None,
      Config_ChangeTrackingEnabled = Some False\<rparr>"

definition exampleMoVM :: mo_VirtualMachine where
  "exampleMoVM =
     \<lparr>Config = Some exampleConfig, Runtime_PowerState = ''poweredOn'',
      Runtime_ConnectionState = ''connected'', Guest = None,
      Summary_Runtime_PowerState = ''poweredOn'', Summary_Runtime_Host = Some ''host-42'',
      Summary_Config_Uuid = ''bios-1'', Summary_Config_InstanceUuid = ''instance-1''\<rparr>"

definition exampleWorld :: world where
  "exampleWorld =
     \<lparr>GetVirtualMachine = None, MoRef_Value = ''vm-1001'',
      GetProperties_config_runtime = Inr exampleMoVM,
      GetProperties_status = Inr exampleMoVM,
      SetPowerState = (\<lambda>state. None),
      Reconfigure = (\<lambda>configSpec. None),
      Customize = (\<lambda>customizationSpec. None),
      invokeFsrVirtualMachine = None,
      ObjectName = (\<lambda>host. Inr ''esx-42.example.org''),
      EnsureNetworkInterface = (\<lambda>vif. Inl (ErrorString ''no such network'')),
      GetNameserversFromConfigMap = ([''10.0.0.53''], None),
      IsVmMemberOfClusterModule = (\<lambda>moduleUuid. Inr True),
      AddVmToClusterModule = (\<lambda>moduleUuid. None),
      AttachTagToVm = (\<lambda>tagName tagCategoryName. None)\<rparr>"

text \<open>Network adapters: one on a named network, one on the same network with another
  MAC address and external id, and one whose backing is absent.\<close>

definition cardOnNetwork :: VirtualEthernetCard where
  "cardOnNetwork =
     \<lparr>Key = - 100, Backing = Some (VirtualEthernetCardNetworkBackingInfo ''VM Network''),
      AddressType = ''manual'', MacAddress = ''aa:bb'', ExternalId = ''ext-1''\<rparr>"

definition cardOtherExternalId :: VirtualEthernetCard where
  "cardOtherExternalId =
     \<lparr>Key = 4000, Backing = Some (VirtualEthernetCardNetworkBackingInfo ''VM Network''),
      AddressType = ''manual'', MacAddress = ''aa:bb'', ExternalId = ''ext-2''\<rparr>"

definition cardWithoutBacking :: VirtualEthernetCard where
  "cardWithoutBacking =
     \<lparr>Key = 4001, Backing = None, AddressType = ''generated'', MacAddress = ''cc:dd'',
      ExternalId = ''''\<rparr>"

text \<open>Passthrough devices: an expected and a current vGPU of the same profile.\<close>

definition vgpuExpected :: VirtualDevice where
  "vgpuExpected = \<lparr>Key = - 200, Backing = Some (VirtualPCIPassthroughVmiopBackingInfo ''profileA'')\<rparr>"

definition vgpuCurrent :: VirtualDevice where
  "vgpuCurrent = \<lparr>Key = 13000, Backing = Some (VirtualPCIPassthroughVmiopBackingInfo ''profileA'')\<rparr>"

section \<open>Theorems\<close>

lemma first_match_find:
  "i < length xs \<Longrightarrow> P (xs ! i) \<Longrightarrow> (\<forall>k<i. \<not> P (xs ! k))
   \<Longrightarrow> find P xs = Some (xs ! i) \<and> remove1 (xs ! i) xs = removeAt i xs"
proof (induction xs arbitrary: i)
  case Nil
  then show ?case by simp
next
  case (Cons x xs)
  show ?case
  proof (cases i)
    case 0
    with Cons.prems show ?thesis by (simp add: removeAt_def)
  next
    case (Suc j)
    with Cons.prems have notx: "\<not> P x" by auto
    from Suc Cons.prems have j: "j < length xs" "P (xs ! j)" "\<forall>k<j. \<not> P (xs ! k)"
      by auto
    from Cons.IH[OF j] have ih: "find P xs = Some (xs ! j)" "remove1 (xs ! j) xs = removeAt j xs"
      by auto
    from j(2) notx have ne: "x \<noteq> xs ! j" by auto
    show ?thesis using Suc notx ih ne by (simp add: removeAt_def)
  qed
qed

lemma ethMatchingIdx_None:
  "ethMatchingIdx e cur idx = None \<longleftrightarrow> find (ethCandidateMatches e) cur = None"
  by (induction cur arbitrary: idx) auto

lemma ethMatchingIdx_Some:
  "ethMatchingIdx e cur idx = Some j \<Longrightarrow>
     \<exists>i. j = idx + i \<and> i < length cur \<and> ethCandidateMatches e (cur ! i)
         \<and> (\<forall>k<i. \<not> ethCandidateMatches e (cur ! k))"
proof (induction cur arbitrary: idx)
  case Nil
  then show ?case by simp
next
  case (Cons c cur)
  show ?case
  proof (cases "ethCandidateMatches e c")
    case True
    with Cons.prems show ?thesis by (intro exI[of _ 0]) simp
  next
    case False
    with Cons.prems have "ethMatchingIdx e cur (Suc idx) = Some j" by simp
    from Cons.IH[OF this] obtain i where i: "j = Suc idx + i" "i < length cur"
      "ethCandidateMatches e (cur ! i)" "\<forall>k<i. \<not> ethCandidateMatches e (cur ! k)" by blast
    show ?thesis
    proof (intro exI[of _ "Suc i"] conjI allI impI)
      fix k assume "k < Suc i"
      then show "\<not> ethCandidateMatches e ((c # cur) ! k)"
        using False i(4) by (cases k) auto
    qed (use i in auto)
  qed
qed

lemma ethMatchingIdx_Some0:
  assumes "ethMatchingIdx e cur 0 = Some i"
  shows "find (ethCandidateMatches e) cur = Some (cur ! i) \<and> remove1 (cur ! i) cur = removeAt i cur"
proof -
  from ethMatchingIdx_Some[OF assms] have "i < length cur" "ethCandidateMatches e (cur ! i)"
    "\<forall>k<i. \<not> ethCandidateMatches e (cur ! k)" by auto
  then show ?thesis by (rule first_match_find)
qed

lemma ethCardLoop_specMatch:
  "ethCardLoop expected current deviceChanges =
     (unmatchedCurrent ethCandidateMatches expected current,
      deviceChanges @ map (\<lambda>c. addChange (EthernetCard c))
                         (unmatchedExpected ethCandidateMatches expected current))"
proof (induction expected arbitrary: current deviceChanges)
  case Nil
  then show ?case by (simp add: unmatchedCurrent_def unmatchedExpected_def)
next
  case (Cons e expected)
  show ?case
  proof (cases "ethMatchingIdx e current 0")
    case None
    then have "find (ethCandidateMatches e) current = None" by (simp add: ethMatchingIdx_None)
    with None Cons.IH show ?thesis
      by (simp add: unmatchedCurrent_def unmatchedExpected_def split: prod.splits)
  next
    case (Some i)
    from ethMatchingIdx_Some0[OF Some] Some Cons.IH show ?thesis
      by (simp add: unmatchedCurrent_def unmatchedExpected_def)
  qed
qed

lemma updateEthCardDeviceChanges_specMatch:
  "updateEthCardDeviceChanges expected current =
     map (\<lambda>c. removeChange (EthernetCard c)) (unmatchedCurrent ethCandidateMatches expected current)
     @ map (\<lambda>c. addChange (EthernetCard c)) (unmatchedExpected ethCandidateMatches expected current)"
  by (simp add: updateEthCardDeviceChanges_def ethCardLoop_specMatch)

lemma specMatch_subsets:
  "set (fst (specMatch same expected current)) \<subseteq> set expected
   \<and> set (snd (specMatch same expected current)) \<subseteq> set current"
proof (induction expected arbitrary: current)
  case Nil
  then show ?case by simp
next
  case (Cons e expected)
  show ?case
  proof (cases "find (same e) current")
    case None
    with Cons.IH[of current] show ?thesis by (auto split: prod.splits)
  next
    case (Some c)
    with Cons.IH[of "remove1 c current"] show ?thesis
      using set_remove1_subset[of c current] by auto
  qed
qed

lemma specMatch_unmatched_no_match:
  "e \<in> set (fst (specMatch same expected current)) \<Longrightarrow>
   c \<in> set (snd (specMatch same expected current)) \<Longrightarrow> \<not> same e c"
proof (induction expected arbitrary: current)
  case Nil
  then show ?case by simp
next
  case (Cons x expected)
  show ?case
  proof (cases "find (same x) current")
    case None
    then have nomatch: "\<forall>c\<in>set current. \<not> same x c" by (simp add: find_None_iff)
    from None Cons.prems have c: "c \<in> set (snd (specMatch same expected current))"
      by (auto split: prod.splits)
    with specMatch_subsets[of same expected current] have "c \<in> set current" by auto
    from None Cons.prems have "e = x \<or> e \<in> set (fst (specMatch same expected current))"
      by (auto split: prod.splits)
    then show ?thesis
    proof
      assume "e = x" with nomatch \<open>c \<in> set current\<close> show ?thesis by simp
    next
      assume "e \<in> set (fst (specMatch same expected current))"
      from Cons.IH[OF this c] show ?thesis .
    qed
  next
    case (Some d)
    with Cons.prems Cons.IH[of "remove1 d current"] show ?thesis by simp
  qed
qed

lemma specMatch_length:
  "length (fst (specMatch same expected current)) + length current
     = length (snd (specMatch same expected current)) + length expected
   \<and> length (snd (specMatch same expected current)) \<le> length current"
proof (induction expected arbitrary: current)
  case Nil
  then show ?case by simp
next
  case (Cons e expected)
  show ?case
  proof (cases "find (same e) current")
    case None
    with Cons.IH[of current] show ?thesis by (auto split: prod.splits)
  next
    case (Some c)
    then have "c \<in> set current" by (auto simp: find_Some_iff)
    then have len: "length current = Suc (length (remove1 c current))"
      using length_pos_if_in_set[of c current] by (simp add: length_remove1)
    from Cons.IH[of "remove1 c current"] Some show ?thesis
      unfolding len by simp
  qed
qed

lemma pciMatchingIdx_None:
  "pciMatchingIdx e cur idx = Inr None \<longleftrightarrow> (\<forall>c\<in>set cur. pciCandidateMatches e c = Inr False)"
  by (induction cur arbitrary: idx) (auto split: sum.splits)

lemma pciMatchingIdx_Some:
  "pciMatchingIdx e cur idx = Inr (Some j) \<Longrightarrow>
     \<exists>i. j = idx + i \<and> i < length cur \<and> pciSame e (cur ! i) \<and> (\<forall>k<i. \<not> pciSame e (cur ! k))"
proof (induction cur arbitrary: idx)
  case Nil
  then show ?case by simp
next
  case (Cons c cur)
  show ?case
  proof (cases "pciCandidateMatches e c = Inr True")
    case True
    with Cons.prems show ?thesis by (intro exI[of _ 0]) (simp add: pciSame_def)
  next
    case False
    with Cons.prems have "pciMatchingIdx e cur (Suc idx) = Inr (Some j)"
      by (auto split: sum.splits if_splits)
    from Cons.IH[OF this] obtain i where i: "j = Suc idx + i" "i < length cur"
      "pciSame e (cur ! i)" "\<forall>k<i. \<not> pciSame e (cur ! k)" by blast
    show ?thesis
    proof (intro exI[of _ "Suc i"] conjI allI impI)
      fix k assume "k < Suc i"
      then show "\<not> pciSame e ((c # cur) ! k)"
        using False i(4) by (cases k) (auto simp: pciSame_def)
    qed (use i in auto)
  qed
qed

lemma pciMatchingIdx_Some0:
  assumes "pciMatchingIdx e cur 0 = Inr (Some i)"
  shows "find (pciSame e) cur = Some (cur ! i) \<and> remove1 (cur ! i) cur = removeAt i cur"
proof -
  from pciMatchingIdx_Some[OF assms] have "i < length cur" "pciSame e (cur ! i)"
    "\<forall>k<i. \<not> pciSame e (cur ! k)" by auto
  then show ?thesis by (rule first_match_find)
qed

lemma pciMatchingIdx_None_find:
  assumes "pciMatchingIdx e cur 0 = Inr None"
  shows "find (pciSame e) cur = None"
  using assms by (auto simp: pciMatchingIdx_None find_None_iff pciSame_def)

lemma pciDeviceLoop_specMatch:
  "pciDeviceLoop expected current deviceChanges = Inr (remaining, deviceChanges') \<Longrightarrow>
     remaining = unmatchedCurrent pciSame expected current
     \<and> deviceChanges' = deviceChanges @ map (\<lambda>c. addChange (PCIPassthrough c))
                           (unmatchedExpected pciSame expected current)"
proof (induction expected arbitrary: current deviceChanges)
  case Nil
  then show ?case by (simp add: unmatchedCurrent_def unmatchedExpected_def)
next
  case (Cons e expected)
  from Cons.prems obtain r where r: "pciMatchingIdx e current 0 = Inr r"
    by (auto split: sum.splits)
  show ?case
  proof (cases r)
    case None
    with r have "find (pciSame e) current = None" by (simp add: pciMatchingIdx_None_find)
    moreover from None r Cons.prems
    have "pciDeviceLoop expected current (deviceChanges @ [addChange (PCIPassthrough e)])
            = Inr (remaining, deviceChanges')" by simp
    from Cons.IH[OF this] have
      "remaining = unmatchedCurrent pciSame expected current"
      "deviceChanges' = (deviceChanges @ [addChange (PCIPassthrough e)])
          @ map (\<lambda>c. addChange (PCIPassthrough c)) (unmatchedExpected pciSame expected current)"
      by auto
    ultimately show ?thesis
      by (simp add: unmatchedCurrent_def unmatchedExpected_def split: prod.splits)
  next
    case (Some i)
    with r have ri: "pciMatchingIdx e current 0 = Inr (Some i)" by simp
    from ri Cons.prems
    have "pciDeviceLoop expected (removeAt i current) deviceChanges
            = Inr (remaining, deviceChanges')" by simp
    from Cons.IH[OF this] pciMatchingIdx_Some0[OF ri] show ?thesis
      by (simp add: unmatchedCurrent_def unmatchedExpected_def)
  qed
qed

lemma updatePCIDeviceChanges_specMatch:
  assumes "updatePCIDeviceChanges expected current = Inr changes"
  shows "changes =
     map (\<lambda>c. removeChange (PCIPassthrough c)) (unmatchedCurrent pciSame expected current)
     @ map (\<lambda>c. addChange (PCIPassthrough c)) (unmatchedExpected pciSame expected current)"
proof -
  from assms obtain remaining deviceChanges where
    l: "pciDeviceLoop expected current [] = Inr (remaining, deviceChanges)"
    and c: "changes = map (\<lambda>dev. removeChange (PCIPassthrough dev)) remaining @ deviceChanges"
    by (auto simp: updatePCIDeviceChanges_def split: sum.splits prod.splits)
  from pciDeviceLoop_specMatch[OF l] c show ?thesis by simp
qed

lemma removeAt_subset: "set (removeAt i xs) \<subseteq> set xs"
  unfolding removeAt_def using set_take_subset[of i xs] set_drop_subset[of "Suc i" xs] by auto

lemma pciDeviceLoop_remaining_subset:
  "pciDeviceLoop expected current deviceChanges = Inr (remaining, deviceChanges') \<Longrightarrow>
   set remaining \<subseteq> set current"
proof (induction expected arbitrary: current deviceChanges)
  case Nil
  then show ?case by simp
next
  case (Cons e expected)
  from Cons.prems obtain r where r: "pciMatchingIdx e current 0 = Inr r"
    by (auto split: sum.splits)
  show ?case
  proof (cases r)
    case None
    with r Cons.prems Cons.IH show ?thesis by simp
  next
    case (Some i)
    with r Cons.prems
    have "pciDeviceLoop expected (removeAt i current) deviceChanges
            = Inr (remaining, deviceChanges')" by simp
    from Cons.IH[OF this] removeAt_subset[of i current] show ?thesis by auto
  qed
qed

lemma pciDeviceLoop_unmatched_tested:
  "pciDeviceLoop expected current deviceChanges = Inr (remaining, deviceChanges') \<Longrightarrow>
   e \<in> set (unmatchedExpected pciSame expected current) \<Longrightarrow> c \<in> set remaining \<Longrightarrow>
   pciCandidateMatches e c = Inr False"
proof (induction expected arbitrary: current deviceChanges)
  case Nil
  then show ?case by (simp add: unmatchedExpected_def)
next
  case (Cons x expected)
  from Cons.prems(1) obtain r where r: "pciMatchingIdx x current 0 = Inr r"
    by (auto split: sum.splits)
  show ?case
  proof (cases r)
    case None
    with r have f: "find (pciSame x) current = None" by (simp add: pciMatchingIdx_None_find)
    from None r Cons.prems(1)
    have l: "pciDeviceLoop expected current (deviceChanges @ [addChange (PCIPassthrough x)])
            = Inr (remaining, deviceChanges')" by simp
    from f Cons.prems(2) have "e = x \<or> e \<in> set (unmatchedExpected pciSame expected current)"
      by (auto simp: unmatchedExpected_def split: prod.splits)
    then show ?thesis
    proof
      assume "e = x"
      moreover from pciDeviceLoop_remaining_subset[OF l] Cons.prems(3) have "c \<in> set current"
        by auto
      ultimately show ?thesis using None r by (simp add: pciMatchingIdx_None)
    next
      assume "e \<in> set (unmatchedExpected pciSame expected current)"
      from Cons.IH[OF l this Cons.prems(3)] show ?thesis .
    qed
  next
    case (Some i)
    with r have ri: "pciMatchingIdx x current 0 = Inr (Some i)" by simp
    from ri Cons.prems(1)
    have l: "pciDeviceLoop expected (removeAt i current) deviceChanges
            = Inr (remaining, deviceChanges')" by simp
    from pciMatchingIdx_Some0[OF ri] Cons.prems(2)
    have "e \<in> set (unmatchedExpected pciSame expected (removeAt i current))"
      by (simp add: unmatchedExpected_def)
    from Cons.IH[OF l this Cons.prems(3)] show ?thesis .
  qed
qed

lemma allowedDevLoop_True: "allowedDevLoop e cs True = True"
  by (cases cs) auto

lemma pciCandidateMatches_self:
  "pciCandidateMatches c c = Inr False \<Longrightarrow> \<not> pciBackingCompared (Backing c)"
proof (cases "Backing c")
  case None
  then show ?thesis by simp
next
  case (Some b)
  assume f: "pciCandidateMatches c c = Inr False"
  show ?thesis
  proof (cases b)
    case (VirtualPCIPassthroughDynamicBackingInfo l lbl)
    with Some f show ?thesis
      by (cases l) (auto simp: pciCandidateMatches_def allowedDevLoop_True)
  qed (use Some f in \<open>auto simp: pciCandidateMatches_def\<close>)
qed

lemma ethCandidateMatches_self:
  "ethCandidateMatches c c \<longleftrightarrow> ethBackingCompared (Backing c)"
proof (cases "Backing c")
  case None
  then show ?thesis by (simp add: ethCandidateMatches_def)
next
  case (Some b)
  then show ?thesis
    by (cases b) (auto simp: ethCandidateMatches_def ethCardMatch_def)
qed

lemma removesBeforeAdds_append:
  "removesBeforeAdds (map removeChange xs @ map addChange ys)"
proof (induction xs)
  case Nil
  show ?case by (induction ys) (auto simp: addChange_def list_all_iff)
next
  case (Cons x xs)
  then show ?case by (simp add: removeChange_def)
qed

lemma added_removed_append:
  "addedDevices (map removeChange xs @ map addChange ys) = ys"
  "removedDevices (map removeChange xs @ map addChange ys) = xs"
  by (induction xs; induction ys; simp add: addedDevices_def removedDevices_def
        addChange_def removeChange_def)+

lemma unmatched_eth_both:
  assumes "c \<in> set (unmatchedExpected ethCandidateMatches expected current)"
    and "c \<in> set (unmatchedCurrent ethCandidateMatches expected current)"
  shows "\<not> ethBackingCompared (Backing c)"
  using specMatch_unmatched_no_match[of c ethCandidateMatches expected current c] assms
  by (simp add: unmatchedExpected_def unmatchedCurrent_def ethCandidateMatches_self)

lemma eth_symmetry:
  fixes expected current
  defines "changes \<equiv> updateEthCardDeviceChanges expected current"
  shows "length changes = length (unmatchedCurrent ethCandidateMatches expected current)
                          + length (unmatchedExpected ethCandidateMatches expected current)"
    and "set (addedDevices changes) \<subseteq> EthernetCard ` set expected"
    and "set (removedDevices changes) \<subseteq> EthernetCard ` set current"
    and "\<forall>d \<in> set (addedDevices changes) \<inter> set (removedDevices changes).
           \<exists>c. d = EthernetCard c \<and> \<not> ethBackingCompared (Backing c)"
proof -
  let ?ue = "unmatchedExpected ethCandidateMatches expected current"
  let ?uc = "unmatchedCurrent ethCandidateMatches expected current"
  have ch: "changes = map removeChange (map EthernetCard ?uc) @ map addChange (map EthernetCard ?ue)"
    by (simp add: changes_def updateEthCardDeviceChanges_specMatch)
  have added: "addedDevices changes = map EthernetCard ?ue"
    and removed: "removedDevices changes = map EthernetCard ?uc"
    unfolding ch by (rule added_removed_append)+
  show "length changes = length ?uc + length ?ue" by (simp add: ch)
  show "set (addedDevices changes) \<subseteq> EthernetCard ` set expected"
    using specMatch_subsets[of ethCandidateMatches expected current]
    by (auto simp: added unmatchedExpected_def)
  show "set (removedDevices changes) \<subseteq> EthernetCard ` set current"
    using specMatch_subsets[of ethCandidateMatches expected current]
    by (auto simp: removed unmatchedCurrent_def)
  show "\<forall>d \<in> set (addedDevices changes) \<inter> set (removedDevices changes).
           \<exists>c. d = EthernetCard c \<and> \<not> ethBackingCompared (Backing c)"
    using unmatched_eth_both[of _ expected current] by (auto simp: added removed)
qed

lemma pci_symmetry:
  assumes ret: "updatePCIDeviceChanges expected current = Inr changes"
  shows "length changes = length (unmatchedCurrent pciSame expected current)
                          + length (unmatchedExpected pciSame expected current)"
    and "set (addedDevices changes) \<subseteq> PCIPassthrough ` set expected"
    and "set (removedDevices changes) \<subseteq> PCIPassthrough ` set current"
    and "\<forall>d \<in> set (addedDevices changes) \<inter> set (removedDevices changes).
           \<exists>c. d = PCIPassthrough c \<and> \<not> pciBackingCompared (Backing c)"
proof -
  let ?ue = "unmatchedExpected pciSame expected current"
  let ?uc = "unmatchedCurrent pciSame expected current"
  have ch: "changes = map removeChange (map PCIPassthrough ?uc) @ map addChange (map PCIPassthrough ?ue)"
    using updatePCIDeviceChanges_specMatch[OF ret] by simp
  have added: "addedDevices changes = map PCIPassthrough ?ue"
    and removed: "removedDevices changes = map PCIPassthrough ?uc"
    unfolding ch by (rule added_removed_append)+
  show "length changes = length ?uc + length ?ue" by (simp add: ch)
  show "set (addedDevices changes) \<subseteq> PCIPassthrough ` set expected"
    using specMatch_subsets[of pciSame expected current]
    by (auto simp: added unmatchedExpected_def)
  show "set (removedDevices changes) \<subseteq> PCIPassthrough ` set current"
    using specMatch_subsets[of pciSame expected current]
    by (auto simp: removed unmatchedCurrent_def)
  from ret obtain remaining deviceChanges where
    l: "pciDeviceLoop expected current [] = Inr (remaining, deviceChanges)"
    by (auto simp: updatePCIDeviceChanges_def split: sum.splits prod.splits)
  from pciDeviceLoop_specMatch[OF l] have rem: "remaining = ?uc" by simp
  show "\<forall>d \<in> set (addedDevices changes) \<inter> set (removedDevices changes).
           \<exists>c. d = PCIPassthrough c \<and> \<not> pciBackingCompared (Backing c)"
  proof
    fix d assume "d \<in> set (addedDevices changes) \<inter> set (removedDevices changes)"
    then obtain c where c: "d = PCIPassthrough c" "c \<in> set ?ue" "c \<in> set ?uc"
      by (auto simp: added removed)
    from pciDeviceLoop_unmatched_tested[OF l c(2)] c(3) rem
    have "pciCandidateMatches c c = Inr False" by simp
    from pciCandidateMatches_self[OF this] c(1)
    show "\<exists>c. d = PCIPassthrough c \<and> \<not> pciBackingCompared (Backing c)" by blast
  qed
qed

text \<open>
  Claim C2, as amended. For all expected and current device lists, the change list of
  either matcher (for passthrough devices: whenever it returns one) has as many entries
  as there are unmatched current devices plus unmatched expected devices; every device
  it adds is an expected device and every device it removes is a current device; and a
  device stands in both an Add and a Remove change only if its backing is absent or of
  a type the matcher has no case for.
\<close>

theorem device_matcher_symmetry:
  "(let changes = updateEthCardDeviceChanges expectedEthCards currentEthCards in
      length changes =
        length (unmatchedCurrent ethCandidateMatches expectedEthCards currentEthCards)
        + length (unmatchedExpected ethCandidateMatches expectedEthCards currentEthCards)
      \<and> set (addedDevices changes) \<subseteq> EthernetCard ` set expectedEthCards
      \<and> set (removedDevices changes) \<subseteq> EthernetCard ` set currentEthCards
      \<and> (\<forall>d \<in> set (addedDevices changes) \<inter> set (removedDevices changes).
            \<exists>c. d = EthernetCard c \<and> \<not> ethBackingCompared (Backing c)))
   \<and> (\<forall>changes. updatePCIDeviceChanges expectedPciDevices currentPciDevices = Inr changes \<longrightarrow>
      length changes =
        length (unmatchedCurrent pciSame expectedPciDevices currentPciDevices)
        + length (unmatchedExpected pciSame expectedPciDevices currentPciDevices)
      \<and> set (addedDevices changes) \<subseteq> PCIPassthrough ` set expectedPciDevices
      \<and> set (removedDevices changes) \<subseteq> PCIPassthrough ` set currentPciDevices
      \<and> (\<forall>d \<in> set (addedDevices changes) \<inter> set (removedDevices changes).
            \<exists>c. d = PCIPassthrough c \<and> \<not> pciBackingCompared (Backing c)))"
proof (intro conjI allI impI)
  show "let changes = updateEthCardDeviceChanges expectedEthCards currentEthCards in
      length changes =
        length (unmatchedCurrent ethCandidateMatches expectedEthCards currentEthCards)
        + length (unmatchedExpected ethCandidateMatches expectedEthCards currentEthCards)
      \<and> set (addedDevices changes) \<subseteq> EthernetCard ` set expectedEthCards
      \<and> set (removedDevices changes) \<subseteq> EthernetCard ` set currentEthCards
      \<and> (\<forall>d \<in> set (addedDevices changes) \<inter> set (removedDevices changes).
            \<exists>c. d = EthernetCard c \<and> \<not> ethBackingCompared (Backing c))"
    unfolding Let_def using eth_symmetry[of expectedEthCards currentEthCards] by blast
next
  fix changes
  assume ret: "updatePCIDeviceChanges expectedPciDevices currentPciDevices = Inr changes"
  show "length changes =
        length (unmatchedCurrent pciSame expectedPciDevices currentPciDevices)
        + length (unmatchedExpected pciSame expectedPciDevices currentPciDevices)"
    by (rule pci_symmetry(1)[OF ret])
  show "set (addedDevices changes) \<subseteq> PCIPassthrough ` set expectedPciDevices"
    by (rule pci_symmetry(2)[OF ret])
  show "set (removedDevices changes) \<subseteq> PCIPassthrough ` set currentPciDevices"
    by (rule pci_symmetry(3)[OF ret])
  show "\<forall>d \<in> set (addedDevices changes) \<inter> set (removedDevices changes).
            \<exists>c. d = PCIPassthrough c \<and> \<not> pciBackingCompared (Backing c)"
    by (rule pci_symmetry(4)[OF ret])
qed

text \<open>
  Witness for C2: one expected vGPU against two current ones of its profile returns one
  Remove, and an adapter without backing that is both expected and current is removed
  and added.
\<close>

theorem device_matcher_symmetry_witness:
  "updatePCIDeviceChanges [vgpuExpected] [vgpuCurrent, vgpuCurrent]
     = Inr [removeChange (PCIPassthrough vgpuCurrent)]
   \<and> length [removeChange (PCIPassthrough vgpuCurrent)]
       = length (unmatchedCurrent pciSame [vgpuExpected] [vgpuCurrent, vgpuCurrent])
         + length (unmatchedExpected pciSame [vgpuExpected] [vgpuCurrent, vgpuCurrent])
   \<and> set (removedDevices [removeChange (PCIPassthrough vgpuCurrent)])
       \<subseteq> PCIPassthrough ` set [vgpuCurrent, vgpuCurrent]
   \<and> EthernetCard cardWithoutBacking
       \<in> set (addedDevices (updateEthCardDeviceChanges [cardWithoutBacking] [cardWithoutBacking]))
         \<inter> set (removedDevices (updateEthCardDeviceChanges [cardWithoutBacking] [cardWithoutBacking]))
   \<and> \<not> ethBackingCompared (Backing cardWithoutBacking)"
proof -
  have ret: "updatePCIDeviceChanges [vgpuExpected] [vgpuCurrent, vgpuCurrent]
     = Inr [removeChange (PCIPassthrough vgpuCurrent)]"
    by (simp add: updatePCIDeviceChanges_def pciCandidateMatches_def vgpuExpected_def
        vgpuCurrent_def removeAt_def)
  have both: "EthernetCard cardWithoutBacking
       \<in> set (addedDevices (updateEthCardDeviceChanges [cardWithoutBacking] [cardWithoutBacking]))
         \<inter> set (removedDevices (updateEthCardDeviceChanges [cardWithoutBacking] [cardWithoutBacking]))"
    by (simp add: updateEthCardDeviceChanges_def ethCandidateMatches_def ethCardMatch_def
        cardWithoutBacking_def addedDevices_def removedDevices_def addChange_def removeChange_def)
  from device_matcher_symmetry[of "[cardWithoutBacking]" "[cardWithoutBacking]"
      "[vgpuExpected]" "[vgpuCurrent, vgpuCurrent]"] ret both
  show ?thesis unfolding Let_def by fastforce
qed

lemma removesBeforeAdds_eth:
  "removesBeforeAdds (updateEthCardDeviceChanges expected current)"
  using removesBeforeAdds_append[of
      "map EthernetCard (unmatchedCurrent ethCandidateMatches expected current)"
      "map EthernetCard (unmatchedExpected ethCandidateMatches expected current)"]
  by (simp add: updateEthCardDeviceChanges_specMatch comp_def)

lemma removesBeforeAdds_pci:
  assumes "updatePCIDeviceChanges expected current = Inr changes"
  shows "removesBeforeAdds changes"
  using removesBeforeAdds_append[of
      "map PCIPassthrough (unmatchedCurrent pciSame expected current)"
      "map PCIPassthrough (unmatchedExpected pciSame expected current)"]
    updatePCIDeviceChanges_specMatch[OF assms]
  by (simp add: comp_def)

lemma removesBeforeAdds_no_add_prefix:
  "list_all (\<lambda>ch. Operation ch \<noteq> OperationAdd) xs \<Longrightarrow> removesBeforeAdds ys
   \<Longrightarrow> removesBeforeAdds (xs @ ys)"
  by (induction xs) auto

lemma removesBeforeAdds_no_remove_suffix:
  "removesBeforeAdds xs \<Longrightarrow> list_all (\<lambda>ch. Operation ch \<noteq> OperationRemove) ys
   \<Longrightarrow> removesBeforeAdds (xs @ ys)"
proof (induction xs)
  case Nil
  then show ?case by (induction ys) (auto simp: list_all_iff)
next
  case (Cons x xs)
  then show ?case by (auto simp: list_all_iff)
qed

lemma DeviceChange_updateConfigSpecExtraConfig:
  "updateConfigSpecExtraConfig E config configSpec vmImage vmClassSpec vm vmMetadata g
     = Inr configSpec' \<Longrightarrow> DeviceChange configSpec' = DeviceChange configSpec"
  by (auto simp: updateConfigSpecExtraConfig_def Let_def split: sum.splits if_splits)

lemma DeviceChange_updateConfigSpec:
  "updateConfigSpec E vm config vmImage vmClassSpec vmMetadata g minCPUFreq = Inr configSpec
   \<Longrightarrow> DeviceChange configSpec = []"
proof -
  assume a: "updateConfigSpec E vm config vmImage vmClassSpec vmMetadata g minCPUFreq
               = Inr configSpec"
  let ?s3 = "updateConfigSpecMemoryAllocation E config
              (updateConfigSpecCPUAllocation E config
                 (updateHardwareConfigSpec E config defaultConfigSpec vmClassSpec)
                 vmClassSpec minCPUFreq) vmClassSpec"
  have s3: "DeviceChange ?s3 = []"
    by (simp add: updateConfigSpecMemoryAllocation_def updateConfigSpecCPUAllocation_def
        updateHardwareConfigSpec_def defaultConfigSpec_def Let_def)
  from a obtain s4 where s4: "updateConfigSpecExtraConfig E config ?s3 vmImage vmClassSpec vm
        vmMetadata g = Inr s4"
    and cs: "configSpec = updateConfigSpecChangeBlockTracking config
               (updateConfigSpecVAppConfig E config s4 vmMetadata) (Spec vm)"
    by (auto simp: updateConfigSpec_def Let_def split: sum.splits)
  from DeviceChange_updateConfigSpecExtraConfig[OF s4] s3 have "DeviceChange s4 = []" by simp
  then show ?thesis
    by (simp add: cs updateConfigSpecChangeBlockTracking_def updateConfigSpecVAppConfig_def
        split: option.splits)
qed

lemma prePowerOn_DeviceChange:
  assumes "prePowerOnVMConfigSpec E vm config updateArgs = Inr configSpec"
  shows "\<exists>disk pci.
      updateVirtualDiskDeviceChanges E vm (SelectByType_VirtualDisk (Config_Hardware_Device config))
        = Inr disk
      \<and> (if IsThunderPciDevicesFSSEnabled E
         then updatePCIDeviceChanges
                (createPCIDevices (Hardware_Devices (VmClass_Spec (VmConfigArgs updateArgs))))
                (SelectByType_VirtualPCIPassthrough (Config_Hardware_Device config)) = Inr pci
         else pci = [])
      \<and> DeviceChange configSpec =
          disk @ updateEthCardDeviceChanges (GetVirtualDeviceList (NetIfList updateArgs))
                   (SelectByType_VirtualEthernetCard (Config_Hardware_Device config)) @ pci"
proof -
  from assms obtain s0 where s0: "updateConfigSpec E vm config (VmImage (VmConfigArgs updateArgs))
             (VmClass_Spec (VmConfigArgs updateArgs)) (VmMetadata (VmConfigArgs updateArgs))
             (Session_extraConfig E) (GetCpuMinMHzInCluster E) = Inr s0"
    by (auto simp: prePowerOnVMConfigSpec_def split: sum.splits)
  from DeviceChange_updateConfigSpec[OF s0] have d0: "DeviceChange s0 = []" .
  from assms s0 obtain disk where disk: "updateVirtualDiskDeviceChanges E vm
      (SelectByType_VirtualDisk (Config_Hardware_Device config)) = Inr disk"
    by (auto simp: prePowerOnVMConfigSpec_def Let_def split: sum.splits)
  show ?thesis
  proof (cases "IsThunderPciDevicesFSSEnabled E")
    case False
    with assms s0 disk d0 show ?thesis
      by (auto simp: prePowerOnVMConfigSpec_def Let_def)
  next
    case True
    with assms s0 disk obtain pci where pci: "updatePCIDeviceChanges
                (createPCIDevices (Hardware_Devices (VmClass_Spec (VmConfigArgs updateArgs))))
                (SelectByType_VirtualPCIPassthrough (Config_Hardware_Device config)) = Inr pci"
      by (auto simp: prePowerOnVMConfigSpec_def Let_def split: sum.splits)
    with True assms s0 disk d0 show ?thesis
      by (auto simp: prePowerOnVMConfigSpec_def Let_def)
  qed
qed

text \<open>
  Claim C3, as amended. In the change list of the network-adapter matcher and in the
  change list of the passthrough matcher, all Remove entries precede all Add entries.
  The device-change list of the pre-power-on config spec is the concatenation of the
  disk changes, the network-adapter changes and (with the passthrough feature switch on)
  the passthrough changes, in that order; it has all Removes before all Adds when the
  disk changes add nothing and the passthrough changes remove nothing.
\<close>

theorem removes_before_adds_per_matcher:
  "removesBeforeAdds (updateEthCardDeviceChanges expectedEthCards currentEthCards)
   \<and> (\<forall>changes. updatePCIDeviceChanges expectedPciDevices currentPciDevices = Inr changes
        \<longrightarrow> removesBeforeAdds changes)
   \<and> (\<forall>configSpec. prePowerOnVMConfigSpec E vm config updateArgs = Inr configSpec \<longrightarrow>
        (\<exists>disk pci.
           updateVirtualDiskDeviceChanges E vm
             (SelectByType_VirtualDisk (Config_Hardware_Device config)) = Inr disk
           \<and> (if IsThunderPciDevicesFSSEnabled E
              then updatePCIDeviceChanges
                     (createPCIDevices (Hardware_Devices (VmClass_Spec (VmConfigArgs updateArgs))))
                     (SelectByType_VirtualPCIPassthrough (Config_Hardware_Device config)) = Inr pci
              else pci = [])
           \<and> removesBeforeAdds pci
           \<and> DeviceChange configSpec =
               disk @ updateEthCardDeviceChanges (GetVirtualDeviceList (NetIfList updateArgs))
                        (SelectByType_VirtualEthernetCard (Config_Hardware_Device config)) @ pci
           \<and> (list_all (\<lambda>ch. Operation ch \<noteq> OperationAdd) disk
                \<and> list_all (\<lambda>ch. Operation ch \<noteq> OperationRemove) pci
              \<longrightarrow> removesBeforeAdds (DeviceChange configSpec))))"
proof (intro conjI allI impI)
  show "removesBeforeAdds (updateEthCardDeviceChanges expectedEthCards currentEthCards)"
    by (rule removesBeforeAdds_eth)
next
  fix changes
  assume "updatePCIDeviceChanges expectedPciDevices currentPciDevices = Inr changes"
  then show "removesBeforeAdds changes" by (rule removesBeforeAdds_pci)
next
  fix configSpec
  assume a: "prePowerOnVMConfigSpec E vm config updateArgs = Inr configSpec"
  let ?eth = "updateEthCardDeviceChanges (GetVirtualDeviceList (NetIfList updateArgs))
                (SelectByType_VirtualEthernetCard (Config_Hardware_Device config))"
  from prePowerOn_DeviceChange[OF a] obtain disk pci where
    disk: "updateVirtualDiskDeviceChanges E vm
             (SelectByType_VirtualDisk (Config_Hardware_Device config)) = Inr disk"
    and pci: "if IsThunderPciDevicesFSSEnabled E
              then updatePCIDeviceChanges
                     (createPCIDevices (Hardware_Devices (VmClass_Spec (VmConfigArgs updateArgs))))
                     (SelectByType_VirtualPCIPassthrough (Config_Hardware_Device config)) = Inr pci
              else pci = []"
    and dc: "DeviceChange configSpec = disk @ ?eth @ pci"
    by blast
  have rpci: "removesBeforeAdds pci"
    using pci removesBeforeAdds_pci by (cases "IsThunderPciDevicesFSSEnabled E") auto
  have full: "list_all (\<lambda>ch. Operation ch \<noteq> OperationAdd) disk
                \<and> list_all (\<lambda>ch. Operation ch \<noteq> OperationRemove) pci
              \<longrightarrow> removesBeforeAdds (DeviceChange configSpec)"
    unfolding dc
    using removesBeforeAdds_no_add_prefix[of disk "?eth @ pci"]
      removesBeforeAdds_no_remove_suffix[OF removesBeforeAdds_eth, of pci]
    by blast
  from disk pci dc rpci full
  show "\<exists>disk pci.
           updateVirtualDiskDeviceChanges E vm
             (SelectByType_VirtualDisk (Config_Hardware_Device config)) = Inr disk
           \<and> (if IsThunderPciDevicesFSSEnabled E
              then updatePCIDeviceChanges
                     (createPCIDevices (Hardware_Devices (VmClass_Spec (VmConfigArgs updateArgs))))
                     (SelectByType_VirtualPCIPassthrough (Config_Hardware_Device config)) = Inr pci
              else pci = [])
           \<and> removesBeforeAdds pci
           \<and> DeviceChange configSpec = disk @ ?eth @ pci
           \<and> (list_all (\<lambda>ch. Operation ch \<noteq> OperationAdd) disk
                \<and> list_all (\<lambda>ch. Operation ch \<noteq> OperationRemove) pci
              \<longrightarrow> removesBeforeAdds (DeviceChange configSpec))"
    by blast
qed

lemma prePowerOn_example_eval:
  "prePowerOnVMConfigSpec exampleEnv exampleVM
     (exampleConfig\<lparr>Config_Hardware_Device := [PCIPassthrough vgpuCurrent]\<rparr>)
     \<lparr>VmConfigArgs = exampleArgs,
      NetIfList = [\<lparr>NetIf_Device = cardOnNetwork, Customization = None\<rparr>],
      DNSServers = []\<rparr>
   = Inr (defaultConfigSpec\<lparr>DeviceChange :=
        [addChange (EthernetCard cardOnNetwork), removeChange (PCIPassthrough vgpuCurrent)]\<rparr>)"
  by (simp add: prePowerOnVMConfigSpec_def updateConfigSpec_def updateHardwareConfigSpec_def
      updateConfigSpecCPUAllocation_def updateConfigSpecMemoryAllocation_def
      updateConfigSpecExtraConfig_def updateConfigSpecVAppConfig_def
      updateConfigSpecChangeBlockTracking_def desiredExtraConfig_def
      exampleEnv_def exampleVM_def exampleConfig_def exampleArgs_def exampleClassSpec_def
      IsZero_def mapIndex_def GetVirtualDeviceList_def updateEthCardDeviceChanges_def
      createPCIDevices_def updatePCIDeviceChanges_def defaultConfigSpec_def Let_def)

text \<open>
  Counterexample to C3 as stated: with the passthrough feature switch on, one expected
  adapter that is not attached and one attached vGPU that the class does not list, the
  pre-power-on device-change list is an Add followed by a Remove.
\<close>

theorem removes_before_adds_counterexample:
  "prePowerOnVMConfigSpec exampleEnv exampleVM
     (exampleConfig\<lparr>Config_Hardware_Device := [PCIPassthrough vgpuCurrent]\<rparr>)
     \<lparr>VmConfigArgs = exampleArgs,
      NetIfList = [\<lparr>NetIf_Device = cardOnNetwork, Customization = None\<rparr>],
      DNSServers = []\<rparr>
   = Inr (defaultConfigSpec\<lparr>DeviceChange :=
        [addChange (EthernetCard cardOnNetwork), removeChange (PCIPassthrough vgpuCurrent)]\<rparr>)
   \<and> \<not> removesBeforeAdds
         [addChange (EthernetCard cardOnNetwork), removeChange (PCIPassthrough vgpuCurrent)]"
  using prePowerOn_example_eval by (simp add: addChange_def removeChange_def)

text \<open>
  Counterexample to C2 as stated: an adapter without backing that is both the expected
  and the current adapter is not matched with itself; the matcher removes it and adds
  it, so one device stands in a Remove and in an Add change.
\<close>

theorem device_matcher_symmetry_counterexample:
  "updateEthCardDeviceChanges [cardWithoutBacking] [cardWithoutBacking]
     = [removeChange (EthernetCard cardWithoutBacking), addChange (EthernetCard cardWithoutBacking)]"
  by (simp add: updateEthCardDeviceChanges_def ethCandidateMatches_def ethCardMatch_def
      cardWithoutBacking_def VirtualEthernetCardMacTypeManual_def)

text \<open>
  Witness for C3: an expected adapter against an attached one with another external
  id, and no passthrough device. The config spec removes the attached adapter, then
  adds the expected one.
\<close>

theorem removes_before_adds_per_matcher_witness:
  "prePowerOnVMConfigSpec exampleEnv exampleVM
     (exampleConfig\<lparr>Config_Hardware_Device := [EthernetCard cardOtherExternalId]\<rparr>)
     \<lparr>VmConfigArgs = exampleArgs,
      NetIfList = [\<lparr>NetIf_Device = cardOnNetwork, Customization = None\<rparr>],
      DNSServers = []\<rparr>
   = Inr (defaultConfigSpec\<lparr>DeviceChange :=
        [removeChange (EthernetCard cardOtherExternalId), addChange (EthernetCard cardOnNetwork)]\<rparr>)
   \<and> removesBeforeAdds (DeviceChange (defaultConfigSpec\<lparr>DeviceChange :=
        [removeChange (EthernetCard cardOtherExternalId), addChange (EthernetCard cardOnNetwork)]\<rparr>))"
proof -
  let ?config = "exampleConfig\<lparr>Config_Hardware_Device := [EthernetCard cardOtherExternalId]\<rparr>"
  let ?args = "\<lparr>VmConfigArgs = exampleArgs,
      NetIfList = [\<lparr>NetIf_Device = cardOnNetwork, Customization = None\<rparr>],
      DNSServers = []\<rparr>"
  let ?spec = "defaultConfigSpec\<lparr>DeviceChange :=
        [removeChange (EthernetCard cardOtherExternalId), addChange (EthernetCard cardOnNetwork)]\<rparr>"
  have ev: "prePowerOnVMConfigSpec exampleEnv exampleVM ?config ?args = Inr ?spec"
    by (simp add: prePowerOnVMConfigSpec_def updateConfigSpec_def updateHardwareConfigSpec_def
      updateConfigSpecCPUAllocation_def updateConfigSpecMemoryAllocation_def
      updateConfigSpecExtraConfig_def updateConfigSpecVAppConfig_def
      updateConfigSpecChangeBlockTracking_def desiredExtraConfig_def
      exampleEnv_def exampleVM_def exampleConfig_def exampleArgs_def exampleClassSpec_def
      IsZero_def mapIndex_def GetVirtualDeviceList_def updateEthCardDeviceChanges_def
      createPCIDevices_def updatePCIDeviceChanges_def defaultConfigSpec_def Let_def
      ethCandidateMatches_def ethCardMatch_def cardOnNetwork_def cardOtherExternalId_def
      VirtualEthernetCardMacTypeManual_def)
  have disk: "updateVirtualDiskDeviceChanges exampleEnv exampleVM
      (SelectByType_VirtualDisk (Config_Hardware_Device ?config)) = Inr []"
    by (simp add: exampleEnv_def)
  have pci: "updatePCIDeviceChanges
      (createPCIDevices (Hardware_Devices (VmClass_Spec (VmConfigArgs ?args))))
      (SelectByType_VirtualPCIPassthrough (Config_Hardware_Device ?config)) = Inr []"
    by (simp add: exampleArgs_def exampleClassSpec_def createPCIDevices_def
        updatePCIDeviceChanges_def)
  have fss: "IsThunderPciDevicesFSSEnabled exampleEnv" by (simp add: exampleEnv_def)
  from removes_before_adds_per_matcher[of _ _ _ _ exampleEnv exampleVM ?config ?args] ev
  obtain disk' pci' where
    d: "updateVirtualDiskDeviceChanges exampleEnv exampleVM
          (SelectByType_VirtualDisk (Config_Hardware_Device ?config)) = Inr disk'"
    and p: "if IsThunderPciDevicesFSSEnabled exampleEnv
            then updatePCIDeviceChanges
              (createPCIDevices (Hardware_Devices (VmClass_Spec (VmConfigArgs ?args))))
              (SelectByType_VirtualPCIPassthrough (Config_Hardware_Device ?config)) = Inr pci'
            else pci' = []"
    and imp: "list_all (\<lambda>ch. Operation ch \<noteq> OperationAdd) disk'
                \<and> list_all (\<lambda>ch. Operation ch \<noteq> OperationRemove) pci'
              \<longrightarrow> removesBeforeAdds (DeviceChange ?spec)"
    by blast
  from d disk have "disk' = []" by simp
  moreover from p pci fss have "pci' = []" by simp
  ultimately have "removesBeforeAdds (DeviceChange ?spec)" using imp by simp
  with ev show ?thesis by blast
qed

lemma ethCandidateMatches_iff:
  "ethCandidateMatches newEthCard curEthCard \<longleftrightarrow>
     ethCardMatch newEthCard curEthCard
     \<and> (\<exists>db expectedBacking. Backing curEthCard = Some db
           \<and> Backing newEthCard = Some expectedBacking
           \<and> TypeOf expectedBacking = TypeOf db \<and> ethBackingMatch db expectedBacking)"
  by (cases "Backing curEthCard"; cases "Backing newEthCard")
     (auto simp: ethCandidateMatches_def)

text \<open>
  Claim C7, as amended. For an expected adapter whose address type is manual, an
  adapter with a different MAC address never matches, whatever its external id and
  backing are; an equal MAC address is necessary and not sufficient: the adapters match
  exactly when the MAC addresses are equal, the expected external id is empty or equal,
  and the two backings have the same type and the same network identity. The source
  does not test that the MAC address is non-empty.
\<close>

theorem manual_mac_necessary_for_match:
  "AddressType newEthCard = VirtualEthernetCardMacTypeManual \<longrightarrow>
     (MacAddress newEthCard \<noteq> MacAddress curEthCard \<longrightarrow>
        \<not> ethCardMatch newEthCard curEthCard \<and> \<not> ethCandidateMatches newEthCard curEthCard)
     \<and> (ethCardMatch newEthCard curEthCard \<longleftrightarrow>
          MacAddress newEthCard = MacAddress curEthCard
          \<and> (ExternalId newEthCard = '''' \<or> ExternalId newEthCard = ExternalId curEthCard))
     \<and> (ethCandidateMatches newEthCard curEthCard \<longleftrightarrow>
          MacAddress newEthCard = MacAddress curEthCard
          \<and> (ExternalId newEthCard = '''' \<or> ExternalId newEthCard = ExternalId curEthCard)
          \<and> (\<exists>db expectedBacking. Backing curEthCard = Some db
                \<and> Backing newEthCard = Some expectedBacking
                \<and> TypeOf expectedBacking = TypeOf db \<and> ethBackingMatch db expectedBacking))"
proof
  assume manual: "AddressType newEthCard = VirtualEthernetCardMacTypeManual"
  have card: "ethCardMatch newEthCard curEthCard \<longleftrightarrow>
          MacAddress newEthCard = MacAddress curEthCard
          \<and> (ExternalId newEthCard = '''' \<or> ExternalId newEthCard = ExternalId curEthCard)"
    using manual by (auto simp: ethCardMatch_def)
  show "(MacAddress newEthCard \<noteq> MacAddress curEthCard \<longrightarrow>
        \<not> ethCardMatch newEthCard curEthCard \<and> \<not> ethCandidateMatches newEthCard curEthCard)
     \<and> (ethCardMatch newEthCard curEthCard \<longleftrightarrow>
          MacAddress newEthCard = MacAddress curEthCard
          \<and> (ExternalId newEthCard = '''' \<or> ExternalId newEthCard = ExternalId curEthCard))
     \<and> (ethCandidateMatches newEthCard curEthCard \<longleftrightarrow>
          MacAddress newEthCard = MacAddress curEthCard
          \<and> (ExternalId newEthCard = '''' \<or> ExternalId newEthCard = ExternalId curEthCard)
          \<and> (\<exists>db expectedBacking. Backing curEthCard = Some db
                \<and> Backing newEthCard = Some expectedBacking
                \<and> TypeOf expectedBacking = TypeOf db \<and> ethBackingMatch db expectedBacking))"
    unfolding ethCandidateMatches_iff card by blast
qed

text \<open>
  Witness for C7: the expected adapter with the manual MAC address \<open>aa:bb\<close> matches
  itself as the current adapter.
\<close>

theorem manual_mac_necessary_for_match_witness:
  "AddressType cardOnNetwork = VirtualEthernetCardMacTypeManual
   \<and> MacAddress cardOnNetwork = MacAddress cardOnNetwork
   \<and> ethCardMatch cardOnNetwork cardOnNetwork
   \<and> ethCandidateMatches cardOnNetwork cardOnNetwork"
proof -
  have manual: "AddressType cardOnNetwork = VirtualEthernetCardMacTypeManual"
    by (simp add: cardOnNetwork_def VirtualEthernetCardMacTypeManual_def)
  have backing: "\<exists>db expectedBacking. Backing cardOnNetwork = Some db
        \<and> Backing cardOnNetwork = Some expectedBacking
        \<and> TypeOf expectedBacking = TypeOf db \<and> ethBackingMatch db expectedBacking"
    by (simp add: cardOnNetwork_def)
  from manual_mac_necessary_for_match[of cardOnNetwork cardOnNetwork] manual backing
  show ?thesis by blast
qed

text \<open>
  Counterexample to C7 as stated: the expected adapter has a manual MAC address that is
  assigned and equal to the current adapter's, and both are on the same network, yet
  they do not match, because the external ids differ.
\<close>

theorem manual_mac_necessary_for_match_counterexample:
  "AddressType cardOnNetwork = VirtualEthernetCardMacTypeManual
   \<and> MacAddress cardOnNetwork \<noteq> ''''
   \<and> MacAddress cardOnNetwork = MacAddress cardOtherExternalId
   \<and> \<not> ethCardMatch cardOnNetwork cardOtherExternalId
   \<and> \<not> ethCandidateMatches cardOnNetwork cardOtherExternalId"
  by (simp add: cardOnNetwork_def cardOtherExternalId_def VirtualEthernetCardMacTypeManual_def
      ethCardMatch_def ethCandidateMatches_def)

text \<open>
  Claim C10. If the property fetch at the start of the status projection returns an
  error, \<open>updateVMStatus\<close> returns that error and leaves the VM, and so every field of
  its status, as it was.
\<close>

theorem updateVMStatus_fetch_failure:
  "GetProperties_status W = Inl err \<longrightarrow>
     updateVMStatus W vm =
       (vm, [Call_GetProperties [''config.changeTrackingEnabled'', ''guest'', ''summary'']],
        Some (Error err))"
  by (simp add: updateVMStatus_def)

text \<open>Witness for C10: the fetch fails with a connection error.\<close>

theorem updateVMStatus_fetch_failure_witness:
  "GetProperties_status (exampleWorld\<lparr>GetProperties_status := Inl (ErrorString ''connection refused'')\<rparr>)
     = Inl (ErrorString ''connection refused'')
   \<and> updateVMStatus (exampleWorld\<lparr>GetProperties_status := Inl (ErrorString ''connection refused'')\<rparr>)
        exampleVM =
       (exampleVM, [Call_GetProperties [''config.changeTrackingEnabled'', ''guest'', ''summary'']],
        Some (Error (ErrorString ''connection refused'')))"
  using updateVMStatus_fetch_failure[of
      "exampleWorld\<lparr>GetProperties_status := Inl (ErrorString ''connection refused'')\<rparr>"
      "ErrorString ''connection refused''" exampleVM]
  by simp







lemma updateVMStatus_no_hypervisor_write:
  "filter isHypervisorWrite (fst (snd (updateVMStatus W vm))) = []"
  by (auto simp: updateVMStatus_def updateVMStatus_host_def Let_def
      split: sum.splits option.splits prod.splits)

lemma attachTagsAndModules_no_hypervisor_write:
  "filter isHypervisorWrite (fst (attachTagsAndModules E W vm resourcePolicy)) = []"
  by (auto simp: attachTagsAndModules_def Let_def
      split: sum.splits option.splits prod.splits if_splits)

lemma poweredOnVMReconfigure_Status:
  "poweredOnVMReconfigure E W (vm\<lparr>Status := s\<rparr>) config = poweredOnVMReconfigure E W vm config"
  by (simp add: poweredOnVMReconfigure_def)

text \<open>The hypervisor writes of a pass whose two fetches succeed and whose VM has a
  config: those of the power-state switch.\<close>

lemma UpdateVirtualMachine_writes:
  assumes "GetVirtualMachine W = None" "GetProperties_config_runtime W = Inr moVM"
    "Config moVM = Some config"
  shows "filter isHypervisorWrite (fst (snd (UpdateVirtualMachine E W vm vmConfigArgs))) =
     filter isHypervisorWrite (fst (UpdateVirtualMachine_switch E W
        (vm\<lparr>Status := (Status vm)\<lparr>BiosUUID := Config_Uuid config\<rparr>\<rparr>) moVM
        (Runtime_PowerState moVM = VirtualMachinePowerStatePoweredOff) vmConfigArgs))"
proof -
  let ?vm1 = "vm\<lparr>Status := (Status vm)\<lparr>BiosUUID := Config_Uuid config\<rparr>\<rparr>"
  obtain calls1 r1 where sw: "UpdateVirtualMachine_switch E W ?vm1 moVM
        (Runtime_PowerState moVM = VirtualMachinePowerStatePoweredOff) vmConfigArgs = (calls1, r1)"
    by (cases "UpdateVirtualMachine_switch E W ?vm1 moVM
        (Runtime_PowerState moVM = VirtualMachinePowerStatePoweredOff) vmConfigArgs") auto
  obtain vm2 calls2 r2 where st: "updateVMStatus W ?vm1 = (vm2, calls2, r2)"
    by (cases "updateVMStatus W ?vm1") auto
  obtain calls3 r3 where at: "attachTagsAndModules E W vm2 (ResourcePolicy vmConfigArgs) = (calls3, r3)"
    by (cases "attachTagsAndModules E W vm2 (ResourcePolicy vmConfigArgs)") auto
  from updateVMStatus_no_hypervisor_write[of W ?vm1] st
  have n2: "filter isHypervisorWrite calls2 = []" by simp
  from attachTagsAndModules_no_hypervisor_write[of E W vm2 "ResourcePolicy vmConfigArgs"] at
  have n3: "filter isHypervisorWrite calls3 = []" by simp
  show ?thesis
    using assms sw st at n2 n3
    by (cases r1; cases r2)
       (simp_all add: UpdateVirtualMachine_def UpdateVirtualMachine_biosUUID_def Let_def)
qed

lemma poweredOnVMReconfigure_writes:
  "filter isHypervisorWrite (fst (poweredOnVMReconfigure E W vm config))
     = fst (poweredOnVMReconfigure E W vm config)"
  by (auto simp: poweredOnVMReconfigure_def Let_def split: option.splits)

lemma changeTrackingSettled_delta:
  "changeTrackingSettled vmSpec config \<Longrightarrow>
     updateConfigSpecChangeBlockTracking config defaultConfigSpec vmSpec = defaultConfigSpec"
  by (auto simp: changeTrackingSettled_def updateConfigSpecChangeBlockTracking_def
      split: option.splits)

lemma switch_poweredOn:
  assumes "Spec_PowerState (Spec vm) = VirtualMachinePoweredOn" "Config moVM = Some config"
  shows "UpdateVirtualMachine_switch E W vm moVM False vmConfigArgs
           = poweredOnVMReconfigure E W vm config"
  using assms
  by (simp add: UpdateVirtualMachine_switch_def VirtualMachinePoweredOn_def
      VirtualMachinePoweredOff_def)

text \<open>
  Claim C9. With the desired change-block-tracking flag set and different from the
  current one, the config spec built for a powered-on VM has the tracking flag and no
  other field, \<open>poweredOnVMReconfigure\<close> issues one reconfigure with it and, when that
  succeeds, one checkpoint save/restore. With the flag unset or unchanged it issues no
  call. In a pass with the desired power state on and the VM not powered off, these are
  all the hypervisor writes.
\<close>

theorem poweredOn_reconfigure_change_tracking:
  "(\<forall>advancedOptions cbt.
      AdvancedOptions (Spec vm) = Some advancedOptions
      \<and> ChangeBlockTracking advancedOptions = Some cbt
      \<and> Config_ChangeTrackingEnabled config \<noteq> Some cbt \<longrightarrow>
        updateConfigSpecChangeBlockTracking config defaultConfigSpec (Spec vm)
          = defaultConfigSpec\<lparr>ChangeTrackingEnabled := Some cbt\<rparr>
        \<and> poweredOnVMReconfigure E W vm config =
            (case Reconfigure W (defaultConfigSpec\<lparr>ChangeTrackingEnabled := Some cbt\<rparr>) of
               Some err \<Rightarrow>
                 ([Call_Reconfigure (defaultConfigSpec\<lparr>ChangeTrackingEnabled := Some cbt\<rparr>)],
                  Some (Error err))
             | None \<Rightarrow>
                 ([Call_Reconfigure (defaultConfigSpec\<lparr>ChangeTrackingEnabled := Some cbt\<rparr>),
                   Call_invokeFsrVirtualMachine],
                  map_option Error (invokeFsrVirtualMachine W))))
   \<and> (changeTrackingSettled (Spec vm) config \<longrightarrow>
        poweredOnVMReconfigure E W vm config = ([], None))
   \<and> (GetVirtualMachine W = None \<and> GetProperties_config_runtime W = Inr moVM
        \<and> Config moVM = Some config
        \<and> Spec_PowerState (Spec vm) = VirtualMachinePoweredOn
        \<and> Runtime_PowerState moVM \<noteq> VirtualMachinePowerStatePoweredOff \<longrightarrow>
        filter isHypervisorWrite (fst (snd (UpdateVirtualMachine E W vm vmConfigArgs)))
          = fst (poweredOnVMReconfigure E W vm config))"
proof (intro conjI allI impI)
  fix advancedOptions cbt
  assume a: "AdvancedOptions (Spec vm) = Some advancedOptions
      \<and> ChangeBlockTracking advancedOptions = Some cbt
      \<and> Config_ChangeTrackingEnabled config \<noteq> Some cbt"
  then show d: "updateConfigSpecChangeBlockTracking config defaultConfigSpec (Spec vm)
          = defaultConfigSpec\<lparr>ChangeTrackingEnabled := Some cbt\<rparr>"
    by (simp add: updateConfigSpecChangeBlockTracking_def)
  have ne: "defaultConfigSpec\<lparr>ChangeTrackingEnabled := Some cbt\<rparr> \<noteq> defaultConfigSpec"
    by (simp add: defaultConfigSpec_def)
  show "poweredOnVMReconfigure E W vm config =
            (case Reconfigure W (defaultConfigSpec\<lparr>ChangeTrackingEnabled := Some cbt\<rparr>) of
               Some err \<Rightarrow>
                 ([Call_Reconfigure (defaultConfigSpec\<lparr>ChangeTrackingEnabled := Some cbt\<rparr>)],
                  Some (Error err))
             | None \<Rightarrow>
                 ([Call_Reconfigure (defaultConfigSpec\<lparr>ChangeTrackingEnabled := Some cbt\<rparr>),
                   Call_invokeFsrVirtualMachine],
                  map_option Error (invokeFsrVirtualMachine W)))"
    unfolding poweredOnVMReconfigure_def d Let_def using ne
    by (simp split: option.splits)
next
  assume "changeTrackingSettled (Spec vm) config"
  then show "poweredOnVMReconfigure E W vm config = ([], None)"
    by (simp add: poweredOnVMReconfigure_def changeTrackingSettled_delta)
next
  assume a: "GetVirtualMachine W = None \<and> GetProperties_config_runtime W = Inr moVM
        \<and> Config moVM = Some config
        \<and> Spec_PowerState (Spec vm) = VirtualMachinePoweredOn
        \<and> Runtime_PowerState moVM \<noteq> VirtualMachinePowerStatePoweredOff"
  let ?vm1 = "vm\<lparr>Status := (Status vm)\<lparr>BiosUUID := Config_Uuid config\<rparr>\<rparr>"
  from a have "filter isHypervisorWrite (fst (snd (UpdateVirtualMachine E W vm vmConfigArgs)))
      = filter isHypervisorWrite (fst (UpdateVirtualMachine_switch E W ?vm1 moVM False vmConfigArgs))"
    using UpdateVirtualMachine_writes[of W moVM config E vm vmConfigArgs] by simp
  also from a have "UpdateVirtualMachine_switch E W ?vm1 moVM False vmConfigArgs
      = poweredOnVMReconfigure E W ?vm1 config"
    using switch_poweredOn[of ?vm1 moVM config E W vmConfigArgs] by simp
  finally show "filter isHypervisorWrite (fst (snd (UpdateVirtualMachine E W vm vmConfigArgs)))
          = fst (poweredOnVMReconfigure E W vm config)"
    by (simp add: poweredOnVMReconfigure_Status poweredOnVMReconfigure_writes)
qed

text \<open>
  Witness for C9 (scenario E of the specification): desired change tracking true,
  current false, the VM powered on. The pass issues the reconfigure with the tracking
  flag alone and then one checkpoint save/restore.
\<close>

theorem poweredOn_reconfigure_change_tracking_witness:
  "filter isHypervisorWrite (fst (snd (UpdateVirtualMachine exampleEnv exampleWorld
      (exampleVM\<lparr>Spec := (Spec exampleVM)\<lparr>AdvancedOptions :=
          Some \<lparr>ChangeBlockTracking = Some True\<rparr>\<rparr>\<rparr>) exampleArgs)))
   = [Call_Reconfigure (defaultConfigSpec\<lparr>ChangeTrackingEnabled := Some True\<rparr>),
      Call_invokeFsrVirtualMachine]
   \<and> poweredOnVMReconfigure exampleEnv exampleWorld
        (exampleVM\<lparr>Spec := (Spec exampleVM)\<lparr>AdvancedOptions :=
          Some \<lparr>ChangeBlockTracking = Some False\<rparr>\<rparr>\<rparr>) exampleConfig = ([], None)"
proof -
  let ?vm = "exampleVM\<lparr>Spec := (Spec exampleVM)\<lparr>AdvancedOptions :=
          Some \<lparr>ChangeBlockTracking = Some True\<rparr>\<rparr>\<rparr>"
  let ?vm2 = "exampleVM\<lparr>Spec := (Spec exampleVM)\<lparr>AdvancedOptions :=
          Some \<lparr>ChangeBlockTracking = Some False\<rparr>\<rparr>\<rparr>"
  have h1: "AdvancedOptions (Spec ?vm) = Some \<lparr>ChangeBlockTracking = Some True\<rparr>
      \<and> ChangeBlockTracking \<lparr>ChangeBlockTracking = Some True\<rparr> = Some True
      \<and> Config_ChangeTrackingEnabled exampleConfig \<noteq> Some True"
    by (simp add: exampleConfig_def)
  have h2: "changeTrackingSettled (Spec ?vm2) exampleConfig"
    by (simp add: changeTrackingSettled_def exampleConfig_def)
  have h3: "GetVirtualMachine exampleWorld = None
        \<and> GetProperties_config_runtime exampleWorld = Inr exampleMoVM
        \<and> Config exampleMoVM = Some exampleConfig
        \<and> Spec_PowerState (Spec ?vm) = VirtualMachinePoweredOn
        \<and> Runtime_PowerState exampleMoVM \<noteq> VirtualMachinePowerStatePoweredOff"
    by (simp add: exampleWorld_def exampleMoVM_def exampleVM_def VirtualMachinePoweredOn_def
        VirtualMachinePowerStatePoweredOff_def)
  have r: "Reconfigure exampleWorld (defaultConfigSpec\<lparr>ChangeTrackingEnabled := Some True\<rparr>) = None"
    "invokeFsrVirtualMachine exampleWorld = None"
    by (simp_all add: exampleWorld_def)
  note t = poweredOn_reconfigure_change_tracking[of ?vm exampleConfig exampleEnv exampleWorld
      exampleMoVM exampleArgs]
  from t[THEN conjunct1, rule_format, OF h1]
  have "poweredOnVMReconfigure exampleEnv exampleWorld ?vm exampleConfig =
      ([Call_Reconfigure (defaultConfigSpec\<lparr>ChangeTrackingEnabled := Some True\<rparr>),
        Call_invokeFsrVirtualMachine], None)"
    using r by simp
  moreover from t h3 have "filter isHypervisorWrite (fst (snd (UpdateVirtualMachine exampleEnv
      exampleWorld ?vm exampleArgs))) = fst (poweredOnVMReconfigure exampleEnv exampleWorld ?vm
      exampleConfig)" by blast
  moreover from poweredOn_reconfigure_change_tracking[of ?vm2 exampleConfig exampleEnv
      exampleWorld exampleMoVM exampleArgs] h2
  have "poweredOnVMReconfigure exampleEnv exampleWorld ?vm2 exampleConfig = ([], None)" by blast
  ultimately show ?thesis by simp
qed

lemma prePowerOnVMReconfigure_gate:
  "prePowerOnVMConfigSpec E vm config updateArgs = Inr configSpec \<Longrightarrow>
     fst (prePowerOnVMReconfigure E W vm config updateArgs)
       = (if configSpec = defaultConfigSpec then [] else [Call_Reconfigure configSpec])"
  by (auto simp: prePowerOnVMReconfigure_def split: option.splits)

lemma poweredOnVMReconfigure_gate:
  "Call_Reconfigure s \<in> set (fst (poweredOnVMReconfigure E W vm config)) \<Longrightarrow>
     s = updateConfigSpecChangeBlockTracking config defaultConfigSpec (Spec vm)
     \<and> s \<noteq> defaultConfigSpec"
  by (auto simp: poweredOnVMReconfigure_def Let_def split: option.splits if_splits)

lemma switch_steady_no_writes:
  assumes "Runtime_PowerState moVM = Spec_PowerState (Spec vm)" "Config moVM = Some config"
    "changeTrackingSettled (Spec vm) config"
  shows "fst (UpdateVirtualMachine_switch E W vm moVM
           (Runtime_PowerState moVM = VirtualMachinePowerStatePoweredOff) vmConfigArgs) = []"
proof (cases "Spec_PowerState (Spec vm) = VirtualMachinePoweredOff")
  case True
  with assms(1) show ?thesis
    by (simp add: UpdateVirtualMachine_switch_def VirtualMachinePoweredOff_def
        VirtualMachinePowerStatePoweredOff_def)
next
  case off: False
  show ?thesis
  proof (cases "Spec_PowerState (Spec vm) = VirtualMachinePoweredOn")
    case True
    with assms(1) have "Runtime_PowerState moVM \<noteq> VirtualMachinePowerStatePoweredOff"
      by (simp add: VirtualMachinePoweredOn_def VirtualMachinePowerStatePoweredOff_def)
    with True off assms(2,3) show ?thesis
      by (simp add: UpdateVirtualMachine_switch_def poweredOnVMReconfigure_def
          changeTrackingSettled_delta)
  next
    case False
    with off show ?thesis by (simp add: UpdateVirtualMachine_switch_def)
  qed
qed

text \<open>
  Claim C1. Both reconfigure paths call the hypervisor's \<open>Reconfigure\<close> only with the
  config spec they built and only when it differs from the zero-value spec; a built
  spec equal to the zero-value spec makes no call. Consequently, in a pass that finds
  the VM in its desired power state and the change-block-tracking flag unset or as
  desired (the only field a pass compares for a VM already in its desired power state),
  the config spec built is the zero-value spec and the pass issues no hypervisor write.
\<close>

theorem reconfigure_gated_and_idempotent:
  "(\<forall>configSpec. prePowerOnVMConfigSpec E vm config updateArgs = Inr configSpec \<longrightarrow>
      fst (prePowerOnVMReconfigure E W vm config updateArgs)
        = (if configSpec = defaultConfigSpec then [] else [Call_Reconfigure configSpec]))
   \<and> (\<forall>p. prePowerOnVMConfigSpec E vm config updateArgs = Inl p \<longrightarrow>
      prePowerOnVMReconfigure E W vm config updateArgs = ([], Some p))
   \<and> (\<forall>s. Call_Reconfigure s \<in> set (fst (poweredOnVMReconfigure E W vm config)) \<longrightarrow>
      s = updateConfigSpecChangeBlockTracking config defaultConfigSpec (Spec vm)
      \<and> s \<noteq> defaultConfigSpec)
   \<and> (updateConfigSpecChangeBlockTracking config defaultConfigSpec (Spec vm) = defaultConfigSpec
      \<longrightarrow> poweredOnVMReconfigure E W vm config = ([], None))
   \<and> (GetVirtualMachine W = None \<and> GetProperties_config_runtime W = Inr moVM
      \<and> Config moVM = Some config
      \<and> Runtime_PowerState moVM = Spec_PowerState (Spec vm)
      \<and> changeTrackingSettled (Spec vm) config \<longrightarrow>
        updateConfigSpecChangeBlockTracking config defaultConfigSpec (Spec vm) = defaultConfigSpec
        \<and> filter isHypervisorWrite (fst (snd (UpdateVirtualMachine E W vm vmConfigArgs))) = [])"
proof (intro conjI allI impI)
  fix configSpec
  assume "prePowerOnVMConfigSpec E vm config updateArgs = Inr configSpec"
  then show "fst (prePowerOnVMReconfigure E W vm config updateArgs)
        = (if configSpec = defaultConfigSpec then [] else [Call_Reconfigure configSpec])"
    by (rule prePowerOnVMReconfigure_gate)
next
  fix p
  assume "prePowerOnVMConfigSpec E vm config updateArgs = Inl p"
  then show "prePowerOnVMReconfigure E W vm config updateArgs = ([], Some p)"
    by (simp add: prePowerOnVMReconfigure_def)
next
  fix s
  assume s: "Call_Reconfigure s \<in> set (fst (poweredOnVMReconfigure E W vm config))"
  show "s = updateConfigSpecChangeBlockTracking config defaultConfigSpec (Spec vm)"
    using poweredOnVMReconfigure_gate[OF s] by blast
  show "s \<noteq> defaultConfigSpec"
    using poweredOnVMReconfigure_gate[OF s] by blast
next
  assume "updateConfigSpecChangeBlockTracking config defaultConfigSpec (Spec vm)
            = defaultConfigSpec"
  then show "poweredOnVMReconfigure E W vm config = ([], None)"
    by (simp add: poweredOnVMReconfigure_def)
next
  assume a: "GetVirtualMachine W = None \<and> GetProperties_config_runtime W = Inr moVM
      \<and> Config moVM = Some config
      \<and> Runtime_PowerState moVM = Spec_PowerState (Spec vm)
      \<and> changeTrackingSettled (Spec vm) config"
  then show "updateConfigSpecChangeBlockTracking config defaultConfigSpec (Spec vm)
               = defaultConfigSpec"
    by (simp add: changeTrackingSettled_delta)
  let ?vm1 = "vm\<lparr>Status := (Status vm)\<lparr>BiosUUID := Config_Uuid config\<rparr>\<rparr>"
  from a have "fst (UpdateVirtualMachine_switch E W ?vm1 moVM
           (Runtime_PowerState moVM = VirtualMachinePowerStatePoweredOff) vmConfigArgs) = []"
    using switch_steady_no_writes[of moVM ?vm1 config E W vmConfigArgs] by simp
  with a show "filter isHypervisorWrite (fst (snd (UpdateVirtualMachine E W vm vmConfigArgs))) = []"
    using UpdateVirtualMachine_writes[of W moVM config E vm vmConfigArgs] by simp
qed

text \<open>
  Witness for C1: a pre-power-on config spec that differs from the zero-value spec is
  the argument of the one reconfigure; a current extra-config value that is not a string
  makes the builder panic, and no call is made; a desired tracking flag that differs is
  the only field of the powered-on reconfigure; and a pass over a powered-on VM whose
  desired power state is on and whose tracking flag is not set issues no hypervisor
  write.
\<close>

theorem reconfigure_gated_and_idempotent_witness:
  "fst (prePowerOnVMReconfigure exampleEnv exampleWorld exampleVM
          (exampleConfig\<lparr>Config_Hardware_Device := [EthernetCard cardOtherExternalId]\<rparr>)
          \<lparr>VmConfigArgs = exampleArgs,
           NetIfList = [\<lparr>NetIf_Device = cardOnNetwork, Customization = None\<rparr>],
           DNSServers = []\<rparr>)
     = [Call_Reconfigure (defaultConfigSpec\<lparr>DeviceChange :=
          [removeChange (EthernetCard cardOtherExternalId),
           addChange (EthernetCard cardOnNetwork)]\<rparr>)]
   \<and> prePowerOnVMReconfigure exampleEnv exampleWorld exampleVM
        (exampleConfig\<lparr>Config_ExtraConfig :=
           [Some \<lparr>OptionValue_Key = ''numa.nodeAffinity'', OptionValue_Value = AnyOther ''int32''\<rparr>]\<rparr>)
        \<lparr>VmConfigArgs = exampleArgs, NetIfList = [], DNSServers = []\<rparr>
     = ([], Some (Panic ''interface conversion: interface {} is int32, not string''))
   \<and> poweredOnVMReconfigure exampleEnv exampleWorld exampleVM exampleConfig = ([], None)
   \<and> updateConfigSpecChangeBlockTracking exampleConfig defaultConfigSpec (Spec exampleVM)
       = defaultConfigSpec
   \<and> filter isHypervisorWrite
        (fst (snd (UpdateVirtualMachine exampleEnv exampleWorld exampleVM exampleArgs))) = []"
proof -
  let ?config1 = "exampleConfig\<lparr>Config_Hardware_Device := [EthernetCard cardOtherExternalId]\<rparr>"
  let ?args1 = "\<lparr>VmConfigArgs = exampleArgs,
      NetIfList = [\<lparr>NetIf_Device = cardOnNetwork, Customization = None\<rparr>],
      DNSServers = []\<rparr>"
  let ?spec1 = "defaultConfigSpec\<lparr>DeviceChange :=
        [removeChange (EthernetCard cardOtherExternalId), addChange (EthernetCard cardOnNetwork)]\<rparr>"
  let ?config2 = "exampleConfig\<lparr>Config_ExtraConfig :=
           [Some \<lparr>OptionValue_Key = ''numa.nodeAffinity'', OptionValue_Value = AnyOther ''int32''\<rparr>]\<rparr>"
  let ?args2 = "\<lparr>VmConfigArgs = exampleArgs, NetIfList = [], DNSServers = []\<rparr>"
  have h1: "prePowerOnVMConfigSpec exampleEnv exampleVM ?config1 ?args1 = Inr ?spec1"
    by (simp add: prePowerOnVMConfigSpec_def updateConfigSpec_def updateHardwareConfigSpec_def
      updateConfigSpecCPUAllocation_def updateConfigSpecMemoryAllocation_def
      updateConfigSpecExtraConfig_def updateConfigSpecVAppConfig_def
      updateConfigSpecChangeBlockTracking_def desiredExtraConfig_def
      exampleEnv_def exampleVM_def exampleConfig_def exampleArgs_def exampleClassSpec_def
      IsZero_def mapIndex_def GetVirtualDeviceList_def updateEthCardDeviceChanges_def
      createPCIDevices_def updatePCIDeviceChanges_def defaultConfigSpec_def Let_def
      ethCandidateMatches_def ethCardMatch_def cardOnNetwork_def cardOtherExternalId_def
      VirtualEthernetCardMacTypeManual_def)
  have ne1: "?spec1 \<noteq> defaultConfigSpec"
    by (simp add: defaultConfigSpec_def)
  have h2: "prePowerOnVMConfigSpec exampleEnv exampleVM ?config2 ?args2
              = Inl (Panic ''interface conversion: interface {} is int32, not string'')"
    by (simp add: prePowerOnVMConfigSpec_def updateConfigSpec_def
      updateConfigSpecExtraConfig_def exampleConfig_def Let_def)
  have h4: "changeTrackingSettled (Spec exampleVM) exampleConfig"
    by (simp add: changeTrackingSettled_def exampleVM_def)
  have h5: "GetVirtualMachine exampleWorld = None
      \<and> GetProperties_config_runtime exampleWorld = Inr exampleMoVM
      \<and> Config exampleMoVM = Some exampleConfig
      \<and> Runtime_PowerState exampleMoVM = Spec_PowerState (Spec exampleVM)
      \<and> changeTrackingSettled (Spec exampleVM) exampleConfig"
    using h4 by (simp add: exampleWorld_def exampleMoVM_def exampleVM_def)
  note t1 = reconfigure_gated_and_idempotent[of exampleEnv exampleVM ?config1 ?args1
      exampleWorld exampleMoVM exampleArgs]
  note t2 = reconfigure_gated_and_idempotent[of exampleEnv exampleVM ?config2 ?args2
      exampleWorld exampleMoVM exampleArgs]
  note t3 = reconfigure_gated_and_idempotent[of exampleEnv exampleVM exampleConfig ?args2
      exampleWorld exampleMoVM exampleArgs]
  have c1: "fst (prePowerOnVMReconfigure exampleEnv exampleWorld exampleVM
      ?config1 ?args1) = [Call_Reconfigure ?spec1]"
    using t1[THEN conjunct1, rule_format, OF h1] ne1 by (simp only: if_False)
  have c2: "prePowerOnVMReconfigure exampleEnv exampleWorld exampleVM ?config2 ?args2
     = ([], Some (Panic ''interface conversion: interface {} is int32, not string''))"
    by (rule t2[THEN conjunct2, THEN conjunct1, rule_format, OF h2])
  note c5 = t3[THEN conjunct2, THEN conjunct2, THEN conjunct2, THEN conjunct2, rule_format, OF h5]
  have c4: "updateConfigSpecChangeBlockTracking exampleConfig defaultConfigSpec
      (Spec exampleVM) = defaultConfigSpec"
    by (rule c5[THEN conjunct1])
  have c3: "poweredOnVMReconfigure exampleEnv exampleWorld exampleVM exampleConfig
      = ([], None)"
    by (rule t3[THEN conjunct2, THEN conjunct2, THEN conjunct2, THEN conjunct1, rule_format,
          OF c4])
  show ?thesis
    by (intro conjI) (rule c1, rule c2, rule c3, rule c4, rule c5[THEN conjunct2])
qed

text \<open>
  Claim C5 (the source does otherwise). When the hypervisor reports no config, the pass
  does not return an error: \<open>UpdateVirtualMachine\<close> reads \<open>moVM.Config.Uuid\<close> before
  the switch on the desired power state, and so before its own test for a nil config,
  and panics on the nil pointer, whatever the desired power state is.
\<close>

theorem UpdateVirtualMachine_config_unavailable:
  "UpdateVirtualMachine E
     (W\<lparr>GetVirtualMachine := None,
        GetProperties_config_runtime := Inr (moVM\<lparr>Config := None\<rparr>)\<rparr>) vm vmConfigArgs
   = (vm, [Call_GetVirtualMachine, Call_GetProperties [''config'', ''runtime'']],
      Some (Panic ''invalid memory address or nil pointer dereference''))"
  by (simp add: UpdateVirtualMachine_def UpdateVirtualMachine_biosUUID_def)

lemma networkIfStatusLoop_total:
  "list_all (\<lambda>nicInfo. Nic_IpConfig nicInfo \<noteq> None) nics
   \<Longrightarrow> \<exists>sts. networkIfStatusLoop nics = Inr sts"
  by (induction nics) (auto simp: nicInfoToNetworkIfStatus_def)

lemma updateVMStatus_guest_ok:
  assumes "guestNicsHaveIpConfig moVM"
  shows "\<exists>status'. updateVMStatus_guest moVM status = (status', None)
     \<and> Phase status' = Phase status \<and> Status_PowerState status' = Status_PowerState status
     \<and> UniqueID status' = UniqueID status \<and> BiosUUID status' = BiosUUID status
     \<and> InstanceUUID status' = InstanceUUID status \<and> Host status' = Host status
     \<and> VmIp status' = (case Guest moVM of None \<Rightarrow> '''' | Some guest \<Rightarrow> Guest_IpAddress guest)
     \<and> (case Guest moVM of
           None \<Rightarrow> Status_NetworkInterfaces status' = []
         | Some guest \<Rightarrow> networkIfStatusLoop (Net guest) = Inr (Status_NetworkInterfaces status'))"
proof (cases "Guest moVM")
  case None
  then show ?thesis by (simp add: updateVMStatus_guest_def)
next
  case (Some guest)
  with assms have "list_all (\<lambda>nicInfo. Nic_IpConfig nicInfo \<noteq> None) (Net guest)"
    by (simp add: guestNicsHaveIpConfig_def)
  from networkIfStatusLoop_total[OF this] obtain sts where
    "networkIfStatusLoop (Net guest) = Inr sts" by blast
  with Some show ?thesis by (simp add: updateVMStatus_guest_def)
qed

lemma updateVMStatus_host_failure:
  assumes "GetProperties_status W = Inr moVM" "Summary_Runtime_Host moVM = Some host"
    "ObjectName W host = Inl err" "guestNicsHaveIpConfig moVM"
  shows "\<exists>vm'. updateVMStatus W vm =
          (vm', [Call_GetProperties [''config.changeTrackingEnabled'', ''guest'', ''summary''],
                 Call_ObjectName host],
           Some (Error (AggregateError [err])))
     \<and> Host (Status vm') = Host (Status vm)
     \<and> Phase (Status vm') = Created
     \<and> Status_PowerState (Status vm') = Summary_Runtime_PowerState moVM
     \<and> UniqueID (Status vm') = MoRef_Value W
     \<and> BiosUUID (Status vm') = Summary_Config_Uuid moVM
     \<and> InstanceUUID (Status vm') = Summary_Config_InstanceUuid moVM
     \<and> VmIp (Status vm') = (case Guest moVM of None \<Rightarrow> '''' | Some guest \<Rightarrow> Guest_IpAddress guest)
     \<and> (case Guest moVM of
           None \<Rightarrow> Status_NetworkInterfaces (Status vm') = []
         | Some guest \<Rightarrow>
             networkIfStatusLoop (Net guest) = Inr (Status_NetworkInterfaces (Status vm')))
     \<and> Status_ChangeBlockTracking (Status vm')
         = (case Config moVM of None \<Rightarrow> None | Some c \<Rightarrow> Config_ChangeTrackingEnabled c)"
proof -
  let ?status1 = "(Status vm)
                    \<lparr>Phase := Created,
                     Status_PowerState := Summary_Runtime_PowerState moVM,
                     UniqueID := MoRef_Value W,
                     BiosUUID := Summary_Config_Uuid moVM,
                     InstanceUUID := Summary_Config_InstanceUuid moVM\<rparr>"
  from updateVMStatus_guest_ok[OF assms(4), of ?status1] obtain status3 where
    g: "updateVMStatus_guest moVM ?status1 = (status3, None)"
    and f: "Phase status3 = Phase ?status1" "Status_PowerState status3 = Status_PowerState ?status1"
      "UniqueID status3 = UniqueID ?status1" "BiosUUID status3 = BiosUUID ?status1"
      "InstanceUUID status3 = InstanceUUID ?status1" "Host status3 = Host ?status1"
      "VmIp status3 = (case Guest moVM of None \<Rightarrow> '''' | Some guest \<Rightarrow> Guest_IpAddress guest)"
      "(case Guest moVM of
           None \<Rightarrow> Status_NetworkInterfaces status3 = []
         | Some guest \<Rightarrow> networkIfStatusLoop (Net guest) = Inr (Status_NetworkInterfaces status3))"
    by blast
  have u: "updateVMStatus W vm =
          (vm\<lparr>Status := updateVMStatus_config moVM status3\<rparr>,
           [Call_GetProperties [''config.changeTrackingEnabled'', ''guest'', ''summary''],
            Call_ObjectName host],
           Some (Error (AggregateError [err])))"
    using assms(1-3) g
    by (simp add: updateVMStatus_def updateVMStatus_host_def NewAggregate_def Let_def)
  show ?thesis
    unfolding u using f
    by (cases "Config moVM"; cases "Guest moVM") (simp_all add: updateVMStatus_config_def)
qed

lemma UpdateVirtualMachine_status_failure:
  assumes "GetVirtualMachine W = None" "GetProperties_config_runtime W = Inr moVM0"
    "Config moVM0 = Some config0"
    "UpdateVirtualMachine_switch E W (vm\<lparr>Status := (Status vm)\<lparr>BiosUUID := Config_Uuid config0\<rparr>\<rparr>)
       moVM0 (Runtime_PowerState moVM0 = VirtualMachinePowerStatePoweredOff) vmConfigArgs
     = (calls1, None)"
    "updateVMStatus W (vm\<lparr>Status := (Status vm)\<lparr>BiosUUID := Config_Uuid config0\<rparr>\<rparr>)
     = (vm2, calls2, Some failed)"
  shows "UpdateVirtualMachine E W vm vmConfigArgs =
     (vm2, [Call_GetVirtualMachine, Call_GetProperties [''config'', ''runtime'']] @ calls1 @ calls2,
      Some failed)"
  using assms
  by (simp add: UpdateVirtualMachine_def UpdateVirtualMachine_biosUUID_def Let_def)

text \<open>
  Claim C6, as amended. When the host-name lookup of the status projection fails (and
  every guest NIC has an IP configuration), the projection still sets every other field
  of the status, leaves the host name as it was, and returns the lookup error in an
  aggregate. \<open>UpdateVirtualMachine\<close> returns that error as the error of the pass, right
  after the projection: the attachment of tags and cluster modules does not run.
\<close>

theorem host_lookup_failure_returned_after_projection:
  "GetProperties_status W = Inr moVM \<and> Summary_Runtime_Host moVM = Some host
   \<and> ObjectName W host = Inl err \<and> guestNicsHaveIpConfig moVM \<longrightarrow>
     (\<exists>vm'. updateVMStatus W vm =
          (vm', [Call_GetProperties [''config.changeTrackingEnabled'', ''guest'', ''summary''],
                 Call_ObjectName host],
           Some (Error (AggregateError [err])))
        \<and> Host (Status vm') = Host (Status vm)
        \<and> Phase (Status vm') = Created
        \<and> Status_PowerState (Status vm') = Summary_Runtime_PowerState moVM
        \<and> UniqueID (Status vm') = MoRef_Value W
        \<and> BiosUUID (Status vm') = Summary_Config_Uuid moVM
        \<and> InstanceUUID (Status vm') = Summary_Config_InstanceUuid moVM
        \<and> VmIp (Status vm')
            = (case Guest moVM of None \<Rightarrow> '''' | Some guest \<Rightarrow> Guest_IpAddress guest)
        \<and> (case Guest moVM of
              None \<Rightarrow> Status_NetworkInterfaces (Status vm') = []
            | Some guest \<Rightarrow>
                networkIfStatusLoop (Net guest) = Inr (Status_NetworkInterfaces (Status vm')))
        \<and> Status_ChangeBlockTracking (Status vm')
            = (case Config moVM of None \<Rightarrow> None | Some c \<Rightarrow> Config_ChangeTrackingEnabled c))
     \<and> (\<forall>moVM0 config0 calls1.
          GetVirtualMachine W = None \<and> GetProperties_config_runtime W = Inr moVM0
          \<and> Config moVM0 = Some config0
          \<and> UpdateVirtualMachine_switch E W
               (vm\<lparr>Status := (Status vm)\<lparr>BiosUUID := Config_Uuid config0\<rparr>\<rparr>) moVM0
               (Runtime_PowerState moVM0 = VirtualMachinePowerStatePoweredOff) vmConfigArgs
             = (calls1, None) \<longrightarrow>
          snd (UpdateVirtualMachine E W vm vmConfigArgs) =
            ([Call_GetVirtualMachine, Call_GetProperties [''config'', ''runtime'']] @ calls1
               @ [Call_GetProperties [''config.changeTrackingEnabled'', ''guest'', ''summary''],
                  Call_ObjectName host],
             Some (Error (AggregateError [err]))))"
proof (intro impI conjI allI)
  assume h: "GetProperties_status W = Inr moVM \<and> Summary_Runtime_Host moVM = Some host
   \<and> ObjectName W host = Inl err \<and> guestNicsHaveIpConfig moVM"
  then show "\<exists>vm'. updateVMStatus W vm =
          (vm', [Call_GetProperties [''config.changeTrackingEnabled'', ''guest'', ''summary''],
                 Call_ObjectName host],
           Some (Error (AggregateError [err])))
        \<and> Host (Status vm') = Host (Status vm)
        \<and> Phase (Status vm') = Created
        \<and> Status_PowerState (Status vm') = Summary_Runtime_PowerState moVM
        \<and> UniqueID (Status vm') = MoRef_Value W
        \<and> BiosUUID (Status vm') = Summary_Config_Uuid moVM
        \<and> InstanceUUID (Status vm') = Summary_Config_InstanceUuid moVM
        \<and> VmIp (Status vm')
            = (case Guest moVM of None \<Rightarrow> '''' | Some guest \<Rightarrow> Guest_IpAddress guest)
        \<and> (case Guest moVM of
              None \<Rightarrow> Status_NetworkInterfaces (Status vm') = []
            | Some guest \<Rightarrow>
                networkIfStatusLoop (Net guest) = Inr (Status_NetworkInterfaces (Status vm')))
        \<and> Status_ChangeBlockTracking (Status vm')
            = (case Config moVM of None \<Rightarrow> None | Some c \<Rightarrow> Config_ChangeTrackingEnabled c)"
    using updateVMStatus_host_failure[of W moVM host err vm] by blast
next
  fix moVM0 config0 calls1
  assume h: "GetProperties_status W = Inr moVM \<and> Summary_Runtime_Host moVM = Some host
   \<and> ObjectName W host = Inl err \<and> guestNicsHaveIpConfig moVM"
  assume p: "GetVirtualMachine W = None \<and> GetProperties_config_runtime W = Inr moVM0
          \<and> Config moVM0 = Some config0
          \<and> UpdateVirtualMachine_switch E W
               (vm\<lparr>Status := (Status vm)\<lparr>BiosUUID := Config_Uuid config0\<rparr>\<rparr>) moVM0
               (Runtime_PowerState moVM0 = VirtualMachinePowerStatePoweredOff) vmConfigArgs
             = (calls1, None)"
  let ?vm1 = "vm\<lparr>Status := (Status vm)\<lparr>BiosUUID := Config_Uuid config0\<rparr>\<rparr>"
  from h updateVMStatus_host_failure[of W moVM host err ?vm1] obtain vm' where
    u: "updateVMStatus W ?vm1 =
          (vm', [Call_GetProperties [''config.changeTrackingEnabled'', ''guest'', ''summary''],
                 Call_ObjectName host],
           Some (Error (AggregateError [err])))" by blast
  from p have p1: "GetVirtualMachine W = None" and p2: "GetProperties_config_runtime W = Inr moVM0"
    and p3: "Config moVM0 = Some config0"
    and p4: "UpdateVirtualMachine_switch E W ?vm1 moVM0
               (Runtime_PowerState moVM0 = VirtualMachinePowerStatePoweredOff) vmConfigArgs
             = (calls1, None)" by blast+
  from UpdateVirtualMachine_status_failure[OF p1 p2 p3 p4 u]
  show "snd (UpdateVirtualMachine E W vm vmConfigArgs) =
            ([Call_GetVirtualMachine, Call_GetProperties [''config'', ''runtime'']] @ calls1
               @ [Call_GetProperties [''config.changeTrackingEnabled'', ''guest'', ''summary''],
                  Call_ObjectName host],
             Some (Error (AggregateError [err])))"
    by simp
qed

lemma example_switch_eval:
  "UpdateVirtualMachine_switch exampleEnv W
     (exampleVM\<lparr>Annotations := a, Status := s\<rparr>) exampleMoVM
     (Runtime_PowerState exampleMoVM = VirtualMachinePowerStatePoweredOff) exampleArgs
   = ([], None)"
  by (simp add: UpdateVirtualMachine_switch_def poweredOnVMReconfigure_def
      updateConfigSpecChangeBlockTracking_def exampleVM_def exampleMoVM_def
      VirtualMachinePoweredOff_def VirtualMachinePoweredOn_def
      VirtualMachinePowerStatePoweredOff_def)

text \<open>
  Witness for C6: a powered-on VM in its desired state whose host-name lookup fails.
  The pass ends with the two calls of the projection and returns the aggregate of the
  lookup error.
\<close>

theorem host_lookup_failure_returned_after_projection_witness:
  "snd (UpdateVirtualMachine exampleEnv
          (exampleWorld\<lparr>ObjectName := (\<lambda>host. Inl (ErrorString ''host lookup failed''))\<rparr>)
          exampleVM exampleArgs)
   = ([Call_GetVirtualMachine, Call_GetProperties [''config'', ''runtime''],
       Call_GetProperties [''config.changeTrackingEnabled'', ''guest'', ''summary''],
       Call_ObjectName ''host-42''],
      Some (Error (AggregateError [ErrorString ''host lookup failed''])))"
proof -
  let ?W = "exampleWorld\<lparr>ObjectName := (\<lambda>host. Inl (ErrorString ''host lookup failed''))\<rparr>"
  have h: "GetProperties_status ?W = Inr exampleMoVM
      \<and> Summary_Runtime_Host exampleMoVM = Some ''host-42''
      \<and> ObjectName ?W ''host-42'' = Inl (ErrorString ''host lookup failed'')
      \<and> guestNicsHaveIpConfig exampleMoVM"
    by (simp add: exampleWorld_def exampleMoVM_def guestNicsHaveIpConfig_def)
  have sw: "UpdateVirtualMachine_switch exampleEnv ?W
      (exampleVM\<lparr>Status := (Status exampleVM)\<lparr>BiosUUID := Config_Uuid exampleConfig\<rparr>\<rparr>)
      exampleMoVM (Runtime_PowerState exampleMoVM = VirtualMachinePowerStatePoweredOff) exampleArgs
      = ([], None)"
    using example_switch_eval[where W = ?W and a = "Annotations exampleVM"
        and s = "(Status exampleVM)\<lparr>BiosUUID := Config_Uuid exampleConfig\<rparr>"]
    by simp
  have p: "GetVirtualMachine ?W = None \<and> GetProperties_config_runtime ?W = Inr exampleMoVM
      \<and> Config exampleMoVM = Some exampleConfig
      \<and> UpdateVirtualMachine_switch exampleEnv ?W
          (exampleVM\<lparr>Status := (Status exampleVM)\<lparr>BiosUUID := Config_Uuid exampleConfig\<rparr>\<rparr>)
          exampleMoVM (Runtime_PowerState exampleMoVM = VirtualMachinePowerStatePoweredOff)
          exampleArgs = ([], None)"
    using sw by (simp add: exampleWorld_def exampleMoVM_def)
  from host_lookup_failure_returned_after_projection[of ?W exampleMoVM "''host-42''"
      "ErrorString ''host lookup failed''" exampleVM exampleEnv exampleArgs,
      rule_format, OF h, THEN conjunct2, rule_format, OF p]
  show ?thesis by simp
qed

text \<open>
  Counterexample to C6 as stated: the VM carries the cluster-module and the tag
  annotation, and the host-name lookup fails. The pass returns the aggregated error
  after the calls of the projection and makes no call of the affinity attachment,
  which on the VM as the projection left it would have checked the membership and
  attached the tag.
\<close>

theorem host_lookup_failure_counterexample:
  "UpdateVirtualMachine exampleEnv
     (exampleWorld\<lparr>ObjectName := (\<lambda>host. Inl (ErrorString ''host lookup failed''))\<rparr>)
     (exampleVM\<lparr>Annotations := [''vsphere-cluster-module-group'' \<mapsto> ''workers'',
                                   ''vsphere-tag'' \<mapsto> ''WorkerVmVmAATag'']\<rparr>)
     exampleArgs
   = (exampleVM\<lparr>Annotations := [''vsphere-cluster-module-group'' \<mapsto> ''workers'',
                                   ''vsphere-tag'' \<mapsto> ''WorkerVmVmAATag''],
                 Status := exampleStatus\<lparr>Phase := ''Created'', Status_PowerState := ''poweredOn'',
                   UniqueID := ''vm-1001'', BiosUUID := ''bios-1'', InstanceUUID := ''instance-1'',
                   Status_ChangeBlockTracking := Some False\<rparr>\<rparr>,
      [Call_GetVirtualMachine, Call_GetProperties [''config'', ''runtime''],
       Call_GetProperties [''config.changeTrackingEnabled'', ''guest'', ''summary''],
       Call_ObjectName ''host-42''],
      Some (Error (AggregateError [ErrorString ''host lookup failed''])))
   \<and> attachTagsAndModules exampleEnv
       (exampleWorld\<lparr>ObjectName := (\<lambda>host. Inl (ErrorString ''host lookup failed''))\<rparr>)
       (exampleVM\<lparr>Annotations := [''vsphere-cluster-module-group'' \<mapsto> ''workers'',
                                     ''vsphere-tag'' \<mapsto> ''WorkerVmVmAATag''],
                   Status := exampleStatus\<lparr>Phase := ''Created'', Status_PowerState := ''poweredOn'',
                     UniqueID := ''vm-1001'', BiosUUID := ''bios-1'', InstanceUUID := ''instance-1'',
                     Status_ChangeBlockTracking := Some False\<rparr>\<rparr>)
       (ResourcePolicy exampleArgs)
     = ([Call_IsVmMemberOfClusterModule ''module-1'',
         Call_AttachTagToVm ''worker-tag'' ''anti-affinity''], None)"
proof -
  let ?W = "exampleWorld\<lparr>ObjectName := (\<lambda>host. Inl (ErrorString ''host lookup failed''))\<rparr>"
  let ?a = "[''vsphere-cluster-module-group'' \<mapsto> ''workers'',
            ''vsphere-tag'' \<mapsto> ''WorkerVmVmAATag'']"
  let ?vm = "exampleVM\<lparr>Annotations := ?a\<rparr>"
  let ?st = "exampleStatus\<lparr>Phase := ''Created'', Status_PowerState := ''poweredOn'',
                   UniqueID := ''vm-1001'', BiosUUID := ''bios-1'', InstanceUUID := ''instance-1'',
                   Status_ChangeBlockTracking := Some False\<rparr>"
  let ?vm1 = "?vm\<lparr>Status := (Status ?vm)\<lparr>BiosUUID := Config_Uuid exampleConfig\<rparr>\<rparr>"
  have sw: "UpdateVirtualMachine_switch exampleEnv ?W ?vm1 exampleMoVM
      (Runtime_PowerState exampleMoVM = VirtualMachinePowerStatePoweredOff) exampleArgs
      = ([], None)"
    using example_switch_eval[where W = ?W and a = ?a
        and s = "(Status ?vm)\<lparr>BiosUUID := Config_Uuid exampleConfig\<rparr>"]
    by simp
  have st: "updateVMStatus ?W ?vm1 =
      (?vm\<lparr>Status := ?st\<rparr>,
       [Call_GetProperties [''config.changeTrackingEnabled'', ''guest'', ''summary''],
        Call_ObjectName ''host-42''],
       Some (Error (AggregateError [ErrorString ''host lookup failed''])))"
    by (simp add: updateVMStatus_def updateVMStatus_host_def updateVMStatus_guest_def
        updateVMStatus_config_def NewAggregate_def Let_def Created_def
        exampleWorld_def exampleMoVM_def exampleVM_def exampleStatus_def exampleConfig_def)
  have g: "GetVirtualMachine ?W = None" "GetProperties_config_runtime ?W = Inr exampleMoVM"
    "Config exampleMoVM = Some exampleConfig"
    by (simp_all add: exampleWorld_def exampleMoVM_def)
  have u: "UpdateVirtualMachine exampleEnv ?W ?vm exampleArgs =
      (?vm\<lparr>Status := ?st\<rparr>,
       [Call_GetVirtualMachine, Call_GetProperties [''config'', ''runtime''],
        Call_GetProperties [''config.changeTrackingEnabled'', ''guest'', ''summary''],
        Call_ObjectName ''host-42''],
       Some (Error (AggregateError [ErrorString ''host lookup failed''])))"
    using UpdateVirtualMachine_status_failure[OF g sw st] by simp
  have at: "attachTagsAndModules exampleEnv ?W (?vm\<lparr>Status := ?st\<rparr>) (ResourcePolicy exampleArgs)
     = ([Call_IsVmMemberOfClusterModule ''module-1'',
         Call_AttachTagToVm ''worker-tag'' ''anti-affinity''], None)"
    by (simp add: attachTagsAndModules_def mapIndex_def Let_def exampleEnv_def exampleVM_def
        exampleArgs_def exampleWorld_def)
  show ?thesis
    by (intro conjI) (use u in simp, use at in simp)
qed

lemma currentExtraConfigLoop_keeps:
  "currentExtraConfigLoop extraConfig m = Inr cur \<Longrightarrow> m k \<noteq> None \<Longrightarrow> cur k \<noteq> None"
proof (induction extraConfig arbitrary: m)
  case Nil
  then show ?case by simp
next
  case (Cons opt rest)
  show ?case
  proof (cases opt)
    case None
    with Cons show ?thesis by simp
  next
    case (Some optValue)
    show ?thesis
    proof (cases "OptionValue_Value optValue")
      case (AnyString s)
      with Some Cons.prems
      have l: "currentExtraConfigLoop rest (m(OptionValue_Key optValue \<mapsto> s)) = Inr cur"
        by simp
      from Cons.prems(2) have "(m(OptionValue_Key optValue \<mapsto> s)) k \<noteq> None" by simp
      from Cons.IH[OF l this] show ?thesis .
    next
      case (AnyOther t)
      with Some Cons.prems show ?thesis by simp
    qed
  qed
qed

lemma currentExtraConfigLoop_present:
  "currentExtraConfigLoop extraConfig m = Inr cur \<Longrightarrow> Some optValue \<in> set extraConfig
   \<Longrightarrow> cur (OptionValue_Key optValue) \<noteq> None"
proof (induction extraConfig arbitrary: m)
  case Nil
  then show ?case by simp
next
  case (Cons opt rest)
  show ?case
  proof (cases opt)
    case None
    with Cons show ?thesis by simp
  next
    case (Some ov)
    show ?thesis
    proof (cases "OptionValue_Value ov")
      case (AnyString s)
      with Some Cons.prems(1)
      have l: "currentExtraConfigLoop rest (m(OptionValue_Key ov \<mapsto> s)) = Inr cur" by simp
      show ?thesis
      proof (cases "ov = optValue")
        case True
        have "(m(OptionValue_Key ov \<mapsto> s)) (OptionValue_Key optValue) \<noteq> None"
          using True by simp
        from currentExtraConfigLoop_keeps[OF l this] show ?thesis .
      next
        case False
        with Some Cons.prems(2) have "Some optValue \<in> set rest" by simp
        from Cons.IH[OF l this] show ?thesis .
      qed
    next
      case (AnyOther t)
      with Some Cons.prems show ?thesis by simp
    qed
  qed
qed

lemma extraConfigLoop_new_entries:
  "ov \<in> set (extraConfigLoop ks extraConfig cur acc) \<Longrightarrow>
     ov \<in> set acc \<or> cur (OptionValue_Key ov) = None"
proof (induction ks arbitrary: acc)
  case Nil
  then show ?case by simp
next
  case (Cons k ks)
  show ?case
  proof (cases "extraConfig k")
    case None
    with Cons show ?thesis by simp
  next
    case (Some v)
    show ?thesis
    proof (cases "cur k = None")
      case True
      with Some Cons.prems
      have "ov \<in> set (extraConfigLoop ks extraConfig cur
               (acc @ [\<lparr>OptionValue_Key = k, OptionValue_Value = AnyString v\<rparr>]))" by simp
      from Cons.IH[OF this] True show ?thesis by auto
    next
      case False
      with Some Cons.prems have "ov \<in> set (extraConfigLoop ks extraConfig cur acc)" by simp
      from Cons.IH[OF this] show ?thesis .
    qed
  qed
qed

lemma currentExtraConfigLoop_value:
  "currentExtraConfigLoop extraConfig m = Inr cur \<Longrightarrow>
     map_option AnyString (cur k)
       = (case map_of (rev (extraConfigEntries extraConfig)) k of
            None \<Rightarrow> map_option AnyString (m k)
          | Some v \<Rightarrow> Some v)"
proof (induction extraConfig arbitrary: m)
  case Nil
  then show ?case by simp
next
  case (Cons opt rest)
  show ?case
  proof (cases opt)
    case None
    with Cons show ?thesis by simp
  next
    case (Some optValue)
    show ?thesis
    proof (cases "OptionValue_Value optValue")
      case (AnyString s)
      with Some Cons.prems
      have l: "currentExtraConfigLoop rest (m(OptionValue_Key optValue \<mapsto> s)) = Inr cur"
        by simp
      from Cons.IH[OF l] Some AnyString show ?thesis
        by (simp add: map_add_def split: option.splits)
    next
      case (AnyOther t)
      with Some Cons.prems show ?thesis by simp
    qed
  qed
qed

lemma currentExtraConfigLoop_ready:
  assumes cur: "currentExtraConfigLoop (Config_ExtraConfig config) Map.empty = Inr cur"
    and p: "cur k \<noteq> None"
  shows "mapIndex cur k = v \<longleftrightarrow> currentExtraConfigValue config k = Some (AnyString v)"
proof -
  from p obtain s where s: "cur k = Some s" by blast
  from currentExtraConfigLoop_value[OF cur, of k] s
  have "currentExtraConfigValue config k = Some (AnyString s)"
    by (simp add: currentExtraConfigValue_def split: option.splits)
  with s show ?thesis by (simp add: mapIndex_def)
qed

lemma updateConfigSpecExtraConfig_present_key:
  assumes r: "updateConfigSpecExtraConfig E config configSpec vmImage vmClassSpec vm vmMetadata
                globalExtraConfig = Inr configSpec'"
    and p: "Some optValue \<in> set (Config_ExtraConfig config)"
    and ov: "ov \<in> set (extraConfigFor (OptionValue_Key optValue) configSpec')"
  shows "ov \<in> set (ExtraConfig configSpec)
     \<or> (OptionValue_Key optValue = VMOperatorV1Alpha1ExtraConfigKey E
        \<and> ov = \<lparr>OptionValue_Key = VMOperatorV1Alpha1ExtraConfigKey E,
                 OptionValue_Value = AnyString (VMOperatorV1Alpha1ConfigEnabled E)\<rparr>
        \<and> V1Alpha1CompatibleCondition_IsTrue vmImage
        \<and> currentExtraConfigValue config (VMOperatorV1Alpha1ExtraConfigKey E)
            = Some (AnyString (VMOperatorV1Alpha1ConfigReady E)))"
proof -
  from r obtain cur where cur: "currentExtraConfigLoop (Config_ExtraConfig config) Map.empty = Inr cur"
    by (auto simp: updateConfigSpecExtraConfig_def Let_def split: sum.splits)
  let ?appended = "extraConfigLoop (rangeOrder E)
      (desiredExtraConfig E vmClassSpec vm vmMetadata globalExtraConfig) cur (ExtraConfig configSpec)"
  let ?legacy = "\<lparr>OptionValue_Key = VMOperatorV1Alpha1ExtraConfigKey E,
                 OptionValue_Value = AnyString (VMOperatorV1Alpha1ConfigEnabled E)\<rparr>"
  let ?ready = "mapIndex cur (VMOperatorV1Alpha1ExtraConfigKey E) = VMOperatorV1Alpha1ConfigReady E"
  from currentExtraConfigLoop_present[OF cur p]
  have present: "cur (OptionValue_Key optValue) \<noteq> None" .
  from ov have key: "OptionValue_Key ov = OptionValue_Key optValue"
    and mem: "ov \<in> set (ExtraConfig configSpec')"
    by (simp_all add: extraConfigFor_def)
  from r cur have "ExtraConfig configSpec' = ?appended
      \<or> (ExtraConfig configSpec' = ?appended @ [?legacy]
         \<and> V1Alpha1CompatibleCondition_IsTrue vmImage \<and> ?ready)"
    by (auto simp: updateConfigSpecExtraConfig_def Let_def split: if_splits)
  with mem have "ov \<in> set ?appended
      \<or> (ov = ?legacy \<and> V1Alpha1CompatibleCondition_IsTrue vmImage \<and> ?ready)"
    by auto
  then show ?thesis
  proof
    assume "ov \<in> set ?appended"
    from extraConfigLoop_new_entries[OF this] present key show ?thesis by simp
  next
    assume l: "ov = ?legacy \<and> V1Alpha1CompatibleCondition_IsTrue vmImage \<and> ?ready"
    with key have k: "OptionValue_Key optValue = VMOperatorV1Alpha1ExtraConfigKey E" by simp
    with present have "cur (VMOperatorV1Alpha1ExtraConfigKey E) \<noteq> None" by simp
    from currentExtraConfigLoop_ready[OF cur this, of "VMOperatorV1Alpha1ConfigReady E"] l
    have "currentExtraConfigValue config (VMOperatorV1Alpha1ExtraConfigKey E)
            = Some (AnyString (VMOperatorV1Alpha1ConfigReady E))" by simp
    with l k show ?thesis by simp
  qed
qed

lemma ExtraConfig_before_extra:
  "ExtraConfig (updateConfigSpecMemoryAllocation E config
              (updateConfigSpecCPUAllocation E config
                 (updateHardwareConfigSpec E config defaultConfigSpec vmClassSpec)
                 vmClassSpec minCPUFreq) vmClassSpec) = []"
  by (simp add: updateConfigSpecMemoryAllocation_def updateConfigSpecCPUAllocation_def
      updateHardwareConfigSpec_def defaultConfigSpec_def Let_def)

lemma updateConfigSpec_ExtraConfig:
  assumes "updateConfigSpec E vm config vmImage vmClassSpec vmMetadata globalExtraConfig
             minCPUFreq = Inr delta"
  shows "\<exists>configSpec3 configSpec4.
      ExtraConfig configSpec3 = []
      \<and> updateConfigSpecExtraConfig E config configSpec3 vmImage vmClassSpec vm vmMetadata
           globalExtraConfig = Inr configSpec4
      \<and> ExtraConfig delta = ExtraConfig configSpec4"
proof -
  let ?s3 = "updateConfigSpecMemoryAllocation E config
              (updateConfigSpecCPUAllocation E config
                 (updateHardwareConfigSpec E config defaultConfigSpec vmClassSpec)
                 vmClassSpec minCPUFreq) vmClassSpec"
  from assms obtain s4 where s4: "updateConfigSpecExtraConfig E config ?s3 vmImage vmClassSpec vm
        vmMetadata globalExtraConfig = Inr s4"
    and d: "delta = updateConfigSpecChangeBlockTracking config
               (updateConfigSpecVAppConfig E config s4 vmMetadata) (Spec vm)"
    by (auto simp: updateConfigSpec_def Let_def split: sum.splits)
  have "ExtraConfig delta = ExtraConfig s4"
    by (simp add: d updateConfigSpecChangeBlockTracking_def updateConfigSpecVAppConfig_def
        split: option.splits)
  with s4 ExtraConfig_before_extra[of E config vmClassSpec minCPUFreq] show ?thesis by blast
qed

text \<open>
  Claim C4, as amended. For a key that has an entry in the current extra-config, the
  extra-config builder adds no entry taken from the desired table: the only entry it can
  add for such a key is the one for the v1alpha1 compatibility key, set to the enabled
  marker, when the image has the v1alpha1-compatible condition and the current value of
  that key (the value of its last entry) is the ready marker. So the config spec that
  \<open>updateConfigSpec\<close> builds has no entry for a key of the current extra-config, unless
  the key is the compatibility key, the image is compatible and the current value of the
  key is the ready marker.
\<close>

theorem extra_config_keeps_present_keys:
  "(\<forall>configSpec' optValue.
      updateConfigSpecExtraConfig E config configSpec vmImage vmClassSpec vm vmMetadata
        globalExtraConfig = Inr configSpec'
      \<and> Some optValue \<in> set (Config_ExtraConfig config) \<longrightarrow>
        (\<forall>ov \<in> set (extraConfigFor (OptionValue_Key optValue) configSpec').
           ov \<in> set (ExtraConfig configSpec)
           \<or> (OptionValue_Key optValue = VMOperatorV1Alpha1ExtraConfigKey E
              \<and> ov = \<lparr>OptionValue_Key = VMOperatorV1Alpha1ExtraConfigKey E,
                       OptionValue_Value = AnyString (VMOperatorV1Alpha1ConfigEnabled E)\<rparr>
              \<and> V1Alpha1CompatibleCondition_IsTrue vmImage
              \<and> currentExtraConfigValue config (VMOperatorV1Alpha1ExtraConfigKey E)
                  = Some (AnyString (VMOperatorV1Alpha1ConfigReady E)))))
   \<and> (\<forall>delta optValue.
      updateConfigSpec E vm config vmImage vmClassSpec vmMetadata globalExtraConfig minCPUFreq
        = Inr delta
      \<and> Some optValue \<in> set (Config_ExtraConfig config)
      \<and> \<not> (OptionValue_Key optValue = VMOperatorV1Alpha1ExtraConfigKey E
             \<and> V1Alpha1CompatibleCondition_IsTrue vmImage
             \<and> currentExtraConfigValue config (VMOperatorV1Alpha1ExtraConfigKey E)
                 = Some (AnyString (VMOperatorV1Alpha1ConfigReady E))) \<longrightarrow>
        extraConfigFor (OptionValue_Key optValue) delta = [])"
proof (intro conjI allI impI ballI)
  fix configSpec' optValue ov
  assume a: "updateConfigSpecExtraConfig E config configSpec vmImage vmClassSpec vm vmMetadata
        globalExtraConfig = Inr configSpec'
      \<and> Some optValue \<in> set (Config_ExtraConfig config)"
  assume ov: "ov \<in> set (extraConfigFor (OptionValue_Key optValue) configSpec')"
  from a have r: "updateConfigSpecExtraConfig E config configSpec vmImage vmClassSpec vm
        vmMetadata globalExtraConfig = Inr configSpec'"
    and p: "Some optValue \<in> set (Config_ExtraConfig config)" by blast+
  from updateConfigSpecExtraConfig_present_key[OF r p ov]
  show "ov \<in> set (ExtraConfig configSpec)
           \<or> (OptionValue_Key optValue = VMOperatorV1Alpha1ExtraConfigKey E
              \<and> ov = \<lparr>OptionValue_Key = VMOperatorV1Alpha1ExtraConfigKey E,
                       OptionValue_Value = AnyString (VMOperatorV1Alpha1ConfigEnabled E)\<rparr>
              \<and> V1Alpha1CompatibleCondition_IsTrue vmImage
              \<and> currentExtraConfigValue config (VMOperatorV1Alpha1ExtraConfigKey E)
                  = Some (AnyString (VMOperatorV1Alpha1ConfigReady E)))" .
next
  fix delta optValue
  assume a: "updateConfigSpec E vm config vmImage vmClassSpec vmMetadata globalExtraConfig
        minCPUFreq = Inr delta
      \<and> Some optValue \<in> set (Config_ExtraConfig config)
      \<and> \<not> (OptionValue_Key optValue = VMOperatorV1Alpha1ExtraConfigKey E
             \<and> V1Alpha1CompatibleCondition_IsTrue vmImage
             \<and> currentExtraConfigValue config (VMOperatorV1Alpha1ExtraConfigKey E)
                 = Some (AnyString (VMOperatorV1Alpha1ConfigReady E)))"
  then have u: "updateConfigSpec E vm config vmImage vmClassSpec vmMetadata globalExtraConfig
        minCPUFreq = Inr delta"
    and p: "Some optValue \<in> set (Config_ExtraConfig config)"
    and k: "\<not> (OptionValue_Key optValue = VMOperatorV1Alpha1ExtraConfigKey E
             \<and> V1Alpha1CompatibleCondition_IsTrue vmImage
             \<and> currentExtraConfigValue config (VMOperatorV1Alpha1ExtraConfigKey E)
                 = Some (AnyString (VMOperatorV1Alpha1ConfigReady E)))" by blast+
  from updateConfigSpec_ExtraConfig[OF u] obtain s3 s4 where
    e3: "ExtraConfig s3 = []"
    and r: "updateConfigSpecExtraConfig E config s3 vmImage vmClassSpec vm vmMetadata
           globalExtraConfig = Inr s4"
    and e: "ExtraConfig delta = ExtraConfig s4" by blast
  have "extraConfigFor (OptionValue_Key optValue) s4 = []"
  proof (cases "extraConfigFor (OptionValue_Key optValue) s4")
    case Nil
    then show ?thesis .
  next
    case (Cons ov rest)
    then have "ov \<in> set (extraConfigFor (OptionValue_Key optValue) s4)" by simp
    from updateConfigSpecExtraConfig_present_key[OF r p this] e3 k show ?thesis by simp
  qed
  then show "extraConfigFor (OptionValue_Key optValue) delta = []"
    using e by (simp add: extraConfigFor_def)
qed

text \<open>
  Witness for C4: the current extra-config has \<open>guestinfo.hostname = old\<close>, the desired
  table has \<open>guestinfo.hostname = new\<close> and \<open>guestinfo.role = worker\<close>. The config spec
  has the entry for the absent key and none for the present one.
\<close>

theorem extra_config_keeps_present_keys_witness:
  "updateConfigSpec
     (exampleEnv\<lparr>rangeOrder := [''guestinfo.hostname'', ''guestinfo.role'']\<rparr>) exampleVM
     (exampleConfig\<lparr>Config_ExtraConfig :=
        [Some \<lparr>OptionValue_Key = ''guestinfo.hostname'', OptionValue_Value = AnyString ''old''\<rparr>]\<rparr>)
     (VmImage exampleArgs) exampleClassSpec None
     [''guestinfo.hostname'' \<mapsto> ''new'', ''guestinfo.role'' \<mapsto> ''worker''] 2000
   = Inr (defaultConfigSpec\<lparr>ExtraConfig :=
        [\<lparr>OptionValue_Key = ''guestinfo.role'', OptionValue_Value = AnyString ''worker''\<rparr>]\<rparr>)
   \<and> extraConfigFor ''guestinfo.hostname'' (defaultConfigSpec\<lparr>ExtraConfig :=
        [\<lparr>OptionValue_Key = ''guestinfo.role'', OptionValue_Value = AnyString ''worker''\<rparr>]\<rparr>)
     = []"
proof -
  let ?E = "exampleEnv\<lparr>rangeOrder := [''guestinfo.hostname'', ''guestinfo.role'']\<rparr>"
  let ?ov = "\<lparr>OptionValue_Key = ''guestinfo.hostname'', OptionValue_Value = AnyString ''old''\<rparr>"
  let ?config = "exampleConfig\<lparr>Config_ExtraConfig := [Some ?ov]\<rparr>"
  let ?g = "[''guestinfo.hostname'' \<mapsto> ''new'', ''guestinfo.role'' \<mapsto> ''worker'']"
  let ?delta = "defaultConfigSpec\<lparr>ExtraConfig :=
        [\<lparr>OptionValue_Key = ''guestinfo.role'', OptionValue_Value = AnyString ''worker''\<rparr>]\<rparr>"
  have ev: "updateConfigSpec ?E exampleVM ?config (VmImage exampleArgs) exampleClassSpec None ?g 2000
      = Inr ?delta"
    by (simp add: updateConfigSpec_def updateHardwareConfigSpec_def
      updateConfigSpecCPUAllocation_def updateConfigSpecMemoryAllocation_def
      updateConfigSpecExtraConfig_def updateConfigSpecVAppConfig_def
      updateConfigSpecChangeBlockTracking_def desiredExtraConfig_def
      exampleEnv_def exampleVM_def exampleConfig_def exampleArgs_def exampleClassSpec_def
      IsZero_def mapIndex_def defaultConfigSpec_def Let_def)
  have h: "updateConfigSpec ?E exampleVM ?config (VmImage exampleArgs) exampleClassSpec None ?g 2000
      = Inr ?delta
      \<and> Some ?ov \<in> set (Config_ExtraConfig ?config)
      \<and> \<not> (OptionValue_Key ?ov = VMOperatorV1Alpha1ExtraConfigKey ?E
             \<and> V1Alpha1CompatibleCondition_IsTrue (VmImage exampleArgs)
             \<and> currentExtraConfigValue ?config (VMOperatorV1Alpha1ExtraConfigKey ?E)
                 = Some (AnyString (VMOperatorV1Alpha1ConfigReady ?E)))"
    using ev by (simp add: exampleEnv_def)
  from extra_config_keeps_present_keys[of ?E ?config _ "VmImage exampleArgs" exampleClassSpec
      exampleVM None ?g 2000, THEN conjunct2, rule_format, OF h]
  have "extraConfigFor ''guestinfo.hostname'' ?delta = []" by simp
  with ev show ?thesis by (intro conjI)
qed

text \<open>
  Counterexample to C4 as stated: the key is the v1alpha1 compatibility key, present in
  the current extra-config with the value \<open>ready\<close>; the desired table maps it to
  \<open>disabled\<close> and the image is v1alpha1-compatible. The builder's config spec has an
  entry for the key.
\<close>

theorem extra_config_keeps_present_keys_counterexample:
  "updateConfigSpecExtraConfig
     (exampleEnv\<lparr>rangeOrder := [''guestinfo.vmservice.defer-cloud-init'']\<rparr>)
     (exampleConfig\<lparr>Config_ExtraConfig :=
        [Some \<lparr>OptionValue_Key = ''guestinfo.vmservice.defer-cloud-init'',
               OptionValue_Value = AnyString ''ready''\<rparr>]\<rparr>)
     defaultConfigSpec \<lparr>V1Alpha1CompatibleCondition_IsTrue = True\<rparr> exampleClassSpec exampleVM None
     [''guestinfo.vmservice.defer-cloud-init'' \<mapsto> ''disabled'']
   = Inr (defaultConfigSpec\<lparr>ExtraConfig :=
        [\<lparr>OptionValue_Key = ''guestinfo.vmservice.defer-cloud-init'',
          OptionValue_Value = AnyString ''enabled''\<rparr>]\<rparr>)
   \<and> VMOperatorV1Alpha1ExtraConfigKey exampleEnv = ''guestinfo.vmservice.defer-cloud-init''"
  by (simp add: updateConfigSpecExtraConfig_def desiredExtraConfig_def
      exampleEnv_def exampleVM_def exampleConfig_def exampleClassSpec_def
      mapIndex_def defaultConfigSpec_def Let_def)

end
